theory Spec2Isabelle
  imports Complex_Main "HOL-Library.AList" "HOL-Library.Log_Nat"
begin

section \<open>JavaScript values and stored documents\<close>

text \<open>
  The development follows the later of the two revisions of \<^verbatim>\<open>app.js\<close> (the one with the
  non-strict movie schema, \<^verbatim>\<open>movieIdFilter\<close> and \<^verbatim>\<open>pick\<close>).

  A number is \<^verbatim>\<open>NaN\<close>, one of the two infinities, or a finite value, given as the
  rational it denotes (the two zeros are not told apart). The coercion of a string yields
  binary64 doubles only; a stored number may be any finite value, whatever numeric type
  the store keeps it in. A field of a stored document holds a scalar JavaScript value;
  arrays and nested documents are not represented.
\<close>

datatype jsnum = NaN | PosInf | NegInf | Fin rat

datatype jsval =
    JUndefined
  | JNull
  | JBool bool
  | JNum jsnum
  | JStr string
  | JDate int

text \<open>
  A document of the movies collection: the store-assigned \<^verbatim>\<open>_id\<close>, in the form that
  \<^verbatim>\<open>toString()\<close> gives (24 lower-case hexadecimal digits), and the remaining fields in
  order. The schema is not strict, so any field name may occur.
\<close>

record doc =
  oid :: string
  props :: "(string \<times> jsval) list"

text \<open>\<^verbatim>\<open>obj[n]\<close>: a missing property reads as \<^verbatim>\<open>undefined\<close>.\<close>

definition get :: "(string \<times> jsval) list \<Rightarrow> string \<Rightarrow> jsval" where
  "get obj n = (case map_of obj n of None \<Rightarrow> JUndefined | Some v \<Rightarrow> v)"

text \<open>\<^verbatim>\<open>v == null\<close> holds of \<^verbatim>\<open>null\<close> and \<^verbatim>\<open>undefined\<close> only.\<close>

definition nullish :: "jsval \<Rightarrow> bool" where
  "nullish v = (v = JNull \<or> v = JUndefined)"

section \<open>Field normalizer\<close>

text \<open>
  \<^verbatim>\<open>const pick = (obj, names, fb = '') =>
    names.find(n => obj[n] != null) ? obj[names.find(n => obj[n] != null)] : fb;\<close>

  \<^verbatim>\<open>names.find\<close> yields the first name that passes the test, or \<^verbatim>\<open>undefined\<close>; the
  conditional tests that result for truthiness, and the empty string is falsy.
\<close>

definition pick :: "(string \<times> jsval) list \<Rightarrow> string list \<Rightarrow> string \<Rightarrow> jsval" where
  "pick obj names fb =
     (case find (\<lambda>n. \<not> nullish (get obj n)) names of
        None \<Rightarrow> JStr fb
      | Some n \<Rightarrow>
          if n = [] then JStr fb
          else (case find (\<lambda>n. \<not> nullish (get obj n)) names of
                  None \<Rightarrow> get obj []
                | Some m \<Rightarrow> get obj m))"

definition title_names :: "string list" where
  "title_names = [''movie_title'', ''title'', ''Title'', ''name'', ''Name'', ''MovieTitle'']"

definition id_names :: "string list" where
  "id_names = [''movie_id'', ''movieId'', ''movieid'', ''MovieID'', ''id'', ''Id'', ''ID'']"

definition released_names :: "string list" where
  "released_names = [''Released'', ''released'', ''release_year'', ''releaseYear'', ''year'',
     ''Year'', ''ReleaseDate'', ''release_date'']"

text \<open>The view of one movie that the home page hands to its template.\<close>

record movie_view =
  view_id :: string
  movie_title :: jsval
  movie_id :: jsval
  Released :: jsval

definition normalize_movie :: "doc \<Rightarrow> movie_view" where
  "normalize_movie d =
     \<lparr> view_id = oid d,
       movie_title = pick (props d) title_names ''(no title)'',
       movie_id = pick (props d) id_names '''',
       Released = pick (props d) released_names '''' \<rparr>"
section \<open>Strings and the coercion to numbers\<close>

text \<open>
  A character is one code unit below 256; the white space of ECMAScript beyond that range
  is not represented.
\<close>

definition is_space :: "char \<Rightarrow> bool" where
  "is_space c = (c \<in> set [CHR 0x09, CHR 0x0A, CHR 0x0B, CHR 0x0C, CHR 0x0D, CHR 0x20, CHR 0xA0])"

text \<open>\<^verbatim>\<open>String.prototype.trim\<close>, and the \<^verbatim>\<open>trim()\<close> sanitizer of the validation chains.\<close>

definition trim :: "string \<Rightarrow> string" where
  "trim s = rev (dropWhile is_space (rev (dropWhile is_space s)))"

definition digit_of :: "char \<Rightarrow> int option" where
  "digit_of c =
     (let n = (of_char c :: int) in
      if 48 \<le> n \<and> n \<le> 57 then Some (n - 48)
      else if 97 \<le> n \<and> n \<le> 102 then Some (n - 87)
      else if 65 \<le> n \<and> n \<le> 70 then Some (n - 55)
      else None)"

definition is_radix_digit :: "int \<Rightarrow> char \<Rightarrow> bool" where
  "is_radix_digit b c = (case digit_of c of None \<Rightarrow> False | Some v \<Rightarrow> v < b)"

definition is_digit :: "char \<Rightarrow> bool" where
  "is_digit c = is_radix_digit 10 c"

definition radix_value :: "int \<Rightarrow> string \<Rightarrow> int" where
  "radix_value b ds = foldl (\<lambda>a c. a * b + (case digit_of c of None \<Rightarrow> 0 | Some v \<Rightarrow> v)) 0 ds"

definition scale10 :: "rat \<Rightarrow> int \<Rightarrow> rat" where
  "scale10 m e = (if 0 \<le> e then m * 10 ^ nat e else m / 10 ^ nat (- e))"

subsection \<open>Rounding to a double\<close>

definition pow2 :: "int \<Rightarrow> rat" where
  "pow2 k = (if 0 \<le> k then 2 ^ nat k else 1 / 2 ^ nat (- k))"

text \<open>
  The binary exponent of a positive rational \<open>r\<close>, the \<open>k\<close> with \<open>pow2 k \<le> r < pow2 (k + 1)\<close>:
  the difference of the bit lengths of numerator and denominator, or one less.
\<close>

definition binade :: "rat \<Rightarrow> int" where
  "binade r =
     (case quotient_of r of
        (p, q) \<Rightarrow> let k = bitlen p - bitlen q in if pow2 k \<le> r then k else k - 1)"

definition round_half_even :: "rat \<Rightarrow> int" where
  "round_half_even x =
     (let n = \<lfloor>x\<rfloor>; f = x - of_int n
      in if f < 1 / 2 then n else if 1 / 2 < f then n + 1 else if even n then n else n + 1)"

text \<open>
  The double nearest to a rational, ties to the even significand: 53 significant bits in
  the normal range, a fixed step of \<open>pow2 (- 1074)\<close> below \<open>pow2 (- 1022)\<close> (so that a value
  under half a step becomes zero), and an infinity when the rounded value reaches
  \<open>pow2 1024\<close>.
\<close>

definition to_double :: "rat \<Rightarrow> jsnum" where
  "to_double r =
     (if r = 0 then Fin 0
      else
        let a = \<bar>r\<bar>;
            e = max (binade a) (- 1022) - 52;
            v = of_int (round_half_even (a / pow2 e)) * pow2 e
        in if pow2 1024 \<le> v then (if r < 0 then NegInf else PosInf)
           else Fin (if r < 0 then - v else v))"

definition negate :: "jsnum \<Rightarrow> jsnum" where
  "negate n = (case n of NaN \<Rightarrow> NaN | PosInf \<Rightarrow> NegInf | NegInf \<Rightarrow> PosInf | Fin r \<Rightarrow> Fin (- r))"

subsection \<open>Numeric literals in strings\<close>

text \<open>The exponent part of a decimal literal: nothing, or \<open>e\<close>/\<open>E\<close>, a sign and digits.\<close>

definition exponent_digits :: "string \<Rightarrow> int option" where
  "exponent_digits ds =
     (if ds \<noteq> [] \<and> list_all is_digit ds then Some (radix_value 10 ds) else None)"

definition exponent_part :: "string \<Rightarrow> int option" where
  "exponent_part s =
     (case s of
        [] \<Rightarrow> Some 0
      | c # r \<Rightarrow>
          if c = CHR ''e'' \<or> c = CHR ''E'' then
            (case r of
               [] \<Rightarrow> None
             | d # r' \<Rightarrow>
                 if d = CHR ''+'' then exponent_digits r'
                 else if d = CHR ''-'' then map_option uminus (exponent_digits r')
                 else exponent_digits r)
          else None)"

text \<open>
  An unsigned decimal literal: \<open>Infinity\<close>, digits with an optional fraction, or a fraction
  alone, each with an optional exponent. Its value is rounded to a double.
\<close>

definition unsigned_decimal :: "string \<Rightarrow> jsnum" where
  "unsigned_decimal s =
     (if s = ''Infinity'' then PosInf
      else
        let ip = takeWhile is_digit s;
            r1 = dropWhile is_digit s;
            fp = (case r1 of [] \<Rightarrow> [] | c # t \<Rightarrow> if c = CHR ''.'' then takeWhile is_digit t else []);
            r2 = (case r1 of [] \<Rightarrow> [] | c # t \<Rightarrow> if c = CHR ''.'' then dropWhile is_digit t else r1)
        in if ip = [] \<and> fp = [] then NaN
           else (case exponent_part r2 of
                   None \<Rightarrow> NaN
                 | Some e \<Rightarrow>
                     to_double (scale10 (of_int (radix_value 10 (ip @ fp))) (e - int (length fp)))))"

definition decimal_literal :: "string \<Rightarrow> jsnum" where
  "decimal_literal s =
     (case s of
        [] \<Rightarrow> NaN
      | c # t \<Rightarrow>
          if c = CHR ''+'' then unsigned_decimal t
          else if c = CHR ''-'' then negate (unsigned_decimal t)
          else unsigned_decimal s)"

text \<open>Hexadecimal, octal and binary integer literals carry a prefix and no sign.\<close>

definition radix_of_prefix :: "char \<Rightarrow> int option" where
  "radix_of_prefix c =
     (if c = CHR ''x'' \<or> c = CHR ''X'' then Some 16
      else if c = CHR ''o'' \<or> c = CHR ''O'' then Some 8
      else if c = CHR ''b'' \<or> c = CHR ''B'' then Some 2
      else None)"

definition nondecimal_literal :: "string \<Rightarrow> jsnum option" where
  "nondecimal_literal s =
     (case s of
        z # p # ds \<Rightarrow>
          if z = CHR ''0'' then
            (case radix_of_prefix p of
               None \<Rightarrow> None
             | Some b \<Rightarrow>
                 Some (if ds \<noteq> [] \<and> list_all (is_radix_digit b) ds
                       then to_double (of_int (radix_value b ds)) else NaN))
          else None
      | _ \<Rightarrow> None)"

text \<open>
  The conversion of a string to a number: surrounding white space is dropped, the empty
  string is \<open>0\<close>, a numeric literal has its value as a double and anything else is
  \<^verbatim>\<open>NaN\<close>.
\<close>

definition StringToNumber :: "string \<Rightarrow> jsnum" where
  "StringToNumber str =
     (let s = trim str in
      if s = [] then Fin 0
      else (case nondecimal_literal s of Some v \<Rightarrow> v | None \<Rightarrow> decimal_literal s))"

text \<open>
  An identifier as a caller supplies it: a string (query string, form field, JSON string)
  or a JSON number. \<^verbatim>\<open>Number(x)\<close> converts a string and leaves a number as it is.
\<close>

datatype supplied = Str string | Num jsnum

definition Number :: "supplied \<Rightarrow> jsnum" where
  "Number x = (case x of Str s \<Rightarrow> StringToNumber s | Num n \<Rightarrow> n)"

text \<open>
  The \<^verbatim>\<open>isNumeric()\<close> validator: an optional sign, then digits, or optional digits, a
  point and digits.
\<close>

definition isNumeric :: "string \<Rightarrow> bool" where
  "isNumeric str =
     (let s = (case str of [] \<Rightarrow> [] | c # t \<Rightarrow> if c = CHR ''+'' \<or> c = CHR ''-'' then t else str);
          a = takeWhile is_digit s;
          b = dropWhile is_digit s
      in case b of
           [] \<Rightarrow> a \<noteq> []
         | c # t \<Rightarrow> c = CHR ''.'' \<and> t \<noteq> [] \<and> list_all is_digit t)"

text \<open>A request parameter is truthy when it is present and not the empty string.\<close>

definition truthy :: "string option \<Rightarrow> bool" where
  "truthy x = (case x of None \<Rightarrow> False | Some s \<Rightarrow> s \<noteq> [])"

subsection \<open>Identifiers of the store\<close>

text \<open>
  The adapter casts the value of an \<^verbatim>\<open>_id\<close> clause to an \<^verbatim>\<open>ObjectId\<close>: a string of 24
  hexadecimal digits is read as the identifier it spells, whatever the case of its
  letters; any other string fails the cast. (Older drivers also read a string of 12
  characters as 12 bytes; that form is not represented.)
\<close>

definition lower_hex :: "char \<Rightarrow> char" where
  "lower_hex c =
     (let n = (of_char c :: nat) in if 65 \<le> n \<and> n \<le> 70 then char_of (n + 32) else c)"

definition castObjectId :: "string \<Rightarrow> string option" where
  "castObjectId v =
     (if length v = 24 \<and> list_all (is_radix_digit 16) v then Some (map lower_hex v) else None)"

section \<open>The two stores\<close>

text \<open>
  The document store is an external collaborator: it is represented by the contents of the
  two collections, in the order in which the store scans them, and every call that reaches
  the store is appended to a log of calls. A call that the adapter refuses (an \<^verbatim>\<open>_id\<close> it
  cannot cast, a document that fails the schema) raises an error and does not reach the
  store. A failure of the store itself is not represented. Of the fields that the adapter
  maintains by itself only the time stamps are kept.
\<close>

record employee =
  eid :: string
  name :: string
  salary :: jsnum
  age :: jsnum

datatype call =
    EmployeeFind
  | EmployeeCreate
  | EmployeeDeleteOne
  | MovieFind
  | MovieFindById
  | MovieFindOne
  | MovieCreate
  | MovieFindOneAndUpdate
  | MovieDeleteOne

text \<open>
  \<open>Movie\<close> is the movie model: \<^verbatim>\<open>null\<close> (here \<open>None\<close>) when \<^verbatim>\<open>MONGODB_URI_MOVIES\<close> was
  not set at start-up, and bound to the movies collection otherwise.
\<close>

record state =
  Employee :: "employee list"
  Movie :: "doc list option"
  calls :: "call list"

text \<open>
  What a request cannot decide by itself: the value of \<^verbatim>\<open>NODE_ENV\<close>, the identifier the
  store assigns to a created record, the time stamp the adapter writes, and the frames the
  runtime records in the stack of a new error.
\<close>

record env =
  NODE_ENV :: "string option"
  newId :: string
  now :: int
  frames :: string

definition logged :: "call \<Rightarrow> state \<Rightarrow> state" where
  "logged c s = s\<lparr> calls := calls s @ [c] \<rparr>"

subsection \<open>Errors\<close>

text \<open>
  One entry of the list that the validation result reports; the value of a field that the
  request lacks is \<^verbatim>\<open>undefined\<close> (here \<open>None\<close>) unless a sanitizer has rewritten it.
\<close>

record field_error =
  ve_value :: "string option"
  ve_msg :: string
  ve_path :: string
  ve_location :: string

text \<open>
  An error object: the properties \<^verbatim>\<open>status\<close> and \<^verbatim>\<open>details\<close> are absent unless a handler
  sets them.
\<close>

record err =
  err_status :: "nat option"
  err_message :: string
  err_details :: "field_error list option"
  err_stack :: string

text \<open>\<^verbatim>\<open>new Error(message)\<close>: no status and no details yet.\<close>

definition Error :: "env \<Rightarrow> string \<Rightarrow> err" where
  "Error e m =
     \<lparr> err_status = None, err_message = m, err_details = None,
       err_stack = ''Error: '' @ m @ frames e \<rparr>"

text \<open>
  The error of a failed cast of \<^verbatim>\<open>_id\<close>; it has no status. Its message quotes the value
  and names the model.
\<close>

definition CastError :: "env \<Rightarrow> string \<Rightarrow> string \<Rightarrow> err" where
  "CastError e v model =
     (let m = ''Cast to ObjectId failed for value '' @ [CHR 0x22] @ v @ [CHR 0x22]
              @ '' (type string) at path '' @ [CHR 0x22] @ ''_id'' @ [CHR 0x22]
              @ '' for model '' @ [CHR 0x22] @ model @ [CHR 0x22]
      in \<lparr> err_status = None, err_message = m, err_details = None,
           err_stack = ''CastError: '' @ m @ frames e \<rparr>)"

subsection \<open>Filters\<close>

datatype qval = QNum jsnum | QStr string

datatype filter_expr = ById string | Eq string qval | Or "filter_expr list"

text \<open>
  The clause on \<^verbatim>\<open>_id\<close> matches the record whose identifier the value spells. An
  equality clause on another field compares within one type: a number matches a stored
  number that the store compares equal to it (\<^verbatim>\<open>NaN\<close> to \<^verbatim>\<open>NaN\<close>, an infinity to itself,
  a finite value to the same value), and a string matches the same stored string.
\<close>

fun matches :: "filter_expr \<Rightarrow> doc \<Rightarrow> bool" where
  "matches (ById v) d = (castObjectId v = Some (oid d))"
| "matches (Eq f q) d =
     (case q of
        QNum n \<Rightarrow> get (props d) f = JNum n
      | QStr s \<Rightarrow> get (props d) f = JStr s)"
| "matches (Or fs) d = list_ex (\<lambda>f. matches f d) fs"

text \<open>The values of the \<^verbatim>\<open>_id\<close> clauses of a filter that fail the cast, in order.\<close>

fun uncastable :: "filter_expr \<Rightarrow> string list" where
  "uncastable (ById v) = (case castObjectId v of None \<Rightarrow> [v] | Some _ \<Rightarrow> [])"
| "uncastable (Eq f q) = []"
| "uncastable (Or fs) = concat (map uncastable fs)"

text \<open>
  \<^verbatim>\<open>const movieIdFilter = (movie_id) => ({
    $or: [{ movie_id: Number(movie_id) }, { movie_id: movie_id }] });\<close>
\<close>

definition movieIdFilter :: "supplied \<Rightarrow> filter_expr" where
  "movieIdFilter raw =
     Or [Eq ''movie_id'' (QNum (Number raw)),
         Eq ''movie_id'' (case raw of Str s \<Rightarrow> QStr s | Num n \<Rightarrow> QNum n)]"

subsection \<open>Adapter calls\<close>

definition Employee_find :: "state \<Rightarrow> employee list \<times> state" where
  "Employee_find s = (Employee s, logged EmployeeFind s)"

text \<open>
  The schema casts \<open>salary\<close> and \<open>age\<close> to numbers (the empty string casts to
  \<^verbatim>\<open>null\<close>, a string that is not a number fails the cast) and requires all three paths.
  The outer \<open>None\<close> is the failed cast, the inner one \<^verbatim>\<open>null\<close>.
\<close>

definition castNumber :: "string option \<Rightarrow> jsnum option option" where
  "castNumber v =
     (case v of
        None \<Rightarrow> Some None
      | Some s \<Rightarrow>
          if s = [] then Some None
          else (case Number (Str s) of NaN \<Rightarrow> None | n \<Rightarrow> Some (Some n)))"

text \<open>
  \<^verbatim>\<open>Employee.create\<close>: a document that fails the schema raises a validation error without
  a status (its message, which lists the failed paths, is abridged here) and nothing is
  stored.
\<close>

definition Employee_create ::
  "env \<Rightarrow> string option \<Rightarrow> string option \<Rightarrow> string option \<Rightarrow> state \<Rightarrow> (err + employee) \<times> state"
  where
  "Employee_create e nm sal ag s =
     (case (nm, castNumber sal, castNumber ag) of
        (Some n, Some (Some x), Some (Some y)) \<Rightarrow>
          if n = [] then (Inl (Error e ''Employee validation failed''), s)
          else
            let r = \<lparr> eid = newId e, name = n, salary = x, age = y \<rparr>
            in (Inr r, logged EmployeeCreate (s\<lparr> Employee := Employee s @ [r] \<rparr>))
      | _ \<Rightarrow> (Inl (Error e ''Employee validation failed''), s))"

fun delete_first :: "('a \<Rightarrow> bool) \<Rightarrow> 'a list \<Rightarrow> nat \<times> 'a list" where
  "delete_first P [] = (0, [])"
| "delete_first P (x # xs) =
     (if P x then (1, xs) else (case delete_first P xs of (n, ys) \<Rightarrow> (n, x # ys)))"

fun update_first :: "('a \<Rightarrow> bool) \<Rightarrow> ('a \<Rightarrow> 'a) \<Rightarrow> 'a list \<Rightarrow> 'a option \<times> 'a list" where
  "update_first P g [] = (None, [])"
| "update_first P g (x # xs) =
     (if P x then (Some (g x), g x # xs)
      else (case update_first P g xs of (r, ys) \<Rightarrow> (r, x # ys)))"

text \<open>
  \<^verbatim>\<open>Employee.deleteOne({ _id: id })\<close> casts the identifier, removes the first record that
  has it and reports how many it removed.
\<close>

definition Employee_deleteOne :: "env \<Rightarrow> string \<Rightarrow> state \<Rightarrow> (err + nat) \<times> state" where
  "Employee_deleteOne e i s =
     (case castObjectId i of
        None \<Rightarrow> (Inl (CastError e i ''Employee''), s)
      | Some c \<Rightarrow>
          (case delete_first (\<lambda>r. eid r = c) (Employee s) of
             (n, es) \<Rightarrow> (Inr n, logged EmployeeDeleteOne (s\<lparr> Employee := es \<rparr>))))"

text \<open>
  The calls on the movie model take the collection that the guard found bound to it. A
  call with a filter casts the filter first.
\<close>

definition Movie_find_limit :: "nat \<Rightarrow> doc list \<Rightarrow> state \<Rightarrow> doc list \<times> state" where
  "Movie_find_limit n ms s = (take n ms, logged MovieFind s)"

definition Movie_findById ::
  "env \<Rightarrow> string \<Rightarrow> doc list \<Rightarrow> state \<Rightarrow> (err + doc option) \<times> state"
  where
  "Movie_findById e i ms s =
     (case uncastable (ById i) of
        v # _ \<Rightarrow> (Inl (CastError e v ''Movie''), s)
      | [] \<Rightarrow> (Inr (find (matches (ById i)) ms), logged MovieFindById s))"

definition Movie_findOne ::
  "env \<Rightarrow> filter_expr \<Rightarrow> doc list \<Rightarrow> state \<Rightarrow> (err + doc option) \<times> state"
  where
  "Movie_findOne e f ms s =
     (case uncastable f of
        v # _ \<Rightarrow> (Inl (CastError e v ''Movie''), s)
      | [] \<Rightarrow> (Inr (find (matches f) ms), logged MovieFindOne s))"

text \<open>
  A property whose value is \<^verbatim>\<open>undefined\<close> is not written. The schema option
  \<^verbatim>\<open>timestamps\<close> adds the two time stamps.
\<close>

definition defined_fields :: "(string \<times> string option) list \<Rightarrow> (string \<times> jsval) list" where
  "defined_fields kvs =
     concat (map (\<lambda>(k, v). case v of None \<Rightarrow> [] | Some x \<Rightarrow> [(k, JStr x)]) kvs)"

definition Movie_create ::
  "env \<Rightarrow> (string \<times> string option) list \<Rightarrow> doc list \<Rightarrow> state \<Rightarrow> doc \<times> state"
  where
  "Movie_create e kvs ms s =
     (let d = \<lparr> oid = newId e,
                props = defined_fields kvs
                        @ [(''createdAt'', JDate (now e)), (''updatedAt'', JDate (now e))] \<rparr>
      in (d, logged MovieCreate (s\<lparr> Movie := Some (ms @ [d]) \<rparr>)))"

definition set_fields :: "env \<Rightarrow> (string \<times> string option) list \<Rightarrow> doc \<Rightarrow> doc" where
  "set_fields e kvs d =
     d\<lparr> props := foldl (\<lambda>ps (k, v). AList.update k v ps) (props d)
                    (defined_fields kvs @ [(''updatedAt'', JDate (now e))]) \<rparr>"

text \<open>
  \<^verbatim>\<open>findOneAndUpdate(filter, { $set: ... }, { new: true })\<close> changes the first record that
  matches and returns it as changed, or \<^verbatim>\<open>null\<close>.
\<close>

definition Movie_findOneAndUpdate ::
  "env \<Rightarrow> filter_expr \<Rightarrow> (string \<times> string option) list \<Rightarrow> doc list \<Rightarrow> state
     \<Rightarrow> (err + doc option) \<times> state"
  where
  "Movie_findOneAndUpdate e f kvs ms s =
     (case uncastable f of
        v # _ \<Rightarrow> (Inl (CastError e v ''Movie''), s)
      | [] \<Rightarrow>
          (case update_first (matches f) (set_fields e kvs) ms of
             (r, ms') \<Rightarrow> (Inr r, logged MovieFindOneAndUpdate (s\<lparr> Movie := Some ms' \<rparr>))))"

text \<open>\<^verbatim>\<open>deleteOne\<close> removes the first record that matches and reports how many it removed.\<close>

definition Movie_deleteOne ::
  "env \<Rightarrow> filter_expr \<Rightarrow> doc list \<Rightarrow> state \<Rightarrow> (err + nat) \<times> state"
  where
  "Movie_deleteOne e f ms s =
     (case uncastable f of
        v # _ \<Rightarrow> (Inl (CastError e v ''Movie''), s)
      | [] \<Rightarrow>
          (case delete_first (matches f) ms of
             (n, ms') \<Rightarrow> (Inr n, logged MovieDeleteOne (s\<lparr> Movie := Some ms' \<rparr>))))"

section \<open>Requests and responses\<close>

text \<open>
  The parameters of a request (path, query or body): each key occurs once and carries a
  string. Repeated or bracketed keys, which the parsers turn into arrays and objects, and
  JSON bodies with values other than strings are not represented.
\<close>

type_synonym params = "(string \<times> string) list"

text \<open>
  Routing is the framework's: a request is given as the route that it reaches, with its
  path parameter, query or body. \<open>Unrouted\<close> is a request that reaches no route.
\<close>

datatype request =
    GET_api_employees
  | POST_api_employees params
  | DELETE_api_employees string
  | GET_api_movies
  | GET_api_movies_find params
  | POST_api_movies params
  | PUT_api_movies params
  | DELETE_api_movies params
  | GET_home params
  | GET_ui_movie_show params
  | GET_ui_movie_new
  | POST_ui_movie_new params
  | GET_ui_movie_update
  | POST_ui_movie_update params
  | GET_ui_movie_delete
  | POST_ui_movie_delete params
  | GET_healthz
  | Unrouted string string

text \<open>The JSON body of an error; a property that is \<^verbatim>\<open>undefined\<close> is not serialized.\<close>

record error_body =
  error :: bool
  status :: nat
  message :: string
  details :: "field_error list option"
  stack :: "string option"

datatype locals =
    NoLocals
  | IndexLocals "movie_view list" bool "doc option"
  | MovieLocals "doc option" "bool option"

datatype payload =
    JsonError error_body
  | JsonEmployees "employee list"
  | JsonMovies "doc list"
  | JsonMovie doc
  | JsonOk
  | Text string
  | Render string locals
  | Redirect string

record response =
  code :: nat
  payload :: payload

definition json :: "payload \<Rightarrow> response" where
  "json p = \<lparr> code = 200, payload = p \<rparr>"

definition send :: "string \<Rightarrow> response" where
  "send t = \<lparr> code = 200, payload = Text t \<rparr>"

definition render :: "string \<Rightarrow> locals \<Rightarrow> response" where
  "render v l = \<lparr> code = 200, payload = Render v l \<rparr>"

definition redirect :: "string \<Rightarrow> response" where
  "redirect u = \<lparr> code = 302, payload = Redirect u \<rparr>"

text \<open>\<^verbatim>\<open>const err = new Error(m); err.status = c; throw err;\<close>\<close>

definition raise :: "env \<Rightarrow> nat \<Rightarrow> string \<Rightarrow> err" where
  "raise e c m = (Error e m)\<lparr> err_status := Some c \<rparr>"

text \<open>
  \<^verbatim>\<open>ensureMovieConn\<close> answers 503 and returns \<^verbatim>\<open>true\<close> (here \<open>Inl\<close> of the response) when
  the movie model is \<^verbatim>\<open>null\<close>; otherwise it returns \<^verbatim>\<open>false\<close> (here \<open>Inr\<close> of the
  collection behind the model).
\<close>

definition ensureMovieConn :: "state \<Rightarrow> response + doc list" where
  "ensureMovieConn s =
     (case Movie s of
        None \<Rightarrow>
          Inl \<lparr> code = 503,
                payload = JsonError
                  \<lparr> error = True, status = 503,
                    message = ''Movies DB not configured. Set MONGODB_URI_MOVIES in your .env.'',
                    details = None, stack = None \<rparr> \<rparr>
      | Some ms \<Rightarrow> Inr ms)"

section \<open>Validation chains\<close>

definition param :: "params \<Rightarrow> string \<Rightarrow> string option" where
  "param b k = map_of b k"

text \<open>A chain reads a missing field as the empty string.\<close>

definition field_string :: "params \<Rightarrow> string \<Rightarrow> string" where
  "field_string b k = (case param b k of None \<Rightarrow> [] | Some v \<Rightarrow> v)"

definition invalid :: "string \<Rightarrow> string option \<Rightarrow> string \<Rightarrow> field_error" where
  "invalid k v m = \<lparr> ve_value = v, ve_msg = m, ve_path = k, ve_location = ''body'' \<rparr>"

text \<open>
  \<^verbatim>\<open>[body('name').trim().notEmpty(), body('salary').isNumeric(), body('age').isNumeric()]\<close>:
  the errors in the order of the chains, and the body with the sanitized name.
\<close>

definition validate_employee :: "params \<Rightarrow> field_error list \<times> params" where
  "validate_employee b =
     (let nm = trim (field_string b ''name'');
          sal = field_string b ''salary'';
          ag = field_string b ''age''
      in ((if nm = [] then [invalid ''name'' (Some nm) ''Invalid value''] else [])
          @ (if isNumeric sal then [] else [invalid ''salary'' (param b ''salary'') ''Invalid value''])
          @ (if isNumeric ag then [] else [invalid ''age'' (param b ''age'') ''Invalid value'']),
          AList.update ''name'' nm b))"

text \<open>
  \<^verbatim>\<open>[body('movie_title').trim().notEmpty().withMessage('movie_title is required')]\<close>
\<close>

definition validate_movie :: "params \<Rightarrow> field_error list \<times> params" where
  "validate_movie b =
     (let t = trim (field_string b ''movie_title'')
      in ((if t = [] then [invalid ''movie_title'' (Some t) ''movie_title is required''] else []),
          AList.update ''movie_title'' t b))"

text \<open>
  \<^verbatim>\<open>const err = new Error('Validation failed'); err.status = 400;
  err.details = errors.array(); throw err;\<close>
\<close>

definition validation_failed :: "env \<Rightarrow> field_error list \<Rightarrow> err" where
  "validation_failed e errors = (raise e 400 ''Validation failed'')\<lparr> err_details := Some errors \<rparr>"

section \<open>Employee routes\<close>

type_synonym outcome = "(err + response) \<times> state"

definition get_api_employees :: "env \<Rightarrow> state \<Rightarrow> outcome" where
  "get_api_employees e s = (case Employee_find s of (list, s1) \<Rightarrow> (Inr (json (JsonEmployees list)), s1))"

definition post_api_employees :: "env \<Rightarrow> state \<Rightarrow> params \<Rightarrow> outcome" where
  "post_api_employees e s body0 =
     (case validate_employee body0 of
        (errors, body) \<Rightarrow>
          if errors \<noteq> [] then (Inl (validation_failed e errors), s)
          else
            (case Employee_create e (param body ''name'') (param body ''salary'') (param body ''age'') s of
               (Inl x, s1) \<Rightarrow> (Inl x, s1)
             | (Inr _, s1) \<Rightarrow>
                 (case Employee_find s1 of (all, s2) \<Rightarrow> (Inr (json (JsonEmployees all)), s2))))"

definition delete_api_employees :: "env \<Rightarrow> state \<Rightarrow> string \<Rightarrow> outcome" where
  "delete_api_employees e s i =
     (case Employee_deleteOne e i s of
        (Inl x, s1) \<Rightarrow> (Inl x, s1)
      | (Inr deletedCount, s1) \<Rightarrow>
          if deletedCount = 0 then (Inl (raise e 404 ''Not found''), s1)
          else (Inr (send ''Successfully! Employee has been Deleted.''), s1))"

section \<open>Movie routes\<close>

text \<open>
  The filter of update and delete, \<^verbatim>\<open>id ? { _id: id } : movieIdFilter(movie_id)\<close>. It is
  built after the routes have checked that \<open>id\<close> or \<open>movie_id\<close> is truthy.
\<close>

definition target_filter :: "string option \<Rightarrow> string option \<Rightarrow> filter_expr" where
  "target_filter i m =
     (if truthy i then ById (the i) else movieIdFilter (Str (the m)))"

definition get_api_movies :: "env \<Rightarrow> state \<Rightarrow> outcome" where
  "get_api_movies e s =
     (case ensureMovieConn s of
        Inl r \<Rightarrow> (Inr r, s)
      | Inr ms \<Rightarrow>
          (case Movie_find_limit 200 ms s of (list, s1) \<Rightarrow> (Inr (json (JsonMovies list)), s1)))"

text \<open>
  \<^verbatim>\<open>if (!doc) { const err = new Error('Not found'); err.status = 404; throw err; }
  return res.json(doc);\<close>
\<close>

definition found :: "env \<Rightarrow> (err + doc option) \<times> state \<Rightarrow> outcome" where
  "found e r =
     (case r of
        (Inl x, s1) \<Rightarrow> (Inl x, s1)
      | (Inr None, s1) \<Rightarrow> (Inl (raise e 404 ''Not found''), s1)
      | (Inr (Some d), s1) \<Rightarrow> (Inr (json (JsonMovie d)), s1))"

definition get_api_movies_find :: "env \<Rightarrow> state \<Rightarrow> params \<Rightarrow> outcome" where
  "get_api_movies_find e s query =
     (case ensureMovieConn s of
        Inl r \<Rightarrow> (Inr r, s)
      | Inr ms \<Rightarrow>
          (case (param query ''id'', param query ''movie_id'', param query ''title'') of
             (i, m, t) \<Rightarrow>
               if truthy i then found e (Movie_findById e (the i) ms s)
               else if truthy m then found e (Movie_findOne e (movieIdFilter (Str (the m))) ms s)
               else if truthy t then
                 found e (Movie_findOne e
                   (Or [Eq ''movie_title'' (QStr (the t)), Eq ''title'' (QStr (the t))]) ms s)
               else (Inl (raise e 400 ''Provide id or movie_id or title''), s)))"

text \<open>The object that the two create routes hand to \<^verbatim>\<open>Movie.create\<close>.\<close>

definition movie_fields :: "params \<Rightarrow> (string \<times> string option) list" where
  "movie_fields b =
     [(''movie_id'', param b ''movie_id''), (''movie_title'', param b ''movie_title''),
      (''Released'', param b ''Released'')]"

definition post_api_movies :: "env \<Rightarrow> state \<Rightarrow> params \<Rightarrow> outcome" where
  "post_api_movies e s body0 =
     (case validate_movie body0 of
        (errors, body) \<Rightarrow>
          (case ensureMovieConn s of
             Inl r \<Rightarrow> (Inr r, s)
           | Inr ms \<Rightarrow>
               if errors \<noteq> [] then (Inl (validation_failed e errors), s)
               else
                 (case Movie_create e (movie_fields body) ms s of
                    (created, s1) \<Rightarrow> (Inr \<lparr> code = 201, payload = JsonMovie created \<rparr>, s1))))"

text \<open>The \<^verbatim>\<open>$set\<close> of the two update routes: \<^verbatim>\<open>{ movie_title, Released }\<close>.\<close>

definition update_fields :: "params \<Rightarrow> (string \<times> string option) list" where
  "update_fields b = [(''movie_title'', param b ''movie_title''), (''Released'', param b ''Released'')]"

definition put_api_movies :: "env \<Rightarrow> state \<Rightarrow> params \<Rightarrow> outcome" where
  "put_api_movies e s body =
     (case ensureMovieConn s of
        Inl r \<Rightarrow> (Inr r, s)
      | Inr ms \<Rightarrow>
          (case (param body ''id'', param body ''movie_id'') of
             (i, m) \<Rightarrow>
               if \<not> truthy i \<and> \<not> truthy m then (Inl (raise e 400 ''Provide id or movie_id''), s)
               else
                 (case Movie_findOneAndUpdate e (target_filter i m) (update_fields body) ms s of
                    (Inl x, s1) \<Rightarrow> (Inl x, s1)
                  | (Inr None, s1) \<Rightarrow> (Inl (raise e 404 ''Not found''), s1)
                  | (Inr (Some updated), s1) \<Rightarrow> (Inr (json (JsonMovie updated)), s1))))"

definition delete_api_movies :: "env \<Rightarrow> state \<Rightarrow> params \<Rightarrow> outcome" where
  "delete_api_movies e s query =
     (case ensureMovieConn s of
        Inl r \<Rightarrow> (Inr r, s)
      | Inr ms \<Rightarrow>
          (case (param query ''id'', param query ''movie_id'') of
             (i, m) \<Rightarrow>
               if \<not> truthy i \<and> \<not> truthy m then (Inl (raise e 400 ''Provide id or movie_id''), s)
               else
                 (case Movie_deleteOne e (target_filter i m) ms s of
                    (Inl x, s1) \<Rightarrow> (Inl x, s1)
                  | (Inr deletedCount, s1) \<Rightarrow>
                      if deletedCount = 0 then (Inl (raise e 404 ''Not found''), s1)
                      else (Inr (json JsonOk), s1))))"

section \<open>UI routes\<close>

definition showDebug :: "params \<Rightarrow> bool" where
  "showDebug query = (param query ''debug'' = Some ''1'')"

definition get_home :: "env \<Rightarrow> state \<Rightarrow> params \<Rightarrow> outcome" where
  "get_home e s query =
     (case ensureMovieConn s of
        Inl r \<Rightarrow> (Inr r, s)
      | Inr ms \<Rightarrow>
          (case Movie_find_limit 50 ms s of
             (raw, s1) \<Rightarrow>
               (Inr (render ''index''
                  (IndexLocals (map normalize_movie raw) (showDebug query)
                     (if showDebug query then (case raw of [] \<Rightarrow> None | d # _ \<Rightarrow> Some d) else None))),
                s1)))"

definition get_ui_movie_show :: "env \<Rightarrow> state \<Rightarrow> params \<Rightarrow> outcome" where
  "get_ui_movie_show e s query =
     (case ensureMovieConn s of
        Inl r \<Rightarrow> (Inr r, s)
      | Inr ms \<Rightarrow>
          (case (param query ''id'', param query ''movie_id'') of
             (i, m) \<Rightarrow>
               (case (if truthy i then Movie_findById e (the i) ms s
                      else if truthy m then Movie_findOne e (movieIdFilter (Str (the m))) ms s
                      else (Inr None, s)) of
                  (Inl x, s1) \<Rightarrow> (Inl x, s1)
                | (Inr movie, s1) \<Rightarrow>
                    (Inr (render ''movie-view'' (MovieLocals movie (Some (showDebug query)))), s1))))"

definition post_ui_movie_new :: "env \<Rightarrow> state \<Rightarrow> params \<Rightarrow> outcome" where
  "post_ui_movie_new e s body =
     (case ensureMovieConn s of
        Inl r \<Rightarrow> (Inr r, s)
      | Inr ms \<Rightarrow>
          (case Movie_create e (movie_fields body) ms s of
             (created, s1) \<Rightarrow> (Inr (redirect ''/''), s1)))"

definition post_ui_movie_update :: "env \<Rightarrow> state \<Rightarrow> params \<Rightarrow> outcome" where
  "post_ui_movie_update e s body =
     (case ensureMovieConn s of
        Inl r \<Rightarrow> (Inr r, s)
      | Inr ms \<Rightarrow>
          (case (param body ''id'', param body ''movie_id'') of
             (i, m) \<Rightarrow>
               if \<not> truthy i \<and> \<not> truthy m then (Inl (raise e 400 ''Provide id or movie_id''), s)
               else
                 (case Movie_findOneAndUpdate e (target_filter i m) (update_fields body) ms s of
                    (Inl x, s1) \<Rightarrow> (Inl x, s1)
                  | (Inr None, s1) \<Rightarrow> (Inl (raise e 404 ''Not found''), s1)
                  | (Inr (Some updated), s1) \<Rightarrow>
                      (Inr (render ''movie-view'' (MovieLocals (Some updated) None)), s1))))"

definition post_ui_movie_delete :: "env \<Rightarrow> state \<Rightarrow> params \<Rightarrow> outcome" where
  "post_ui_movie_delete e s body =
     (case ensureMovieConn s of
        Inl r \<Rightarrow> (Inr r, s)
      | Inr ms \<Rightarrow>
          (case (param body ''id'', param body ''movie_id'') of
             (i, m) \<Rightarrow>
               if \<not> truthy i \<and> \<not> truthy m then (Inl (raise e 400 ''Provide id or movie_id''), s)
               else
                 (case Movie_deleteOne e (target_filter i m) ms s of
                    (Inl x, s1) \<Rightarrow> (Inl x, s1)
                  | (Inr deletedCount, s1) \<Rightarrow>
                      if deletedCount = 0 then (Inl (raise e 404 ''Not found''), s1)
                      else (Inr (redirect ''/''), s1))))"

section \<open>The application\<close>

text \<open>The route that a request reaches, or the 404 of the fallback middleware.\<close>

definition route :: "env \<Rightarrow> state \<Rightarrow> request \<Rightarrow> outcome" where
  "route e s rq =
     (case rq of
        GET_api_employees \<Rightarrow> get_api_employees e s
      | POST_api_employees b \<Rightarrow> post_api_employees e s b
      | DELETE_api_employees i \<Rightarrow> delete_api_employees e s i
      | GET_api_movies \<Rightarrow> get_api_movies e s
      | GET_api_movies_find q \<Rightarrow> get_api_movies_find e s q
      | POST_api_movies b \<Rightarrow> post_api_movies e s b
      | PUT_api_movies b \<Rightarrow> put_api_movies e s b
      | DELETE_api_movies q \<Rightarrow> delete_api_movies e s q
      | GET_home q \<Rightarrow> get_home e s q
      | GET_ui_movie_show q \<Rightarrow> get_ui_movie_show e s q
      | GET_ui_movie_new \<Rightarrow> (Inr (render ''movie-form'' NoLocals), s)
      | POST_ui_movie_new b \<Rightarrow> post_ui_movie_new e s b
      | GET_ui_movie_update \<Rightarrow> (Inr (render ''movie-update'' NoLocals), s)
      | POST_ui_movie_update b \<Rightarrow> post_ui_movie_update e s b
      | GET_ui_movie_delete \<Rightarrow> (Inr (render ''movie-delete'' NoLocals), s)
      | POST_ui_movie_delete b \<Rightarrow> post_ui_movie_delete e s b
      | GET_healthz \<Rightarrow> (Inr (json JsonOk), s)
      | Unrouted method url \<Rightarrow> (Inl (raise e 404 (''Route not found: '' @ method @ '' '' @ url)), s))"

text \<open>
  The centralized error handler: \<^verbatim>\<open>err.status || 500\<close>,
  \<^verbatim>\<open>err.message || 'Internal Server Error'\<close>, \<^verbatim>\<open>err.details || undefined\<close>, and the stack
  unless \<^verbatim>\<open>NODE_ENV\<close> is \<^verbatim>\<open>production\<close>.
\<close>

definition isDev :: "env \<Rightarrow> bool" where
  "isDev e = (NODE_ENV e \<noteq> Some ''production'')"

definition error_handler :: "env \<Rightarrow> err \<Rightarrow> response" where
  "error_handler e x =
     (let st = (case err_status x of None \<Rightarrow> 500 | Some c \<Rightarrow> if c = 0 then 500 else c)
      in \<lparr> code = st,
            payload = JsonError
              \<lparr> error = True, status = st,
                message = (if err_message x = [] then ''Internal Server Error'' else err_message x),
                details = err_details x,
                stack = (if isDev e then Some (err_stack x) else None) \<rparr> \<rparr>)"

definition app :: "env \<Rightarrow> state \<Rightarrow> request \<Rightarrow> response \<times> state" where
  "app e s rq =
     (case route e s rq of
        (Inl x, s1) \<Rightarrow> (error_handler e x, s1)
      | (Inr r, s1) \<Rightarrow> (r, s1))"
section \<open>Properties of the normalizer\<close>

lemma find_first_split:
  assumes "names = pre @ n # post" and "\<forall>m\<in>set pre. \<not> P m" and "P n"
  shows "find P names = Some n"
  using assms by (induction pre arbitrary: names) auto

lemma find_none_all: "(\<forall>m\<in>set names. \<not> P m) \<Longrightarrow> find P names = None"
  by (simp add: find_None_iff)


lemma pick_first:
  assumes "names = pre @ n # post"
    and "\<forall>m\<in>set pre. nullish (get obj m)"
    and "\<not> nullish (get obj n)"
    and "[] \<notin> set names"
  shows "pick obj names fb = get obj n"
proof -
  have "find (\<lambda>k. \<not> nullish (get obj k)) names = Some n"
    using assms(1-3) by (intro find_first_split[where pre = pre and post = post]) auto
  moreover have "n \<noteq> []"
    using assms(1,4) by auto
  ultimately show ?thesis
    by (simp add: pick_def)
qed

lemma pick_fallback:
  assumes "\<forall>m\<in>set names. nullish (get obj m)"
  shows "pick obj names fb = JStr fb"
proof -
  have "find (\<lambda>k. \<not> nullish (get obj k)) names = None"
    using assms by (intro find_none_all) auto
  then show ?thesis by (simp add: pick_def)
qed

lemma candidate_names_nonempty:
  "[] \<notin> set title_names" "[] \<notin> set id_names" "[] \<notin> set released_names"
  by (simp_all add: title_names_def id_names_def released_names_def)

lemma normalize_title_first:
  assumes "title_names = pre @ n # post"
    and "\<forall>m\<in>set pre. nullish (get (props d) m)" and "\<not> nullish (get (props d) n)"
  shows "movie_title (normalize_movie d) = get (props d) n"
  using pick_first[OF assms candidate_names_nonempty(1)] by (simp add: normalize_movie_def)

lemma normalize_id_first:
  assumes "id_names = pre @ n # post"
    and "\<forall>m\<in>set pre. nullish (get (props d) m)" and "\<not> nullish (get (props d) n)"
  shows "movie_id (normalize_movie d) = get (props d) n"
  using pick_first[OF assms candidate_names_nonempty(2)] by (simp add: normalize_movie_def)

lemma normalize_released_first:
  assumes "released_names = pre @ n # post"
    and "\<forall>m\<in>set pre. nullish (get (props d) m)" and "\<not> nullish (get (props d) n)"
  shows "Released (normalize_movie d) = get (props d) n"
  using pick_first[OF assms candidate_names_nonempty(3)] by (simp add: normalize_movie_def)

lemma normalize_title_year:
  assumes "props d = [(''title'', t), (''year'', y)]" and "\<not> nullish t" and "\<not> nullish y"
  shows "movie_title (normalize_movie d) = t \<and> Released (normalize_movie d) = y"
  using assms
  by (simp add: normalize_movie_def pick_def title_names_def released_names_def get_def
      nullish_def)

lemma normalize_empty:
  assumes "props d = []"
  shows "movie_title (normalize_movie d) = JStr ''(no title)''"
  using assms by (simp add: normalize_movie_def pick_def title_names_def get_def nullish_def)

text \<open>
  Claim C1. Each display attribute of the normalized view is the first non-null value among
  its candidate fields, scanned in the fixed order (title: movie_title, title, Title, name,
  Name, MovieTitle; external id: movie_id, movieId, movieid, MovieID, id, Id, ID; release
  info: Released, released, release_year, releaseYear, year, Year, ReleaseDate,
  release_date); when every candidate is null or missing the result is the fallback,
  "(no title)" for the title and the empty string for the other two. The normalizer is a
  total function of the raw record, so it raises nothing and is deterministic. A record
  that holds only \<open>title\<close> and \<open>year\<close> is shown with that title and that year, and the
  empty record has the title "(no title)".
\<close>

theorem normalize_first_present:
  "title_names = [''movie_title'', ''title'', ''Title'', ''name'', ''Name'', ''MovieTitle'']
   \<and> id_names = [''movie_id'', ''movieId'', ''movieid'', ''MovieID'', ''id'', ''Id'', ''ID'']
   \<and> released_names = [''Released'', ''released'', ''release_year'', ''releaseYear'', ''year'',
        ''Year'', ''ReleaseDate'', ''release_date'']
   \<and> (\<forall>pre n post. title_names = pre @ n # post
          \<and> (\<forall>m\<in>set pre. nullish (get (props d) m)) \<and> \<not> nullish (get (props d) n)
          \<longrightarrow> movie_title (normalize_movie d) = get (props d) n)
   \<and> (\<forall>pre n post. id_names = pre @ n # post
          \<and> (\<forall>m\<in>set pre. nullish (get (props d) m)) \<and> \<not> nullish (get (props d) n)
          \<longrightarrow> movie_id (normalize_movie d) = get (props d) n)
   \<and> (\<forall>pre n post. released_names = pre @ n # post
          \<and> (\<forall>m\<in>set pre. nullish (get (props d) m)) \<and> \<not> nullish (get (props d) n)
          \<longrightarrow> Released (normalize_movie d) = get (props d) n)
   \<and> ((\<forall>m\<in>set title_names. nullish (get (props d) m))
          \<longrightarrow> movie_title (normalize_movie d) = JStr ''(no title)'')
   \<and> ((\<forall>m\<in>set id_names. nullish (get (props d) m))
          \<longrightarrow> movie_id (normalize_movie d) = JStr '''')
   \<and> ((\<forall>m\<in>set released_names. nullish (get (props d) m))
          \<longrightarrow> Released (normalize_movie d) = JStr '''')
   \<and> (props d = [(''title'', t), (''year'', y)] \<and> \<not> nullish t \<and> \<not> nullish y
          \<longrightarrow> movie_title (normalize_movie d) = t \<and> Released (normalize_movie d) = y)
   \<and> (props d = [] \<longrightarrow> movie_title (normalize_movie d) = JStr ''(no title)'')"
proof (intro conjI allI impI)
  show "title_names = [''movie_title'', ''title'', ''Title'', ''name'', ''Name'', ''MovieTitle'']"
    by (simp add: title_names_def)
  show "id_names = [''movie_id'', ''movieId'', ''movieid'', ''MovieID'', ''id'', ''Id'', ''ID'']"
    by (simp add: id_names_def)
  show "released_names = [''Released'', ''released'', ''release_year'', ''releaseYear'', ''year'',
        ''Year'', ''ReleaseDate'', ''release_date'']"
    by (simp add: released_names_def)
next
  fix pre n post
  assume "title_names = pre @ n # post
          \<and> (\<forall>m\<in>set pre. nullish (get (props d) m)) \<and> \<not> nullish (get (props d) n)"
  then show "movie_title (normalize_movie d) = get (props d) n"
    using normalize_title_first by blast
next
  fix pre n post
  assume "id_names = pre @ n # post
          \<and> (\<forall>m\<in>set pre. nullish (get (props d) m)) \<and> \<not> nullish (get (props d) n)"
  then show "movie_id (normalize_movie d) = get (props d) n"
    using normalize_id_first by blast
next
  fix pre n post
  assume "released_names = pre @ n # post
          \<and> (\<forall>m\<in>set pre. nullish (get (props d) m)) \<and> \<not> nullish (get (props d) n)"
  then show "Released (normalize_movie d) = get (props d) n"
    using normalize_released_first by blast
next
  assume "\<forall>m\<in>set title_names. nullish (get (props d) m)"
  then show "movie_title (normalize_movie d) = JStr ''(no title)''"
    by (simp add: normalize_movie_def pick_fallback)
next
  assume "\<forall>m\<in>set id_names. nullish (get (props d) m)"
  then show "movie_id (normalize_movie d) = JStr ''''"
    by (simp add: normalize_movie_def pick_fallback)
next
  assume "\<forall>m\<in>set released_names. nullish (get (props d) m)"
  then show "Released (normalize_movie d) = JStr ''''"
    by (simp add: normalize_movie_def pick_fallback)
next
  assume "props d = [(''title'', t), (''year'', y)] \<and> \<not> nullish t \<and> \<not> nullish y"
  then show "movie_title (normalize_movie d) = t" "Released (normalize_movie d) = y"
    using normalize_title_year by blast+
next
  assume "props d = []"
  then show "movie_title (normalize_movie d) = JStr ''(no title)''"
    by (rule normalize_empty)
qed


theorem normalize_first_present_witness:
  "movie_title (normalize_movie
      \<lparr> oid = ''m1'', props = [(''title'', JStr ''Heat''), (''year'', JNum (Fin 1995))] \<rparr>) = JStr ''Heat''
   \<and> Released (normalize_movie
      \<lparr> oid = ''m1'', props = [(''title'', JStr ''Heat''), (''year'', JNum (Fin 1995))] \<rparr>) = JNum (Fin 1995)
   \<and> movie_id (normalize_movie
      \<lparr> oid = ''m1'', props = [(''title'', JStr ''Heat''), (''year'', JNum (Fin 1995))] \<rparr>) = JStr ''''"
proof -
  let ?d = "\<lparr> oid = ''m1'', props = [(''title'', JStr ''Heat''), (''year'', JNum (Fin 1995))] \<rparr>"
  have h: "props ?d = [(''title'', JStr ''Heat''), (''year'', JNum (Fin 1995))]
           \<and> \<not> nullish (JStr ''Heat'') \<and> \<not> nullish (JNum (Fin 1995))"
    by (simp add: nullish_def)
  have hid: "\<forall>m\<in>set id_names. nullish (get (props ?d) m)"
    by (simp add: id_names_def get_def nullish_def)
  have pre: "title_names = [''movie_title''] @ ''title'' # [''Title'', ''name'', ''Name'', ''MovieTitle'']
             \<and> (\<forall>m\<in>set [''movie_title'']. nullish (get (props ?d) m))
             \<and> \<not> nullish (get (props ?d) ''title'')"
    by (simp add: title_names_def get_def nullish_def)
  note t = normalize_first_present[of ?d "JStr ''Heat''" "JNum (Fin 1995)"]
  from t pre have "movie_title (normalize_movie ?d) = get (props ?d) ''title''"
    by blast
  moreover from t h have "Released (normalize_movie ?d) = JNum (Fin 1995)"
    by blast
  moreover from t hid have "movie_id (normalize_movie ?d) = JStr ''''"
    by blast
  ultimately show ?thesis
    by (simp add: get_def)
qed
section \<open>Properties of the coercion to numbers\<close>

lemma bitlen_one: "bitlen 1 = 1"
  by (simp add: bitlen_alt_def)

lemma round_half_even_int: "round_half_even (of_int m) = m"
  by (simp add: round_half_even_def)

text \<open>An integer below \<open>2 ^ 53\<close> is a double: rounding leaves it as it is.\<close>

lemma to_double_pos_int:
  assumes "0 < m" and "m < 2 ^ 53"
  shows "to_double (of_int m) = Fin (of_int m)"
proof -
  define k where "k = bitlen m - 1"
  define e where "e = max k (- 1022) - 52"
  define n where "n = nat (- e)"
  have q: "quotient_of (of_int m :: rat) = (m, 1)"
    by (rule Rat.quotient_of_rat_of_int)
  from bitlen_bounds[OF assms(1)]
  have lo: "2 ^ nat k \<le> m"
    by (simp add: k_def)
  have b1: "0 \<le> k"
    using assms(1) bitlen_eq_zero_iff[of m] bitlen_nonneg[of m] by (simp add: k_def)
  have "(2::int) ^ nat k < 2 ^ 53"
    using lo assms(2) by linarith
  then have "nat k < 53"
    by (rule power_less_imp_less_exp[of "2::int", rotated]) simp
  then have k52: "k \<le> 52"
    by linarith
  have p: "pow2 k \<le> of_int m"
  proof -
    have "pow2 k = of_int (2 ^ nat k)"
      using b1 by (simp add: pow2_def)
    also have "\<dots> \<le> of_int m"
      using lo by (simp only: of_int_le_iff)
    finally show ?thesis .
  qed
  have bin: "binade (of_int m) = k"
    using p by (simp add: binade_def q bitlen_one Let_def k_def)
  have e0: "e \<le> 0"
    using b1 k52 by (simp add: e_def)
  have pe: "pow2 e = 1 / 2 ^ n"
    using e0 by (auto simp: pow2_def n_def)
  have d: "of_int m / pow2 e = (of_int (m * 2 ^ n) :: rat)"
    by (simp add: pe)
  have r: "round_half_even (of_int m / pow2 e) = m * 2 ^ n"
    unfolding d by (rule round_half_even_int)
  have v: "of_int (round_half_even (of_int m / pow2 e)) * pow2 e = (of_int m :: rat)"
    unfolding r by (simp add: pe)
  have lt: "\<not> pow2 1024 \<le> (of_int m :: rat)"
  proof -
    have "(of_int m :: rat) < of_int (2 ^ 53)"
      using assms(2) by (simp only: of_int_less_iff)
    also have "\<dots> < pow2 1024"
      by (simp add: pow2_def)
    finally show ?thesis by simp
  qed
  have a: "\<bar>of_int m :: rat\<bar> = of_int m"
    using assms(1) by simp
  have nz: "(of_int m :: rat) \<noteq> 0" "\<not> (of_int m :: rat) < 0"
    using assms(1) by simp_all
  have "to_double (of_int m) =
      (if pow2 1024 \<le> of_int (round_half_even (of_int m / pow2 e)) * pow2 e then PosInf
       else Fin (of_int (round_half_even (of_int m / pow2 e)) * pow2 e))"
    using nz by (simp add: to_double_def Let_def a bin e_def)
  then show ?thesis
    using lt by (simp add: v)
qed

lemma to_double_not_NaN: "to_double r \<noteq> NaN"
  by (simp add: to_double_def Let_def)

lemmas literal_defs = StringToNumber_def trim_def is_space_def nondecimal_literal_def
  radix_of_prefix_def decimal_literal_def unsigned_decimal_def is_digit_def is_radix_digit_def
  digit_of_def exponent_part_def exponent_digits_def radix_value_def scale10_def Let_def

lemma to_double_42: "to_double 42 = Fin 42"
  using to_double_pos_int[of 42] by simp

lemma to_double_30: "to_double 30 = Fin 30"
  using to_double_pos_int[of 30] by simp

lemma to_double_50000: "to_double 50000 = Fin 50000"
  using to_double_pos_int[of 50000] by simp

lemma Number_42: "Number (Str ''42'') = Fin 42"
  by (simp add: Number_def literal_defs to_double_42)

lemma Number_30: "Number (Str ''30'') = Fin 30"
  by (simp add: Number_def literal_defs to_double_30)

lemma Number_50000: "Number (Str ''50000'') = Fin 50000"
  by (simp add: Number_def literal_defs to_double_50000)

lemma Number_abc: "Number (Str ''abc'') = NaN"
  by (simp add: Number_def literal_defs)

lemma pow2_powi: "pow2 k = 2 powi k"
  by (simp add: pow2_def power_int_def field_simps power_inverse)

lemma pow2_pos: "0 < pow2 k"
  by (simp add: pow2_powi)

lemma pow2_mono: "a \<le> b \<Longrightarrow> pow2 a \<le> pow2 b"
  by (simp add: pow2_powi power_int_increasing)

lemma pow2_less_imp: "pow2 a < pow2 b \<Longrightarrow> a < b"
  using pow2_mono[of b a] by (cases "a < b") auto

lemma pow2_add: "pow2 (a + b) = pow2 a * pow2 b"
  by (simp add: pow2_powi power_int_add)

lemma pow2_nat: "pow2 (int n) = 2 ^ n"
  by (simp add: pow2_def)

lemma bitlen_pow2:
  assumes "0 < p"
  shows "pow2 (bitlen p - 1) \<le> of_int p \<and> (of_int p :: rat) < pow2 (bitlen p)"
proof -
  from assms have b: "0 < bitlen p"
    using bitlen_eq_zero_iff[of p] bitlen_nonneg[of p] by linarith
  from bitlen_bounds[OF assms]
  have lo: "2 ^ nat (bitlen p - 1) \<le> p" and hi: "p < 2 ^ nat (bitlen p)"
    by simp_all
  have "pow2 (bitlen p - 1) = of_int (2 ^ nat (bitlen p - 1))"
    using b by (simp add: pow2_def)
  also have "\<dots> \<le> of_int p"
    using lo by (simp only: of_int_le_iff)
  finally have 1: "pow2 (bitlen p - 1) \<le> of_int p" .
  have "(of_int p :: rat) < of_int (2 ^ nat (bitlen p))"
    using hi by (simp only: of_int_less_iff)
  also have "\<dots> = pow2 (bitlen p)"
    using b by (simp add: pow2_def)
  finally show ?thesis
    using 1 by simp
qed

lemma binade_upper:
  assumes "0 < r"
  shows "r < pow2 (binade r + 1)"
proof -
  obtain p q where pq: "quotient_of r = (p, q)"
    by (cases "quotient_of r")
  then have q: "0 < q" and r: "r = of_int p / of_int q"
    by (simp_all add: quotient_of_denom_pos quotient_of_div)
  from assms r q have p: "0 < p"
    by (simp add: zero_less_divide_iff)
  define k where "k = bitlen p - bitlen q"
  show ?thesis
  proof (cases "pow2 k \<le> r")
    case True
    then have b: "binade r = k"
      by (simp add: binade_def pq Let_def k_def)
    from bitlen_pow2[OF p] have ph: "(of_int p :: rat) < pow2 (bitlen p)"
      by simp
    from bitlen_pow2[OF q] have ql: "pow2 (bitlen q - 1) \<le> (of_int q :: rat)"
      by simp
    have "of_int p < pow2 (k + 1) * pow2 (bitlen q - 1)"
      using ph by (simp add: pow2_add[symmetric] k_def)
    also have "\<dots> \<le> pow2 (k + 1) * of_int q"
      using ql pow2_pos[of "k + 1"] by (simp add: mult_left_mono)
    finally have "of_int p / of_int q < pow2 (k + 1)"
      using q by (simp add: pos_divide_less_eq)
    with r have "r < pow2 (k + 1)"
      by simp
    then show ?thesis
      by (simp only: b)
  next
    case False
    then have b: "binade r = k - 1"
      by (simp add: binade_def pq Let_def k_def)
    from False show ?thesis
      by (simp add: b)
  qed
qed

lemma binade_lower:
  assumes "0 < r"
  shows "pow2 (binade r) \<le> r"
proof -
  obtain p q where pq: "quotient_of r = (p, q)"
    by (cases "quotient_of r")
  then have q: "0 < q" and r: "r = of_int p / of_int q"
    by (simp_all add: quotient_of_denom_pos quotient_of_div)
  from assms r q have p: "0 < p"
    by (simp add: zero_less_divide_iff)
  define k where "k = bitlen p - bitlen q"
  show ?thesis
  proof (cases "pow2 k \<le> r")
    case True
    then have b: "binade r = k"
      by (simp add: binade_def pq Let_def k_def)
    from True show ?thesis
      by (simp only: b)
  next
    case False
    then have b: "binade r = k - 1"
      by (simp add: binade_def pq Let_def k_def)
    from bitlen_pow2[OF p] have pl: "pow2 (bitlen p - 1) \<le> (of_int p :: rat)"
      by simp
    from bitlen_pow2[OF q] have qh: "(of_int q :: rat) \<le> pow2 (bitlen q)"
      by simp
    have "pow2 (k - 1) * of_int q \<le> pow2 (k - 1) * pow2 (bitlen q)"
      using qh pow2_pos[of "k - 1"] by (simp add: mult_left_mono)
    also have "\<dots> = pow2 (bitlen p - 1)"
      by (simp add: pow2_add[symmetric] k_def)
    also note pl
    finally have "pow2 (k - 1) \<le> of_int p / of_int q"
      using q by (simp add: pos_le_divide_eq)
    with r have "pow2 (k - 1) \<le> r"
      by simp
    then show ?thesis
      by (simp only: b)
  qed
qed

lemma round_half_even_floor: "\<lfloor>x\<rfloor> \<le> round_half_even x"
  by (simp add: round_half_even_def Let_def)

text \<open>A number from \<open>pow2 1024\<close> on is beyond the doubles and rounds to infinity.\<close>

lemma to_double_overflow:
  assumes "pow2 1024 \<le> r"
  shows "to_double r = PosInf"
proof -
  from assms pow2_pos[of 1024] have pos: "0 < r"
    by linarith
  define k where "k = binade r"
  define e where "e = k - 52"
  from assms binade_upper[OF pos] have "pow2 1024 < pow2 (k + 1)"
    by (simp add: k_def)
  then have k: "1024 \<le> k"
    using pow2_less_imp[of 1024 "k + 1"] by simp
  have lo: "pow2 k \<le> r"
    unfolding k_def using pos by (rule binade_lower)
  have "pow2 k = pow2 52 * pow2 e"
    by (simp add: pow2_add[symmetric] e_def)
  with lo have "pow2 52 * pow2 e \<le> r"
    by simp
  then have "pow2 52 \<le> r / pow2 e"
    using pow2_pos[of e] by (simp add: pos_le_divide_eq)
  then have "(of_int (2 ^ 52) :: rat) \<le> r / pow2 e"
    by (simp add: pow2_def)
  then have "2 ^ 52 \<le> \<lfloor>r / pow2 e\<rfloor>"
    by (simp only: le_floor_iff)
  with round_half_even_floor[of "r / pow2 e"]
  have "2 ^ 52 \<le> round_half_even (r / pow2 e)"
    by linarith
  then have "(of_int (2 ^ 52) :: rat) \<le> of_int (round_half_even (r / pow2 e))"
    by (simp only: of_int_le_iff)
  then have "pow2 52 \<le> of_int (round_half_even (r / pow2 e))"
    by (simp add: pow2_def)
  then have "pow2 52 * pow2 e \<le> of_int (round_half_even (r / pow2 e)) * pow2 e"
    using pow2_pos[of e] by (simp add: mult_right_mono)
  then have "pow2 k \<le> of_int (round_half_even (r / pow2 e)) * pow2 e"
    by (simp add: pow2_add[symmetric] e_def)
  with pow2_mono[OF k] have v: "pow2 1024 \<le> of_int (round_half_even (r / pow2 e)) * pow2 e"
    by linarith
  have m: "max (binade r) (- 1022) - 52 = e"
    using k by (simp add: e_def k_def)
  have a: "\<bar>r\<bar> = r" "r \<noteq> 0" "\<not> r < 0"
    using pos by simp_all
  show ?thesis
    unfolding to_double_def Let_def a m using a v by simp
qed

lemma Number_1e400: "Number (Str ''1e400'') = PosInf"
proof -
  have "pow2 1024 \<le> 10 ^ 400"
    by (simp add: pow2_def)
  then have "to_double (10 ^ 400) = PosInf"
    by (rule to_double_overflow)
  then show ?thesis
    by (simp add: Number_def literal_defs)
qed

text \<open>
  The conversion rounds to the nearest double, ties to even: \<open>2 ^ 53 + 1\<close> is not a double
  and reads as \<open>2 ^ 53\<close>, and a tenth reads as the double nearest to it. The prefixed
  forms and the surrounding white space are read as the language defines them.
\<close>

lemma Number_rounds: "Number (Str ''9007199254740993'') = Fin 9007199254740992"
  by code_simp

lemma Number_tenth: "Number (Str ''0.1'') = Fin (3602879701896397 / 36028797018963968)"
  by code_simp

lemma Number_hex: "Number (Str '' 0x1F '') = Fin 31"
  by code_simp

section \<open>Properties of the identifier matcher\<close>

lemma matches_movieIdFilter_Str:
  "matches (movieIdFilter (Str s)) d \<longleftrightarrow>
     get (props d) ''movie_id'' = JNum (Number (Str s)) \<or> get (props d) ''movie_id'' = JStr s"
  by (simp add: movieIdFilter_def)

lemma matches_movieIdFilter_Num:
  "matches (movieIdFilter (Num n)) d \<longleftrightarrow> get (props d) ''movie_id'' = JNum n"
  by (simp add: movieIdFilter_def Number_def)

text \<open>
  Claim C2, as amended. The filter built for an identifier is the disjunction of two
  equality clauses on \<open>movie_id\<close>, one with the number that \<^verbatim>\<open>Number\<close> gives and one with
  the identifier itself. For an identifier supplied as a string \<open>s\<close> it matches a stored
  record exactly when the record's \<open>movie_id\<close> is the string \<open>s\<close> or a number that the
  store compares equal to \<open>Number s\<close>; the filter for "42" matches a record that stores the
  number 42 and a record that stores the string "42". When \<open>s\<close> is not a numeric literal
  the numeric clause matches exactly the records that store \<^verbatim>\<open>NaN\<close>, so no record that
  stores a string or another number. For an identifier supplied as a JSON number both
  clauses compare with that number. Building the filter is a total function: it raises
  nothing.
\<close>

theorem movieIdFilter_number_or_string:
  "movieIdFilter (Str s) =
     Or [Eq ''movie_id'' (QNum (Number (Str s))), Eq ''movie_id'' (QStr s)]
   \<and> (matches (movieIdFilter (Str s)) d \<longleftrightarrow>
        get (props d) ''movie_id'' = JNum (Number (Str s))
        \<or> get (props d) ''movie_id'' = JStr s)
   \<and> (get (props d) ''movie_id'' = JNum (Fin 42) \<longrightarrow> matches (movieIdFilter (Str ''42'')) d)
   \<and> (get (props d) ''movie_id'' = JStr ''42'' \<longrightarrow> matches (movieIdFilter (Str ''42'')) d)
   \<and> (Number (Str s) = NaN \<longrightarrow>
        (matches (Eq ''movie_id'' (QNum (Number (Str s)))) d
           \<longleftrightarrow> get (props d) ''movie_id'' = JNum NaN))
   \<and> movieIdFilter (Num n) = Or [Eq ''movie_id'' (QNum n), Eq ''movie_id'' (QNum n)]
   \<and> (matches (movieIdFilter (Num n)) d \<longleftrightarrow> get (props d) ''movie_id'' = JNum n)"
proof (intro conjI impI)
  show "movieIdFilter (Str s) =
     Or [Eq ''movie_id'' (QNum (Number (Str s))), Eq ''movie_id'' (QStr s)]"
    by (simp add: movieIdFilter_def)
  show "matches (movieIdFilter (Str s)) d \<longleftrightarrow>
        get (props d) ''movie_id'' = JNum (Number (Str s))
        \<or> get (props d) ''movie_id'' = JStr s"
    by (rule matches_movieIdFilter_Str)
  show "movieIdFilter (Num n) = Or [Eq ''movie_id'' (QNum n), Eq ''movie_id'' (QNum n)]"
    by (simp add: movieIdFilter_def Number_def)
  show "matches (movieIdFilter (Num n)) d \<longleftrightarrow> get (props d) ''movie_id'' = JNum n"
    by (rule matches_movieIdFilter_Num)
next
  assume "get (props d) ''movie_id'' = JNum (Fin 42)"
  then show "matches (movieIdFilter (Str ''42'')) d"
    by (simp add: matches_movieIdFilter_Str Number_42)
next
  assume "get (props d) ''movie_id'' = JStr ''42''"
  then show "matches (movieIdFilter (Str ''42'')) d"
    by (simp add: matches_movieIdFilter_Str)
next
  assume "Number (Str s) = NaN"
  then show "matches (Eq ''movie_id'' (QNum (Number (Str s)))) d
           \<longleftrightarrow> get (props d) ''movie_id'' = JNum NaN"
    by simp
qed

theorem movieIdFilter_number_or_string_witness:
  "matches (movieIdFilter (Str ''42'')) \<lparr> oid = ''a'', props = [(''movie_id'', JNum (Fin 42))] \<rparr>
   \<and> matches (movieIdFilter (Str ''42'')) \<lparr> oid = ''b'', props = [(''movie_id'', JStr ''42'')] \<rparr>
   \<and> \<not> matches (Eq ''movie_id'' (QNum (Number (Str ''abc''))))
         \<lparr> oid = ''a'', props = [(''movie_id'', JNum (Fin 42))] \<rparr>"
proof -
  let ?a = "\<lparr> oid = ''a'', props = [(''movie_id'', JNum (Fin 42))] \<rparr>"
  let ?b = "\<lparr> oid = ''b'', props = [(''movie_id'', JStr ''42'')] \<rparr>"
  have a: "get (props ?a) ''movie_id'' = JNum (Fin 42)"
    by (simp add: get_def)
  have b: "get (props ?b) ''movie_id'' = JStr ''42''"
    by (simp add: get_def)
  have n: "Number (Str ''abc'') = NaN"
    by (rule Number_abc)
  have an: "get (props ?a) ''movie_id'' \<noteq> JNum NaN"
    by (simp add: get_def)
  from movieIdFilter_number_or_string[where s = "''42''" and d = ?a] a
  have "matches (movieIdFilter (Str ''42'')) ?a"
    by blast
  moreover from movieIdFilter_number_or_string[where s = "''42''" and d = ?b] b
  have "matches (movieIdFilter (Str ''42'')) ?b"
    by blast
  moreover from movieIdFilter_number_or_string[where s = "''abc''" and d = ?a] n an
  have "\<not> matches (Eq ''movie_id'' (QNum (Number (Str ''abc'')))) ?a"
    by blast
  ultimately show ?thesis
    by blast
qed

text \<open>
  The claim as stated fails on a record that stores \<^verbatim>\<open>NaN\<close>: "abc" is not a numeric
  literal, and the numeric clause of its filter matches that record.
\<close>

theorem movieIdFilter_counterexample:
  "Number (Str ''abc'') = NaN
   \<and> matches (Eq ''movie_id'' (QNum (Number (Str ''abc''))))
       \<lparr> oid = ''5f0000000000000000000001'', props = [(''movie_id'', JNum NaN)] \<rparr>
   \<and> matches (movieIdFilter (Str ''abc''))
       \<lparr> oid = ''5f0000000000000000000001'', props = [(''movie_id'', JNum NaN)] \<rparr>"
  by (simp add: Number_abc movieIdFilter_def get_def)
section \<open>Properties of the routes\<close>

lemmas handler_defs = get_api_employees_def post_api_employees_def delete_api_employees_def
  get_api_movies_def get_api_movies_find_def post_api_movies_def put_api_movies_def
  delete_api_movies_def get_home_def get_ui_movie_show_def post_ui_movie_new_def
  post_ui_movie_update_def post_ui_movie_delete_def

lemmas response_defs = json_def send_def render_def redirect_def

lemmas store_defs = Employee_find_def Employee_create_def Employee_deleteOne_def
  Movie_find_limit_def Movie_findById_def Movie_findOne_def Movie_create_def
  Movie_findOneAndUpdate_def Movie_deleteOne_def logged_def

lemma ensureMovieConn_None:
  "Movie s = None \<Longrightarrow> ensureMovieConn s =
     Inl \<lparr> code = 503,
           payload = JsonError
             \<lparr> error = True, status = 503,
               message = ''Movies DB not configured. Set MONGODB_URI_MOVIES in your .env.'',
               details = None, stack = None \<rparr> \<rparr>"
  by (simp add: ensureMovieConn_def)

lemma ensureMovieConn_Some: "Movie s = Some ms \<Longrightarrow> ensureMovieConn s = Inr ms"
  by (simp add: ensureMovieConn_def)

lemma raise_status: "err_status (raise e c m) = Some c"
  by (simp add: raise_def)

lemma Error_status: "err_status (Error e m) = None"
  by (simp add: Error_def)

lemma validation_failed_status: "err_status (validation_failed e ds) = Some 400"
  by (simp add: validation_failed_def raise_def)

lemma CastError_status: "err_status (CastError e v m) = None"
  by (simp add: CastError_def Let_def)

lemma Employee_deleteOne_raises:
  "Employee_deleteOne e i s = (Inl x, s') \<Longrightarrow> err_status x = None \<and> s' = s"
  by (auto simp: Employee_deleteOne_def CastError_status split: option.splits prod.splits)

lemma Movie_findById_raises:
  "Movie_findById e i ms s = (Inl x, s') \<Longrightarrow> err_status x = None \<and> s' = s"
  by (auto simp: Movie_findById_def CastError_status split: list.splits)

lemma Movie_findOne_raises:
  "Movie_findOne e f ms s = (Inl x, s') \<Longrightarrow> err_status x = None \<and> s' = s"
  by (auto simp: Movie_findOne_def CastError_status split: list.splits)

lemma Movie_findOneAndUpdate_raises:
  "Movie_findOneAndUpdate e f kvs ms s = (Inl x, s') \<Longrightarrow> err_status x = None \<and> s' = s"
  by (auto simp: Movie_findOneAndUpdate_def CastError_status split: list.splits prod.splits)

lemma Movie_deleteOne_raises:
  "Movie_deleteOne e f ms s = (Inl x, s') \<Longrightarrow> err_status x = None \<and> s' = s"
  by (auto simp: Movie_deleteOne_def CastError_status split: list.splits prod.splits)

lemma found_raises:
  "found e r = (Inl x, s') \<Longrightarrow> err_status x = Some 404 \<or> r = (Inl x, s')"
  by (auto simp: found_def raise_status split: prod.splits option.splits sum.splits)

lemma found_responds: "found e r = (Inr y, s') \<Longrightarrow> code y = 200"
  by (auto simp: found_def json_def split: prod.splits option.splits sum.splits)

lemma get_api_movies_find_raises:
  assumes "get_api_movies_find e s q = (Inl x, s')"
  shows "err_status x \<in> {None, Some 400, Some 404}"
proof (cases "ensureMovieConn s")
  case (Inl r)
  with assms show ?thesis
    by (simp add: get_api_movies_find_def)
next
  case (Inr ms)
  consider (i) "truthy (param q ''id'')"
    | (m) "\<not> truthy (param q ''id'')" "truthy (param q ''movie_id'')"
    | (t) "\<not> truthy (param q ''id'')" "\<not> truthy (param q ''movie_id'')" "truthy (param q ''title'')"
    | (n) "\<not> truthy (param q ''id'')" "\<not> truthy (param q ''movie_id'')" "\<not> truthy (param q ''title'')"
    by blast
  then show ?thesis
  proof cases
    case i
    with assms Inr have "found e (Movie_findById e (the (param q ''id'')) ms s) = (Inl x, s')"
      by (simp add: get_api_movies_find_def)
    from found_raises[OF this] show ?thesis
      using Movie_findById_raises by blast
  next
    case m
    with assms Inr
    have "found e (Movie_findOne e (movieIdFilter (Str (the (param q ''movie_id'')))) ms s)
            = (Inl x, s')"
      by (simp add: get_api_movies_find_def)
    from found_raises[OF this] show ?thesis
      using Movie_findOne_raises by blast
  next
    case t
    with assms Inr
    have "found e (Movie_findOne e
            (Or [Eq ''movie_title'' (QStr (the (param q ''title''))),
                 Eq ''title'' (QStr (the (param q ''title'')))]) ms s) = (Inl x, s')"
      by (simp add: get_api_movies_find_def)
    from found_raises[OF this] show ?thesis
      using Movie_findOne_raises by blast
  next
    case n
    with assms Inr show ?thesis
      by (auto simp: get_api_movies_find_def raise_status)
  qed
qed

lemma route_raises:
  assumes "route e s rq = (Inl x, s')"
  shows "err_status x \<in> {None, Some 400, Some 404}"
proof (cases rq)
  case (GET_api_movies_find q)
  with assms show ?thesis
    using get_api_movies_find_raises[of e s q x s'] by (simp add: route_def)
next
  case (POST_api_employees b)
  with assms show ?thesis
    by (auto simp: route_def post_api_employees_def Employee_create_def Let_def Error_status
        validation_failed_status Employee_find_def
        split: prod.splits option.splits sum.splits if_splits)
next
  case (DELETE_api_employees i)
  with assms show ?thesis
    by (auto simp: route_def delete_api_employees_def raise_status
        dest: Employee_deleteOne_raises split: prod.splits sum.splits if_splits)
next
  case (POST_api_movies b)
  with assms show ?thesis
    by (auto simp: route_def post_api_movies_def ensureMovieConn_def validation_failed_status
        Movie_create_def Let_def split: prod.splits option.splits if_splits)
next
  case (PUT_api_movies b)
  with assms show ?thesis
    by (auto simp: route_def put_api_movies_def ensureMovieConn_def raise_status
        dest: Movie_findOneAndUpdate_raises
        split: prod.splits option.splits sum.splits if_splits)
next
  case (DELETE_api_movies q)
  with assms show ?thesis
    by (auto simp: route_def delete_api_movies_def ensureMovieConn_def raise_status
        dest: Movie_deleteOne_raises
        split: prod.splits option.splits sum.splits if_splits)
next
  case (GET_ui_movie_show q)
  with assms show ?thesis
    by (auto simp: route_def get_ui_movie_show_def ensureMovieConn_def
        dest: Movie_findById_raises Movie_findOne_raises
        split: prod.splits option.splits sum.splits if_splits)
next
  case (POST_ui_movie_update b)
  with assms show ?thesis
    by (auto simp: route_def post_ui_movie_update_def ensureMovieConn_def raise_status
        dest: Movie_findOneAndUpdate_raises
        split: prod.splits option.splits sum.splits if_splits)
next
  case (POST_ui_movie_delete b)
  with assms show ?thesis
    by (auto simp: route_def post_ui_movie_delete_def ensureMovieConn_def raise_status
        dest: Movie_deleteOne_raises
        split: prod.splits option.splits sum.splits if_splits)
qed (use assms in \<open>auto simp: route_def handler_defs Let_def raise_status ensureMovieConn_def
      Movie_find_limit_def Employee_find_def Movie_create_def
      split: prod.splits option.splits sum.splits if_splits\<close>)

lemma route_responds:
  assumes "route e s rq = (Inr r, s')" and "Movie s = Some ms"
  shows "code r \<in> {200, 201, 302}"
  using assms
  by (cases rq)
     (auto simp: route_def handler_defs Let_def response_defs ensureMovieConn_Some
        dest: found_responds
        split: prod.splits option.splits sum.splits if_splits)

lemma unconfigured_answer:
  assumes "Movie s = None"
    and "rq \<in> {GET_api_movies, GET_api_movies_find p, POST_api_movies p, PUT_api_movies p,
           DELETE_api_movies p, GET_home p, GET_ui_movie_show p, POST_ui_movie_new p,
           POST_ui_movie_update p, POST_ui_movie_delete p}"
  shows "app e s rq =
     (\<lparr> code = 503,
        payload = JsonError
          \<lparr> error = True, status = 503,
            message = ''Movies DB not configured. Set MONGODB_URI_MOVIES in your .env.'',
            details = None, stack = None \<rparr> \<rparr>, s)"
  using assms
  by (auto simp: app_def route_def handler_defs ensureMovieConn_None split: prod.splits)

lemma configured_never_503:
  assumes m: "Movie s = Some ms"
  shows "code (fst (app e s rq)) \<noteq> 503"
proof -
  obtain out s' where r: "route e s rq = (out, s')"
    by (cases "route e s rq")
  show ?thesis
  proof (cases out)
    case (Inl x)
    with r route_raises[of e s rq x s'] show ?thesis
      by (auto simp: app_def error_handler_def)
  next
    case (Inr y)
    with r m route_responds[of e s rq y s' ms] show ?thesis
      by (auto simp: app_def)
  qed
qed

text \<open>
  Claim C3. When the movies store was never configured, each movie operation (list, find,
  create, update and delete on the REST paths; the home list, show, create, update and
  delete on the UI paths) answers 503 with the service-unavailable body and leaves the
  state as it was, the log of store calls included: no store call is made. When the store
  is configured, no request is answered with 503.
\<close>

theorem movies_unconfigured_503:
  "(Movie s = None
      \<and> rq \<in> {GET_api_movies, GET_api_movies_find p, POST_api_movies p, PUT_api_movies p,
           DELETE_api_movies p, GET_home p, GET_ui_movie_show p, POST_ui_movie_new p,
           POST_ui_movie_update p, POST_ui_movie_delete p}
      \<longrightarrow> fst (app e s rq) =
            \<lparr> code = 503,
              payload = JsonError
                \<lparr> error = True, status = 503,
                  message = ''Movies DB not configured. Set MONGODB_URI_MOVIES in your .env.'',
                  details = None, stack = None \<rparr> \<rparr>
          \<and> snd (app e s rq) = s
          \<and> calls (snd (app e s rq)) = calls s)
   \<and> (Movie s \<noteq> None \<longrightarrow> code (fst (app e s rq)) \<noteq> 503)"
proof (intro conjI impI)
  assume h: "Movie s = None
      \<and> rq \<in> {GET_api_movies, GET_api_movies_find p, POST_api_movies p, PUT_api_movies p,
           DELETE_api_movies p, GET_home p, GET_ui_movie_show p, POST_ui_movie_new p,
           POST_ui_movie_update p, POST_ui_movie_delete p}"
  then have a: "app e s rq =
     (\<lparr> code = 503,
        payload = JsonError
          \<lparr> error = True, status = 503,
            message = ''Movies DB not configured. Set MONGODB_URI_MOVIES in your .env.'',
            details = None, stack = None \<rparr> \<rparr>, s)"
    using unconfigured_answer[of s rq p e] by blast
  from a show "fst (app e s rq) =
            \<lparr> code = 503,
              payload = JsonError
                \<lparr> error = True, status = 503,
                  message = ''Movies DB not configured. Set MONGODB_URI_MOVIES in your .env.'',
                  details = None, stack = None \<rparr> \<rparr>"
    by simp
  from a show "snd (app e s rq) = s"
    by simp
  from a show "calls (snd (app e s rq)) = calls s"
    by simp
next
  assume "Movie s \<noteq> None"
  then show "code (fst (app e s rq)) \<noteq> 503"
    using configured_never_503 by blast
qed

theorem movies_unconfigured_503_witness:
  "app \<lparr> NODE_ENV = None, newId = ''n1'', now = 0, frames = [] \<rparr>
       \<lparr> Employee = [], Movie = None, calls = [] \<rparr> GET_api_movies =
     (\<lparr> code = 503,
        payload = JsonError
          \<lparr> error = True, status = 503,
            message = ''Movies DB not configured. Set MONGODB_URI_MOVIES in your .env.'',
            details = None, stack = None \<rparr> \<rparr>,
      \<lparr> Employee = [], Movie = None, calls = [] \<rparr>)
   \<and> code (fst (app \<lparr> NODE_ENV = None, newId = ''n1'', now = 0, frames = [] \<rparr>
       \<lparr> Employee = [], Movie = Some [], calls = [] \<rparr> GET_api_movies)) \<noteq> 503"
proof -
  let ?e = "\<lparr> NODE_ENV = None, newId = ''n1'', now = 0, frames = [] \<rparr>"
  let ?u = "\<lparr> Employee = [], Movie = None, calls = [] \<rparr>"
  let ?c = "\<lparr> Employee = [], Movie = Some [], calls = [] \<rparr>"
  have u: "Movie ?u = None
      \<and> GET_api_movies \<in> {GET_api_movies, GET_api_movies_find [], POST_api_movies [],
           PUT_api_movies [], DELETE_api_movies [], GET_home [], GET_ui_movie_show [],
           POST_ui_movie_new [], POST_ui_movie_update [], POST_ui_movie_delete []}"
    by simp
  have c: "Movie ?c \<noteq> None"
    by simp
  from movies_unconfigured_503[of ?u GET_api_movies "[]" ?e] u
  have "fst (app ?e ?u GET_api_movies) =
          \<lparr> code = 503,
            payload = JsonError
              \<lparr> error = True, status = 503,
                message = ''Movies DB not configured. Set MONGODB_URI_MOVIES in your .env.'',
                details = None, stack = None \<rparr> \<rparr>
        \<and> snd (app ?e ?u GET_api_movies) = ?u"
    by blast
  moreover from movies_unconfigured_503[of ?c GET_api_movies "[]" ?e] c
  have "code (fst (app ?e ?c GET_api_movies)) \<noteq> 503"
    by blast
  ultimately show ?thesis
    by (simp add: prod_eq_iff)
qed
subsection \<open>List bounds\<close>

lemma get_api_movies_configured:
  "Movie s = Some ms \<Longrightarrow>
     app e s GET_api_movies = (\<lparr> code = 200, payload = JsonMovies (take 200 ms) \<rparr>, logged MovieFind s)"
  by (simp add: app_def route_def get_api_movies_def ensureMovieConn_Some Movie_find_limit_def
      json_def)

lemma get_api_employees_all:
  "app e s GET_api_employees =
     (\<lparr> code = 200, payload = JsonEmployees (Employee s) \<rparr>, logged EmployeeFind s)"
  by (simp add: app_def route_def get_api_employees_def Employee_find_def json_def)

text \<open>
  Claim C5. In every state the movie list answers with at most 200 records (the first 200
  of the collection when the store is configured), and the employee list answers with all
  employee records.
\<close>

theorem list_bounds:
  "(\<forall>l. payload (fst (app e s GET_api_movies)) = JsonMovies l \<longrightarrow> length l \<le> 200)
   \<and> (\<forall>ms. Movie s = Some ms \<longrightarrow>
          fst (app e s GET_api_movies) = \<lparr> code = 200, payload = JsonMovies (take 200 ms) \<rparr>)
   \<and> fst (app e s GET_api_employees) = \<lparr> code = 200, payload = JsonEmployees (Employee s) \<rparr>"
proof (intro conjI allI impI)
  fix l
  assume l: "payload (fst (app e s GET_api_movies)) = JsonMovies l"
  show "length l \<le> 200"
  proof (cases "Movie s")
    case None
    then have "payload (fst (app e s GET_api_movies)) \<noteq> JsonMovies l"
      using unconfigured_answer[of s GET_api_movies "[]" e] by simp
    with l show ?thesis
      by simp
  next
    case (Some ms)
    with l have "l = take 200 ms"
      by (simp add: get_api_movies_configured)
    then show ?thesis
      by simp
  qed
next
  fix ms
  assume "Movie s = Some ms"
  then show "fst (app e s GET_api_movies) = \<lparr> code = 200, payload = JsonMovies (take 200 ms) \<rparr>"
    by (simp add: get_api_movies_configured)
next
  show "fst (app e s GET_api_employees) = \<lparr> code = 200, payload = JsonEmployees (Employee s) \<rparr>"
    by (simp add: get_api_employees_all)
qed

theorem list_bounds_witness:
  "fst (app \<lparr> NODE_ENV = None, newId = ''n1'', now = 0, frames = [] \<rparr>
          \<lparr> Employee = [], Movie = Some (replicate 201 \<lparr> oid = ''m'', props = [] \<rparr>), calls = [] \<rparr>
          GET_api_movies) =
     \<lparr> code = 200, payload = JsonMovies (replicate 200 \<lparr> oid = ''m'', props = [] \<rparr>) \<rparr>
   \<and> length (replicate 200 \<lparr> oid = ''m'', props = [] \<rparr>) \<le> 200"
proof -
  let ?e = "\<lparr> NODE_ENV = None, newId = ''n1'', now = 0, frames = [] \<rparr>"
  let ?d = "\<lparr> oid = ''m'', props = [] \<rparr>"
  let ?s = "\<lparr> Employee = [], Movie = Some (replicate 201 ?d), calls = [] \<rparr>"
  have m: "Movie ?s = Some (replicate 201 ?d)"
    by simp
  from list_bounds[of ?e ?s] m
  have r: "fst (app ?e ?s GET_api_movies) =
             \<lparr> code = 200, payload = JsonMovies (take 200 (replicate 201 ?d)) \<rparr>"
    by blast
  then have p: "payload (fst (app ?e ?s GET_api_movies)) = JsonMovies (take 200 (replicate 201 ?d))"
    by simp
  from list_bounds[of ?e ?s] p have "length (take 200 (replicate 201 ?d)) \<le> 200"
    by blast
  with r show ?thesis
    by simp
qed
subsection \<open>The error translator\<close>

lemma app_translates:
  "route e s rq = (Inl x, s') \<Longrightarrow> app e s rq = (error_handler e x, s')"
  by (simp add: app_def)

lemma error_handler_body:
  "payload (error_handler e x) =
     JsonError
       \<lparr> error = True, status = code (error_handler e x),
         message = (if err_message x = [] then ''Internal Server Error'' else err_message x),
         details = err_details x,
         stack = (if NODE_ENV e = Some ''production'' then None else Some (err_stack x)) \<rparr>"
  by (simp add: error_handler_def isDev_def Let_def)

lemma error_handler_code:
  "code (error_handler e x) =
     (case err_status x of None \<Rightarrow> 500 | Some c \<Rightarrow> if c = 0 then 500 else c)"
  by (simp add: error_handler_def Let_def)

lemma unrouted_answer:
  "app e s (Unrouted method url) =
     (\<lparr> code = 404,
        payload = JsonError
          \<lparr> error = True, status = 404,
            message = ''Route not found: '' @ method @ '' '' @ url,
            details = None,
            stack = (if NODE_ENV e = Some ''production'' then None
                     else Some (''Error: '' @ (''Route not found: '' @ method @ '' '' @ url) @ frames e)) \<rparr> \<rparr>,
      s)"
  by (simp add: app_def route_def error_handler_def raise_def Error_def isDev_def)

text \<open>
  Claim C8. An error that a route raises is answered by the error handler. Its answer is a
  JSON body with \<open>error\<close> true, a \<open>status\<close> equal to the response status, a non-empty
  message, the details of the error when it has any, and the stack exactly when
  \<^verbatim>\<open>NODE_ENV\<close> is not \<^verbatim>\<open>production\<close>. The status is the status code of the error, and 500
  when the error has none. A request that reaches no route is answered in the same way,
  with status 404.
\<close>

theorem error_handler_shape:
  "(route e s rq = (Inl x, s') \<longrightarrow> fst (app e s rq) = error_handler e x)
   \<and> payload (error_handler e x) =
       JsonError
         \<lparr> error = True, status = code (error_handler e x),
           message = (if err_message x = [] then ''Internal Server Error'' else err_message x),
           details = err_details x,
           stack = (if NODE_ENV e = Some ''production'' then None else Some (err_stack x)) \<rparr>
   \<and> (\<forall>c. err_status x = Some c \<and> 0 < c \<longrightarrow> code (error_handler e x) = c)
   \<and> (err_status x = None \<longrightarrow> code (error_handler e x) = 500)
   \<and> fst (app e s (Unrouted method url)) =
       \<lparr> code = 404,
         payload = JsonError
           \<lparr> error = True, status = 404,
             message = ''Route not found: '' @ method @ '' '' @ url,
             details = None,
             stack = (if NODE_ENV e = Some ''production'' then None
                      else Some (''Error: '' @ (''Route not found: '' @ method @ '' '' @ url) @ frames e)) \<rparr> \<rparr>"
proof (intro conjI allI impI)
  assume "route e s rq = (Inl x, s')"
  then show "fst (app e s rq) = error_handler e x"
    by (simp add: app_translates)
next
  show "payload (error_handler e x) =
       JsonError
         \<lparr> error = True, status = code (error_handler e x),
           message = (if err_message x = [] then ''Internal Server Error'' else err_message x),
           details = err_details x,
           stack = (if NODE_ENV e = Some ''production'' then None else Some (err_stack x)) \<rparr>"
    by (rule error_handler_body)
next
  fix c
  assume "err_status x = Some c \<and> 0 < c"
  then show "code (error_handler e x) = c"
    by (simp add: error_handler_code)
next
  assume "err_status x = None"
  then show "code (error_handler e x) = 500"
    by (simp add: error_handler_code)
next
  show "fst (app e s (Unrouted method url)) =
       \<lparr> code = 404,
         payload = JsonError
           \<lparr> error = True, status = 404,
             message = ''Route not found: '' @ method @ '' '' @ url,
             details = None,
             stack = (if NODE_ENV e = Some ''production'' then None
                      else Some (''Error: '' @ (''Route not found: '' @ method @ '' '' @ url) @ frames e)) \<rparr> \<rparr>"
    by (simp add: unrouted_answer)
qed

lemma castObjectId_sample:
  "castObjectId ''65a1b2c3d4e5f60718293a4b'' = Some ''65a1b2c3d4e5f60718293a4b''"
  by (simp add: castObjectId_def is_radix_digit_def digit_of_def lower_hex_def)

lemma castObjectId_short: "length v < 24 \<Longrightarrow> castObjectId v = None"
  by (simp add: castObjectId_def)

theorem error_handler_shape_witness:
  "fst (app \<lparr> NODE_ENV = Some ''production'', newId = ''65a1b2c3d4e5f60718293a4c'', now = 0,
              frames = [] \<rparr>
          \<lparr> Employee = [], Movie = Some [], calls = [] \<rparr>
          (DELETE_api_employees ''65a1b2c3d4e5f60718293a4b'')) =
     \<lparr> code = 404,
       payload = JsonError
         \<lparr> error = True, status = 404, message = ''Not found'', details = None, stack = None \<rparr> \<rparr>
   \<and> code (fst (app \<lparr> NODE_ENV = Some ''production'', newId = ''65a1b2c3d4e5f60718293a4c'',
                       now = 0, frames = [] \<rparr>
          \<lparr> Employee = [], Movie = Some [], calls = [] \<rparr>
          (DELETE_api_employees ''e9''))) = 500
   \<and> code (fst (app \<lparr> NODE_ENV = Some ''production'', newId = ''65a1b2c3d4e5f60718293a4c'',
                       now = 0, frames = [] \<rparr>
          \<lparr> Employee = [], Movie = Some [], calls = [] \<rparr>
          (Unrouted ''GET'' ''/nowhere''))) = 404"
proof -
  let ?e = "\<lparr> NODE_ENV = Some ''production'', newId = ''65a1b2c3d4e5f60718293a4c'', now = 0,
              frames = [] \<rparr>"
  let ?s = "\<lparr> Employee = [], Movie = Some [], calls = [] \<rparr>"
  let ?i = "''65a1b2c3d4e5f60718293a4b''"
  let ?x = "raise ?e 404 ''Not found''"
  let ?y = "CastError ?e ''e9'' ''Employee''"
  have r: "route ?e ?s (DELETE_api_employees ?i) = (Inl ?x, logged EmployeeDeleteOne ?s)"
    by (simp add: route_def delete_api_employees_def Employee_deleteOne_def logged_def
        castObjectId_sample)
  have r2: "route ?e ?s (DELETE_api_employees ''e9'') = (Inl ?y, ?s)"
    by (simp add: route_def delete_api_employees_def Employee_deleteOne_def castObjectId_short)
  have st: "err_status ?x = Some 404 \<and> (0::nat) < 404"
    by (simp add: raise_def)
  have none: "err_status ?y = None"
    by (rule CastError_status)
  note t = error_handler_shape[of ?e ?s "DELETE_api_employees ?i" ?x
      "logged EmployeeDeleteOne ?s" "''GET''" "''/nowhere''"]
  note u = error_handler_shape[where e = ?e and s = ?s and rq = "DELETE_api_employees ''e9''"
      and x = ?y and s' = ?s]
  from t r have a: "fst (app ?e ?s (DELETE_api_employees ?i)) = error_handler ?e ?x"
    by blast
  from t st have b: "code (error_handler ?e ?x) = 404"
    by blast
  from t have c: "payload (error_handler ?e ?x) =
       JsonError
         \<lparr> error = True, status = code (error_handler ?e ?x),
           message = (if err_message ?x = [] then ''Internal Server Error'' else err_message ?x),
           details = err_details ?x,
           stack = (if NODE_ENV ?e = Some ''production'' then None else Some (err_stack ?x)) \<rparr>"
    by blast
  from u r2 have a2: "fst (app ?e ?s (DELETE_api_employees ''e9'')) = error_handler ?e ?y"
    by blast
  from u none have d: "code (error_handler ?e ?y) = 500"
    by blast
  from t have n: "code (fst (app ?e ?s (Unrouted ''GET'' ''/nowhere''))) = 404"
    by simp
  have "error_handler ?e ?x =
     \<lparr> code = 404,
       payload = JsonError
         \<lparr> error = True, status = 404, message = ''Not found'', details = None, stack = None \<rparr> \<rparr>"
    using b c by (cases "error_handler ?e ?x") (simp add: raise_def Error_def)
  with a a2 d n show ?thesis
    by simp
qed

subsection \<open>First match only\<close>

lemma delete_first_split:
  "delete_first P xs = (n, ys) \<Longrightarrow>
     (n = 0 \<and> ys = xs \<and> (\<forall>x\<in>set xs. \<not> P x))
     \<or> (n = 1 \<and> (\<exists>pre x post. xs = pre @ x # post \<and> (\<forall>y\<in>set pre. \<not> P y) \<and> P x
                    \<and> ys = pre @ post))"
proof (induction xs arbitrary: n ys)
  case Nil
  then show ?case by simp
next
  case (Cons a xs)
  show ?case
  proof (cases "P a")
    case True
    with Cons.prems have "n = 1" and "ys = xs"
      by simp_all
    with True have "a # xs = [] @ a # xs \<and> (\<forall>y\<in>set []. \<not> P y) \<and> P a \<and> ys = [] @ xs"
      by simp
    then show ?thesis
      using \<open>n = 1\<close> by blast
  next
    case False
    obtain m zs where d: "delete_first P xs = (m, zs)"
      by (cases "delete_first P xs")
    with False Cons.prems have eq: "n = m" "ys = a # zs"
      by simp_all
    from Cons.IH[OF d] show ?thesis
    proof
      assume "m = 0 \<and> zs = xs \<and> (\<forall>x\<in>set xs. \<not> P x)"
      with False eq show ?thesis
        by simp
    next
      assume "m = 1 \<and> (\<exists>pre x post. xs = pre @ x # post \<and> (\<forall>y\<in>set pre. \<not> P y) \<and> P x
                    \<and> zs = pre @ post)"
      then obtain pre x post where
        s: "m = 1" "xs = pre @ x # post" "\<forall>y\<in>set pre. \<not> P y" "P x" "zs = pre @ post"
        by blast
      with False eq
      have "a # xs = (a # pre) @ x # post \<and> (\<forall>y\<in>set (a # pre). \<not> P y) \<and> P x
            \<and> ys = (a # pre) @ post"
        by simp
      then show ?thesis
        using eq(1) s(1) by blast
    qed
  qed
qed

lemma update_first_split:
  "update_first P g xs = (r, ys) \<Longrightarrow>
     (r = None \<and> ys = xs \<and> (\<forall>x\<in>set xs. \<not> P x))
     \<or> (\<exists>pre x post. xs = pre @ x # post \<and> (\<forall>y\<in>set pre. \<not> P y) \<and> P x
            \<and> r = Some (g x) \<and> ys = pre @ g x # post)"
proof (induction xs arbitrary: r ys)
  case Nil
  then show ?case by simp
next
  case (Cons a xs)
  show ?case
  proof (cases "P a")
    case True
    with Cons.prems have "r = Some (g a)" and "ys = g a # xs"
      by simp_all
    with True
    have "a # xs = [] @ a # xs \<and> (\<forall>y\<in>set []. \<not> P y) \<and> P a \<and> r = Some (g a)
          \<and> ys = [] @ g a # xs"
      by simp
    then show ?thesis
      by blast
  next
    case False
    obtain q zs where d: "update_first P g xs = (q, zs)"
      by (cases "update_first P g xs")
    with False Cons.prems have eq: "r = q" "ys = a # zs"
      by simp_all
    from Cons.IH[OF d] show ?thesis
    proof
      assume "q = None \<and> zs = xs \<and> (\<forall>x\<in>set xs. \<not> P x)"
      with False eq show ?thesis
        by simp
    next
      assume "\<exists>pre x post. xs = pre @ x # post \<and> (\<forall>y\<in>set pre. \<not> P y) \<and> P x
                \<and> q = Some (g x) \<and> zs = pre @ g x # post"
      then obtain pre x post where
        s: "xs = pre @ x # post" "\<forall>y\<in>set pre. \<not> P y" "P x" "q = Some (g x)"
           "zs = pre @ g x # post"
        by blast
      with False eq
      have "a # xs = (a # pre) @ x # post \<and> (\<forall>y\<in>set (a # pre). \<not> P y) \<and> P x
            \<and> r = Some (g x) \<and> ys = (a # pre) @ g x # post"
        by simp
      then show ?thesis
        by blast
    qed
  qed
qed

lemma snd_app: "snd (app e s rq) = snd (route e s rq)"
  by (simp add: app_def split: prod.splits sum.splits)

lemma put_api_movies_state:
  "snd (put_api_movies e s b) = s
   \<or> (\<exists>ms. Movie s = Some ms
         \<and> snd (put_api_movies e s b) =
             logged MovieFindOneAndUpdate
               (s\<lparr> Movie := Some (snd (update_first
                     (matches (target_filter (param b ''id'') (param b ''movie_id'')))
                     (set_fields e (update_fields b)) ms)) \<rparr>))"
  by (auto simp: put_api_movies_def ensureMovieConn_def Movie_findOneAndUpdate_def
      split: option.splits prod.splits list.splits sum.splits)

lemma post_ui_movie_update_state:
  "snd (post_ui_movie_update e s b) = s
   \<or> (\<exists>ms. Movie s = Some ms
         \<and> snd (post_ui_movie_update e s b) =
             logged MovieFindOneAndUpdate
               (s\<lparr> Movie := Some (snd (update_first
                     (matches (target_filter (param b ''id'') (param b ''movie_id'')))
                     (set_fields e (update_fields b)) ms)) \<rparr>))"
  by (auto simp: post_ui_movie_update_def ensureMovieConn_def Movie_findOneAndUpdate_def
      split: option.splits prod.splits list.splits sum.splits)

lemma delete_api_movies_state:
  "snd (delete_api_movies e s b) = s
   \<or> (\<exists>ms. Movie s = Some ms
         \<and> snd (delete_api_movies e s b) =
             logged MovieDeleteOne
               (s\<lparr> Movie := Some (snd (delete_first
                     (matches (target_filter (param b ''id'') (param b ''movie_id''))) ms)) \<rparr>))"
  by (auto simp: delete_api_movies_def ensureMovieConn_def Movie_deleteOne_def
      split: option.splits prod.splits list.splits sum.splits)

lemma post_ui_movie_delete_state:
  "snd (post_ui_movie_delete e s b) = s
   \<or> (\<exists>ms. Movie s = Some ms
         \<and> snd (post_ui_movie_delete e s b) =
             logged MovieDeleteOne
               (s\<lparr> Movie := Some (snd (delete_first
                     (matches (target_filter (param b ''id'') (param b ''movie_id''))) ms)) \<rparr>))"
  by (auto simp: post_ui_movie_delete_def ensureMovieConn_def Movie_deleteOne_def
      split: option.splits prod.splits list.splits sum.splits)

lemma update_frame:
  assumes "t = s
     \<or> (\<exists>ms. Movie s = Some ms
           \<and> t = logged MovieFindOneAndUpdate (s\<lparr> Movie := Some (snd (update_first P g ms)) \<rparr>))"
  shows "Employee t = Employee s
     \<and> (Movie t = Movie s
        \<or> (\<exists>pre x post. Movie s = Some (pre @ x # post) \<and> (\<forall>y\<in>set pre. \<not> P y) \<and> P x
               \<and> Movie t = Some (pre @ g x # post)))"
  using assms
proof
  assume "t = s"
  then show ?thesis by simp
next
  assume "\<exists>ms. Movie s = Some ms
           \<and> t = logged MovieFindOneAndUpdate (s\<lparr> Movie := Some (snd (update_first P g ms)) \<rparr>)"
  then obtain ms where ms: "Movie s = Some ms"
    and t: "t = logged MovieFindOneAndUpdate (s\<lparr> Movie := Some (snd (update_first P g ms)) \<rparr>)"
    by blast
  obtain r ys where u: "update_first P g ms = (r, ys)"
    by (cases "update_first P g ms")
  from t u have e: "Employee t = Employee s" and m: "Movie t = Some ys"
    by (simp_all add: logged_def)
  from update_first_split[OF u] show ?thesis
  proof
    assume "r = None \<and> ys = ms \<and> (\<forall>x\<in>set ms. \<not> P x)"
    with e m ms show ?thesis by simp
  next
    assume "\<exists>pre x post. ms = pre @ x # post \<and> (\<forall>y\<in>set pre. \<not> P y) \<and> P x
              \<and> r = Some (g x) \<and> ys = pre @ g x # post"
    with e m ms show ?thesis by auto
  qed
qed

lemma delete_frame:
  assumes "t = s
     \<or> (\<exists>ms. Movie s = Some ms
           \<and> t = logged MovieDeleteOne (s\<lparr> Movie := Some (snd (delete_first P ms)) \<rparr>))"
  shows "Employee t = Employee s
     \<and> (Movie t = Movie s
        \<or> (\<exists>pre x post. Movie s = Some (pre @ x # post) \<and> (\<forall>y\<in>set pre. \<not> P y) \<and> P x
               \<and> Movie t = Some (pre @ post)))"
  using assms
proof
  assume "t = s"
  then show ?thesis by simp
next
  assume "\<exists>ms. Movie s = Some ms
           \<and> t = logged MovieDeleteOne (s\<lparr> Movie := Some (snd (delete_first P ms)) \<rparr>)"
  then obtain ms where ms: "Movie s = Some ms"
    and t: "t = logged MovieDeleteOne (s\<lparr> Movie := Some (snd (delete_first P ms)) \<rparr>)"
    by blast
  obtain n ys where u: "delete_first P ms = (n, ys)"
    by (cases "delete_first P ms")
  from t u have e: "Employee t = Employee s" and m: "Movie t = Some ys"
    by (simp_all add: logged_def)
  from delete_first_split[OF u] show ?thesis
  proof
    assume "n = 0 \<and> ys = ms \<and> (\<forall>x\<in>set ms. \<not> P x)"
    with e m ms show ?thesis by simp
  next
    assume "n = 1 \<and> (\<exists>pre x post. ms = pre @ x # post \<and> (\<forall>y\<in>set pre. \<not> P y) \<and> P x
              \<and> ys = pre @ post)"
    with e m ms show ?thesis by auto
  qed
qed

lemma found_state: "snd (found e r) = snd r"
  by (simp add: found_def split: prod.splits option.splits sum.splits)

lemma Movie_findById_frame:
  "Employee (snd (Movie_findById e i ms s)) = Employee s
   \<and> Movie (snd (Movie_findById e i ms s)) = Movie s"
  by (simp add: Movie_findById_def logged_def split: list.splits)

lemma Movie_findOne_frame:
  "Employee (snd (Movie_findOne e f ms s)) = Employee s
   \<and> Movie (snd (Movie_findOne e f ms s)) = Movie s"
  by (simp add: Movie_findOne_def logged_def split: list.splits)

lemma get_ui_movie_show_frame:
  "Employee (snd (get_ui_movie_show e s q)) = Employee s
   \<and> Movie (snd (get_ui_movie_show e s q)) = Movie s"
proof (cases "ensureMovieConn s")
  case (Inl r)
  then show ?thesis
    by (simp add: get_ui_movie_show_def)
next
  case (Inr ms)
  let ?r = "if truthy (param q ''id'') then Movie_findById e (the (param q ''id'')) ms s
            else if truthy (param q ''movie_id'')
              then Movie_findOne e (movieIdFilter (Str (the (param q ''movie_id'')))) ms s
            else (Inr None, s)"
  have f: "Employee (snd ?r) = Employee s \<and> Movie (snd ?r) = Movie s"
    using Movie_findById_frame Movie_findOne_frame by simp
  have "snd (get_ui_movie_show e s q) = snd ?r"
    using Inr by (simp add: get_ui_movie_show_def split: prod.splits sum.splits)
  with f show ?thesis
    by simp
qed

lemma reads_frame:
  assumes "rq \<in> {GET_api_employees, GET_api_movies, GET_api_movies_find q, GET_home q,
                  GET_ui_movie_show q}"
  shows "Employee (snd (route e s rq)) = Employee s \<and> Movie (snd (route e s rq)) = Movie s"
proof -
  have "Employee (snd (get_api_employees e s)) = Employee s
        \<and> Movie (snd (get_api_employees e s)) = Movie s"
    by (simp add: get_api_employees_def Employee_find_def logged_def)
  moreover have "Employee (snd (get_api_movies e s)) = Employee s
        \<and> Movie (snd (get_api_movies e s)) = Movie s"
    by (simp add: get_api_movies_def ensureMovieConn_def Movie_find_limit_def logged_def
        split: option.splits)
  moreover have "Employee (snd (get_api_movies_find e s q)) = Employee s
        \<and> Movie (snd (get_api_movies_find e s q)) = Movie s"
    by (simp add: get_api_movies_find_def ensureMovieConn_def found_state Movie_findById_frame
        Movie_findOne_frame split: option.splits)
  moreover have "Employee (snd (get_home e s q)) = Employee s
        \<and> Movie (snd (get_home e s q)) = Movie s"
    by (simp add: get_home_def ensureMovieConn_def Movie_find_limit_def logged_def
        split: option.splits)
  moreover note get_ui_movie_show_frame[of e s q]
  ultimately show ?thesis
    using assms by (auto simp: route_def)
qed

text \<open>
  Claim C4. A movie update (REST or UI) leaves the employees as they were and either leaves
  the movies as they were or changes exactly the first record that matches the filter of
  the request: the records before it do not match and stay, the records after it stay
  even when they match. A movie delete removes exactly that first record or nothing. When
  no internal id is given the filter is the flexible one for the supplied \<open>movie_id\<close>. The
  list and get operations change no record of either collection.
\<close>

theorem first_match_only:
  assumes "t = snd (app e s rq)"
    and "f = target_filter (param b ''id'') (param b ''movie_id'')"
  shows "(\<not> truthy (param b ''id'') \<and> param b ''movie_id'' = Some m \<longrightarrow> f = movieIdFilter (Str m))
   \<and> (rq \<in> {PUT_api_movies b, POST_ui_movie_update b} \<longrightarrow>
        Employee t = Employee s
        \<and> (Movie t = Movie s
           \<or> (\<exists>pre x post. Movie s = Some (pre @ x # post)
                  \<and> (\<forall>y\<in>set pre. \<not> matches f y) \<and> matches f x
                  \<and> Movie t = Some (pre @ set_fields e (update_fields b) x # post))))
   \<and> (rq \<in> {DELETE_api_movies b, POST_ui_movie_delete b} \<longrightarrow>
        Employee t = Employee s
        \<and> (Movie t = Movie s
           \<or> (\<exists>pre x post. Movie s = Some (pre @ x # post)
                  \<and> (\<forall>y\<in>set pre. \<not> matches f y) \<and> matches f x
                  \<and> Movie t = Some (pre @ post))))
   \<and> (rq \<in> {GET_api_employees, GET_api_movies, GET_api_movies_find b, GET_home b,
              GET_ui_movie_show b} \<longrightarrow>
        Employee t = Employee s \<and> Movie t = Movie s)"
proof (intro conjI impI)
  assume "\<not> truthy (param b ''id'') \<and> param b ''movie_id'' = Some m"
  then show "f = movieIdFilter (Str m)"
    using assms(2) by (simp add: target_filter_def)
next
  assume "rq \<in> {PUT_api_movies b, POST_ui_movie_update b}"
  then have "t = snd (put_api_movies e s b) \<or> t = snd (post_ui_movie_update e s b)"
    using assms(1) by (auto simp: snd_app route_def)
  then have "t = s
     \<or> (\<exists>ms. Movie s = Some ms
           \<and> t = logged MovieFindOneAndUpdate
                   (s\<lparr> Movie := Some (snd (update_first (matches f)
                          (set_fields e (update_fields b)) ms)) \<rparr>))"
    using put_api_movies_state[of e s b] post_ui_movie_update_state[of e s b] assms(2)
    by auto
  then have u: "Employee t = Employee s
     \<and> (Movie t = Movie s
        \<or> (\<exists>pre x post. Movie s = Some (pre @ x # post)
               \<and> (\<forall>y\<in>set pre. \<not> matches f y) \<and> matches f x
               \<and> Movie t = Some (pre @ set_fields e (update_fields b) x # post)))"
    by (rule update_frame)
  from u show "Employee t = Employee s" ..
  from u show "Movie t = Movie s
           \<or> (\<exists>pre x post. Movie s = Some (pre @ x # post)
                  \<and> (\<forall>y\<in>set pre. \<not> matches f y) \<and> matches f x
                  \<and> Movie t = Some (pre @ set_fields e (update_fields b) x # post))" ..
next
  assume "rq \<in> {DELETE_api_movies b, POST_ui_movie_delete b}"
  then have "t = snd (delete_api_movies e s b) \<or> t = snd (post_ui_movie_delete e s b)"
    using assms(1) by (auto simp: snd_app route_def)
  then have "t = s
     \<or> (\<exists>ms. Movie s = Some ms
           \<and> t = logged MovieDeleteOne (s\<lparr> Movie := Some (snd (delete_first (matches f) ms)) \<rparr>))"
    using delete_api_movies_state[of e s b] post_ui_movie_delete_state[of e s b] assms(2)
    by auto
  then have u: "Employee t = Employee s
     \<and> (Movie t = Movie s
        \<or> (\<exists>pre x post. Movie s = Some (pre @ x # post)
               \<and> (\<forall>y\<in>set pre. \<not> matches f y) \<and> matches f x
               \<and> Movie t = Some (pre @ post)))"
    by (rule delete_frame)
  from u show "Employee t = Employee s" ..
  from u show "Movie t = Movie s
           \<or> (\<exists>pre x post. Movie s = Some (pre @ x # post)
                  \<and> (\<forall>y\<in>set pre. \<not> matches f y) \<and> matches f x
                  \<and> Movie t = Some (pre @ post))" ..
next
  assume "rq \<in> {GET_api_employees, GET_api_movies, GET_api_movies_find b, GET_home b,
              GET_ui_movie_show b}"
  then have "Employee (snd (route e s rq)) = Employee s \<and> Movie (snd (route e s rq)) = Movie s"
    by (rule reads_frame)
  then show "Employee t = Employee s" "Movie t = Movie s"
    using assms(1) by (simp_all add: snd_app)
qed

theorem first_match_only_witness:
  "Employee (snd (app \<lparr> NODE_ENV = None, newId = ''n1'', now = 7, frames = [] \<rparr>
       \<lparr> Employee = [\<lparr> eid = ''e1'', name = ''Ann'', salary = Fin 50000, age = Fin 30 \<rparr>],
         Movie = Some [\<lparr> oid = ''a'', props = [(''movie_id'', JNum (Fin 42)), (''movie_title'', JStr ''Old'')] \<rparr>,
                       \<lparr> oid = ''b'', props = [(''movie_id'', JStr ''42''), (''movie_title'', JStr ''Old'')] \<rparr>],
         calls = [] \<rparr>
       (PUT_api_movies [(''movie_id'', ''42''), (''movie_title'', ''New'')])))
     = [\<lparr> eid = ''e1'', name = ''Ann'', salary = Fin 50000, age = Fin 30 \<rparr>]
   \<and> Movie (snd (app \<lparr> NODE_ENV = None, newId = ''n1'', now = 7, frames = [] \<rparr>
       \<lparr> Employee = [\<lparr> eid = ''e1'', name = ''Ann'', salary = Fin 50000, age = Fin 30 \<rparr>],
         Movie = Some [\<lparr> oid = ''a'', props = [(''movie_id'', JNum (Fin 42)), (''movie_title'', JStr ''Old'')] \<rparr>,
                       \<lparr> oid = ''b'', props = [(''movie_id'', JStr ''42''), (''movie_title'', JStr ''Old'')] \<rparr>],
         calls = [] \<rparr>
       (PUT_api_movies [(''movie_id'', ''42''), (''movie_title'', ''New'')])))
     = Some [\<lparr> oid = ''a'', props = [(''movie_id'', JNum (Fin 42)), (''movie_title'', JStr ''New''),
                                     (''updatedAt'', JDate 7)] \<rparr>,
             \<lparr> oid = ''b'', props = [(''movie_id'', JStr ''42''), (''movie_title'', JStr ''Old'')] \<rparr>]
   \<and> matches (movieIdFilter (Str ''42''))
        \<lparr> oid = ''b'', props = [(''movie_id'', JStr ''42''), (''movie_title'', JStr ''Old'')] \<rparr>"
proof -
  let ?e = "\<lparr> NODE_ENV = None, newId = ''n1'', now = 7, frames = [] \<rparr>"
  let ?a = "\<lparr> oid = ''a'', props = [(''movie_id'', JNum (Fin 42)), (''movie_title'', JStr ''Old'')] \<rparr>"
  let ?b = "\<lparr> oid = ''b'', props = [(''movie_id'', JStr ''42''), (''movie_title'', JStr ''Old'')] \<rparr>"
  let ?s = "\<lparr> Employee = [\<lparr> eid = ''e1'', name = ''Ann'', salary = Fin 50000, age = Fin 30 \<rparr>],
             Movie = Some [?a, ?b], calls = [] \<rparr>"
  let ?body = "[(''movie_id'', ''42''), (''movie_title'', ''New'')]"
  let ?rq = "PUT_api_movies ?body"
  let ?f = "target_filter (param ?body ''id'') (param ?body ''movie_id'')"
  have rq: "?rq \<in> {PUT_api_movies ?body, POST_ui_movie_update ?body}"
    by simp
  have f: "?f = movieIdFilter (Str ''42'')"
    by (simp add: target_filter_def param_def truthy_def)
  have ma: "matches (movieIdFilter (Str ''42'')) ?a"
    by (simp add: matches_movieIdFilter_Str get_def Number_42)
  have mb: "matches (movieIdFilter (Str ''42'')) ?b"
    by (simp add: matches_movieIdFilter_Str get_def)
  from first_match_only[where e = ?e and s = ?s and rq = ?rq and b = ?body and m = "''42''",
      OF refl refl] rq
  have emp: "Employee (snd (app ?e ?s ?rq)) = Employee ?s"
    by blast
  have pi: "param ?body ''id'' = None" and pm: "param ?body ''movie_id'' = Some ''42''"
    by (simp_all add: param_def)
  have tf: "target_filter None (Some ''42'') = movieIdFilter (Str ''42'')"
    by (simp add: target_filter_def truthy_def)
  have uc: "uncastable (movieIdFilter (Str ''42'')) = []"
    by (simp add: movieIdFilter_def)
  have upd: "update_first (matches (movieIdFilter (Str ''42'')))
         (set_fields ?e (update_fields ?body)) [?a, ?b]
       = (Some (set_fields ?e (update_fields ?body) ?a),
          [set_fields ?e (update_fields ?body) ?a, ?b])"
    using ma by simp
  have sf: "set_fields ?e (update_fields ?body) ?a =
      \<lparr> oid = ''a'', props = [(''movie_id'', JNum (Fin 42)), (''movie_title'', JStr ''New''),
                              (''updatedAt'', JDate 7)] \<rparr>"
    by (simp add: set_fields_def update_fields_def defined_fields_def param_def)
  have "Movie (snd (app ?e ?s ?rq)) = Some [set_fields ?e (update_fields ?body) ?a, ?b]"
    by (simp add: snd_app route_def put_api_movies_def ensureMovieConn_def
        Movie_findOneAndUpdate_def logged_def pi pm truthy_def tf uc ma)
  with emp mb sf show ?thesis
    by simp
qed
subsection \<open>Creation\<close>

text \<open>A string that \<open>isNumeric\<close> accepts is not empty and converts to a number.\<close>

lemma digit_not_space: "is_digit c \<Longrightarrow> \<not> is_space c"
  by (auto simp: is_digit_def is_radix_digit_def digit_of_def is_space_def Let_def
      split: if_splits)

lemma trim_id:
  assumes "s \<noteq> []" and "\<not> is_space (hd s)" and "\<not> is_space (last s)"
  shows "trim s = s"
proof -
  have "dropWhile is_space s = s"
    using assms(2) by (simp add: dropWhile_eq_self_iff)
  moreover have "dropWhile is_space (rev s) = rev s"
    using assms(1,3) by (simp add: dropWhile_eq_self_iff hd_rev)
  ultimately show ?thesis
    by (simp add: trim_def)
qed

text \<open>The shape of a string that \<open>isNumeric\<close> accepts.\<close>

lemma isNumeric_shape:
  assumes "isNumeric s"
  obtains sg a u where "s = sg @ a @ u"
    and "sg = [] \<or> sg = ''+'' \<or> sg = ''-''"
    and "list_all is_digit a"
    and "(u = [] \<and> a \<noteq> []) \<or> (\<exists>w. u = CHR ''.'' # w \<and> w \<noteq> [] \<and> list_all is_digit w)"
    and "sg = [] \<longrightarrow> (case s of [] \<Rightarrow> True | c # _ \<Rightarrow> c \<noteq> CHR ''+'' \<and> c \<noteq> CHR ''-'')"
proof -
  define t where "t = (case s of [] \<Rightarrow> [] | c # r \<Rightarrow> if c = CHR ''+'' \<or> c = CHR ''-'' then r else s)"
  define sg where "sg = (case s of [] \<Rightarrow> [] | c # r \<Rightarrow> if c = CHR ''+'' \<or> c = CHR ''-'' then [c] else [])"
  have s: "s = sg @ t"
    by (auto simp: t_def sg_def split: list.splits)
  have sgc: "sg = [] \<or> sg = ''+'' \<or> sg = ''-''"
    by (auto simp: sg_def split: list.splits)
  have sg0: "sg = [] \<longrightarrow> (case s of [] \<Rightarrow> True | c # _ \<Rightarrow> c \<noteq> CHR ''+'' \<and> c \<noteq> CHR ''-'')"
    by (auto simp: sg_def split: list.splits)
  have t: "t = takeWhile is_digit t @ dropWhile is_digit t"
    by simp
  have a: "list_all is_digit (takeWhile is_digit t)"
    by (simp add: list_all_iff) (meson set_takeWhileD)
  from assms
  have "case dropWhile is_digit t of [] \<Rightarrow> takeWhile is_digit t \<noteq> []
        | c # w \<Rightarrow> c = CHR ''.'' \<and> w \<noteq> [] \<and> list_all is_digit w"
    unfolding isNumeric_def Let_def t_def .
  then have u: "(dropWhile is_digit t = [] \<and> takeWhile is_digit t \<noteq> [])
      \<or> (\<exists>w. dropWhile is_digit t = CHR ''.'' # w \<and> w \<noteq> [] \<and> list_all is_digit w)"
    by (cases "dropWhile is_digit t") simp_all
  show ?thesis
  proof (rule that[of sg "takeWhile is_digit t" "dropWhile is_digit t"])
    show "s = sg @ takeWhile is_digit t @ dropWhile is_digit t"
      using s by simp
    show "sg = [] \<or> sg = ''+'' \<or> sg = ''-''"
      by (rule sgc)
    show "list_all is_digit (takeWhile is_digit t)"
      by (rule a)
    show "(dropWhile is_digit t = [] \<and> takeWhile is_digit t \<noteq> [])
      \<or> (\<exists>w. dropWhile is_digit t = CHR ''.'' # w \<and> w \<noteq> [] \<and> list_all is_digit w)"
      by (rule u)
    show "sg = [] \<longrightarrow> (case s of [] \<Rightarrow> True | c # _ \<Rightarrow> c \<noteq> CHR ''+'' \<and> c \<noteq> CHR ''-'')"
      by (rule sg0)
  qed
qed


lemma sign_point_not_space:
  "\<not> is_space CHR ''+''" "\<not> is_space CHR ''-''" "\<not> is_space CHR ''.''"
  by (simp_all add: is_space_def)

lemma point_not_digit: "\<not> is_digit CHR ''.''"
  by (simp add: is_digit_def is_radix_digit_def digit_of_def)

lemma sign_not_digit: "\<not> is_digit CHR ''+''" "\<not> is_digit CHR ''-''"
  by (simp_all add: is_digit_def is_radix_digit_def digit_of_def)

lemma prefix_not_digit: "radix_of_prefix p = Some b \<Longrightarrow> \<not> is_digit p \<and> p \<noteq> CHR ''.''"
  by (auto simp: radix_of_prefix_def is_digit_def is_radix_digit_def digit_of_def
      split: if_splits)

lemma digits_then:
  assumes "list_all is_digit a" and "u = [] \<or> \<not> is_digit (hd u)"
  shows "takeWhile is_digit (a @ u) = a" and "dropWhile is_digit (a @ u) = u"
proof -
  from assms(1) have a: "\<And>x. x \<in> set a \<Longrightarrow> is_digit x"
    by (simp add: list_all_iff)
  from assms(2) have "takeWhile is_digit u = []" and "dropWhile is_digit u = u"
    by (cases u; simp)+
  with a show "takeWhile is_digit (a @ u) = a" and "dropWhile is_digit (a @ u) = u"
    by (simp_all add: takeWhile_append2 dropWhile_append2)
qed

lemma unsigned_decimal_digits:
  assumes "list_all is_digit a"
    and "(u = [] \<and> a \<noteq> []) \<or> (\<exists>w. u = CHR ''.'' # w \<and> w \<noteq> [] \<and> list_all is_digit w)"
  shows "\<exists>r. unsigned_decimal (a @ u) = to_double r"
proof -
  from assms(2) have hu: "u = [] \<or> \<not> is_digit (hd u)"
    using point_not_digit by auto
  note td = digits_then[OF assms(1) hu]
  have inf: "a @ u \<noteq> ''Infinity''"
  proof
    assume e: "a @ u = ''Infinity''"
    have "takeWhile is_digit ''Infinity'' = []"
      by (simp add: is_digit_def is_radix_digit_def digit_of_def)
    with td(1) e have "a = []"
      by simp
    with e assms(2) show False
      by auto
  qed
  define fp where
    "fp = (case u of [] \<Rightarrow> [] | c # t \<Rightarrow> if c = CHR ''.'' then takeWhile is_digit t else [])"
  define r2 where
    "r2 = (case u of [] \<Rightarrow> [] | c # t \<Rightarrow> if c = CHR ''.'' then dropWhile is_digit t else u)"
  have ud: "unsigned_decimal (a @ u) =
      (if a = [] \<and> fp = [] then NaN
       else (case exponent_part r2 of
               None \<Rightarrow> NaN
             | Some e \<Rightarrow>
                 to_double (scale10 (of_int (radix_value 10 (a @ fp))) (e - int (length fp)))))"
    unfolding unsigned_decimal_def Let_def td fp_def r2_def using inf by simp
  have "r2 = [] \<and> (a \<noteq> [] \<or> fp \<noteq> [])"
    using assms(2)
  proof
    assume "u = [] \<and> a \<noteq> []"
    then show ?thesis
      by (simp add: r2_def)
  next
    assume "\<exists>w. u = CHR ''.'' # w \<and> w \<noteq> [] \<and> list_all is_digit w"
    then obtain w where w: "u = CHR ''.'' # w" "w \<noteq> []" "list_all is_digit w"
      by blast
    from digits_then[OF w(3), of "[]"]
    have tw: "takeWhile is_digit w = w" and dw: "dropWhile is_digit w = []"
      by simp_all
    show ?thesis
      by (simp add: r2_def fp_def w tw dw)
  qed
  then show ?thesis
    unfolding ud by (auto simp: exponent_part_def)
qed

lemma negate_to_double: "negate (to_double r) \<noteq> NaN"
  using to_double_not_NaN[of r] by (cases "to_double r") (simp_all add: negate_def)

lemma isNumeric_number:
  assumes "isNumeric s"
  shows "s \<noteq> [] \<and> StringToNumber s \<noteq> NaN"
proof -
  from assms obtain sg a u where s: "s = sg @ a @ u"
    and sg: "sg = [] \<or> sg = ''+'' \<or> sg = ''-''"
    and a: "list_all is_digit a"
    and u: "(u = [] \<and> a \<noteq> []) \<or> (\<exists>w. u = CHR ''.'' # w \<and> w \<noteq> [] \<and> list_all is_digit w)"
    by (rule isNumeric_shape)
  have t: "a @ u \<noteq> []"
    using u by auto
  then have ne: "s \<noteq> []"
    using s by simp
  have chars: "\<forall>c\<in>set s. \<not> is_space c"
  proof
    fix c
    assume "c \<in> set s"
    then have "c \<in> set sg \<or> c \<in> set a \<or> c \<in> set u"
      using s by auto
    moreover have "c \<in> set sg \<Longrightarrow> \<not> is_space c"
      using sg sign_point_not_space by auto
    moreover have "c \<in> set a \<Longrightarrow> \<not> is_space c"
      using a digit_not_space by (auto simp: list_all_iff)
    moreover have "c \<in> set u \<Longrightarrow> \<not> is_space c"
      using u digit_not_space sign_point_not_space by (auto simp: list_all_iff)
    ultimately show "\<not> is_space c"
      by blast
  qed
  have tr: "trim s = s"
    using ne chars by (intro trim_id) simp_all
  have hd_t: "\<not> is_space (hd (a @ u)) \<and> hd (a @ u) \<noteq> CHR ''+'' \<and> hd (a @ u) \<noteq> CHR ''-''
      \<and> (is_digit (hd (a @ u)) \<or> hd (a @ u) = CHR ''.'')"
  proof (cases a)
    case Nil
    with u show ?thesis
      using sign_point_not_space by auto
  next
    case (Cons x xs)
    with a have "is_digit x"
      by simp
    with Cons show ?thesis
      using digit_not_space sign_not_digit by auto
  qed
  obtain r where r: "unsigned_decimal (a @ u) = to_double r"
    using unsigned_decimal_digits[OF a u] by blast
  have dec: "decimal_literal s \<noteq> NaN"
  proof -
    from sg consider "sg = []" | "sg = ''+''" | "sg = ''-''"
      by blast
    then show ?thesis
    proof cases
      case 1
      with s t hd_t have "decimal_literal s = unsigned_decimal (a @ u)"
        by (cases "a @ u") (auto simp: decimal_literal_def)
      with r show ?thesis
        by (simp add: to_double_not_NaN)
    next
      case 2
      with s have "decimal_literal s = unsigned_decimal (a @ u)"
        by (simp add: decimal_literal_def)
      with r show ?thesis
        by (simp add: to_double_not_NaN)
    next
      case 3
      with s have "decimal_literal s = negate (unsigned_decimal (a @ u))"
        by (simp add: decimal_literal_def)
      with r show ?thesis
        by (simp add: negate_to_double)
    qed
  qed
  have non: "nondecimal_literal s = None"
  proof (rule ccontr)
    assume "nondecimal_literal s \<noteq> None"
    then obtain p ds b where z: "s = CHR ''0'' # p # ds" and p: "radix_of_prefix p = Some b"
      by (auto simp: nondecimal_literal_def split: list.splits if_splits option.splits)
    from z sg s have sg0: "sg = []"
      by auto
    with s z have au: "a @ u = CHR ''0'' # p # ds"
      by simp
    from prefix_not_digit[OF p] have pn: "\<not> is_digit p" "p \<noteq> CHR ''.''"
      by simp_all
    show False
    proof (cases a)
      case Nil
      with au u show False
        by auto
    next
      case (Cons x xs)
      with au have x: "x = CHR ''0''" and rest: "xs @ u = p # ds"
        by simp_all
      show False
      proof (cases xs)
        case Nil
        with rest u pn show False
          by auto
      next
        case (Cons y ys)
        with rest have "y = p"
          by simp
        with Cons \<open>a = x # xs\<close> a pn show False
          by simp
      qed
    qed
  qed
  from tr ne non dec show ?thesis
    by (simp add: StringToNumber_def)
qed

lemma castNumber_numeric:
  assumes "isNumeric (field_string b k)"
  shows "castNumber (param b k) = Some (Some (Number (Str (field_string b k))))"
proof -
  from isNumeric_number[OF assms]
  have ne: "field_string b k \<noteq> []" and n: "StringToNumber (field_string b k) \<noteq> NaN"
    by simp_all
  from ne obtain v where v: "param b k = Some v" "field_string b k = v"
    by (cases "param b k") (simp_all add: field_string_def)
  with ne n show ?thesis
    by (cases "StringToNumber v") (simp_all add: castNumber_def Number_def)
qed

lemma param_sanitized: "param (AList.update k v b) k = Some v"
  by (simp add: param_def update_conv')

lemma param_sanitized_other: "k' \<noteq> k \<Longrightarrow> param (AList.update k v b) k' = param b k'"
  by (simp add: param_def update_conv')

lemma validate_employee_ok:
  "fst (validate_employee b) = [] \<longleftrightarrow>
     trim (field_string b ''name'') \<noteq> [] \<and> isNumeric (field_string b ''salary'')
     \<and> isNumeric (field_string b ''age'')"
  by (simp add: validate_employee_def Let_def)

lemma validate_movie_ok:
  "fst (validate_movie b) = [] \<longleftrightarrow> trim (field_string b ''movie_title'') \<noteq> []"
  by (simp add: validate_movie_def Let_def)

lemma snd_validate_employee:
  "snd (validate_employee b) = AList.update ''name'' (trim (field_string b ''name'')) b"
  by (simp add: validate_employee_def Let_def)

lemma snd_validate_movie:
  "snd (validate_movie b) = AList.update ''movie_title'' (trim (field_string b ''movie_title'')) b"
  by (simp add: validate_movie_def Let_def)

lemma validation_failed_answer:
  "error_handler e (validation_failed e ds) =
     \<lparr> code = 400,
       payload = JsonError
         \<lparr> error = True, status = 400, message = ''Validation failed'', details = Some ds,
           stack = (if NODE_ENV e = Some ''production'' then None
                    else Some (''Error: Validation failed'' @ frames e)) \<rparr> \<rparr>"
  by (simp add: error_handler_def validation_failed_def raise_def Error_def isDev_def)

lemma post_api_employees_invalid:
  assumes "fst (validate_employee b) \<noteq> []"
  shows "app e s (POST_api_employees b) =
     (error_handler e (validation_failed e (fst (validate_employee b))), s)"
  using assms by (auto simp: app_def route_def post_api_employees_def split: prod.splits)

lemma post_api_movies_invalid:
  assumes "fst (validate_movie b) \<noteq> []" and "Movie s = Some ms"
  shows "app e s (POST_api_movies b) =
     (error_handler e (validation_failed e (fst (validate_movie b))), s)"
  using assms
  by (auto simp: app_def route_def post_api_movies_def ensureMovieConn_def split: prod.splits)

lemma post_api_employees_valid:
  assumes "fst (validate_employee b) = []"
  shows "app e s (POST_api_employees b) =
     (\<lparr> code = 200,
        payload = JsonEmployees (Employee s @
          [\<lparr> eid = newId e, name = trim (field_string b ''name''),
              salary = Number (Str (field_string b ''salary'')),
              age = Number (Str (field_string b ''age'')) \<rparr>]) \<rparr>,
      s\<lparr> Employee := Employee s @
          [\<lparr> eid = newId e, name = trim (field_string b ''name''),
              salary = Number (Str (field_string b ''salary'')),
              age = Number (Str (field_string b ''age'')) \<rparr>],
         calls := calls s @ [EmployeeCreate, EmployeeFind] \<rparr>)"
proof -
  let ?body = "AList.update ''name'' (trim (field_string b ''name'')) b"
  from assms have nm: "trim (field_string b ''name'') \<noteq> []"
    and sal: "isNumeric (field_string b ''salary'')" and ag: "isNumeric (field_string b ''age'')"
    by (simp_all add: validate_employee_ok)
  have v: "validate_employee b = ([], ?body)"
    using assms snd_validate_employee[of b] by (cases "validate_employee b") simp
  have p: "param ?body ''name'' = Some (trim (field_string b ''name''))"
    "param ?body ''salary'' = param b ''salary''" "param ?body ''age'' = param b ''age''"
    by (simp_all add: param_sanitized param_sanitized_other)
  have c: "Employee_create e (param ?body ''name'') (param ?body ''salary'') (param ?body ''age'') s =
     (Inr \<lparr> eid = newId e, name = trim (field_string b ''name''),
            salary = Number (Str (field_string b ''salary'')),
            age = Number (Str (field_string b ''age'')) \<rparr>,
      logged EmployeeCreate (s\<lparr> Employee := Employee s @
          [\<lparr> eid = newId e, name = trim (field_string b ''name''),
              salary = Number (Str (field_string b ''salary'')),
              age = Number (Str (field_string b ''age'')) \<rparr>] \<rparr>))"
    using nm
    by (simp add: Employee_create_def Let_def p castNumber_numeric[OF sal]
        castNumber_numeric[OF ag])
  show ?thesis
    by (simp add: app_def route_def post_api_employees_def v c Employee_find_def logged_def
        json_def)
qed

lemma post_api_movies_valid:
  assumes "fst (validate_movie b) = []" and "Movie s = Some ms"
  shows "app e s (POST_api_movies b) =
     (\<lparr> code = 201,
        payload = JsonMovie
          \<lparr> oid = newId e,
            props = defined_fields
                [(''movie_id'', param b ''movie_id''),
                 (''movie_title'', Some (trim (field_string b ''movie_title''))),
                 (''Released'', param b ''Released'')]
              @ [(''createdAt'', JDate (now e)), (''updatedAt'', JDate (now e))] \<rparr> \<rparr>,
      s\<lparr> Movie := Some (ms @
          [\<lparr> oid = newId e,
              props = defined_fields
                  [(''movie_id'', param b ''movie_id''),
                   (''movie_title'', Some (trim (field_string b ''movie_title''))),
                   (''Released'', param b ''Released'')]
                @ [(''createdAt'', JDate (now e)), (''updatedAt'', JDate (now e))] \<rparr>]),
         calls := calls s @ [MovieCreate] \<rparr>)"
proof -
  let ?body = "AList.update ''movie_title'' (trim (field_string b ''movie_title'')) b"
  have v: "validate_movie b = ([], ?body)"
    using assms(1) snd_validate_movie[of b] by (cases "validate_movie b") simp
  have f: "movie_fields ?body =
      [(''movie_id'', param b ''movie_id''),
       (''movie_title'', Some (trim (field_string b ''movie_title''))),
       (''Released'', param b ''Released'')]"
    by (simp add: movie_fields_def param_sanitized param_sanitized_other)
  show ?thesis
    using assms(2)
    by (simp add: app_def route_def post_api_movies_def v ensureMovieConn_def Movie_create_def f
        logged_def Let_def)
qed

lemma validation_failed_code: "code (error_handler e (validation_failed e ds)) = 400"
  by (simp add: validation_failed_answer)

text \<open>
  Claim C10. \<^verbatim>\<open>POST /api/employees\<close> answers 200 exactly when its validation passes; it
  then stores one new employee, made of the store's new identifier, the trimmed name and
  the numbers that salary and age spell, at the end of the collection, and its body is
  the whole employee collection as it is after that, the new record last. Otherwise
  nothing is stored. \<^verbatim>\<open>POST /api/movies\<close> answers 201 exactly when the movies store is
  configured and its validation passes; it then stores one new movie, made of the new
  identifier, the fields of the request that are present (the title trimmed) and the two
  time stamps, at the end of the collection, and its body is that record alone. Otherwise
  nothing is stored.
\<close>

theorem create_responses:
  assumes "new = \<lparr> eid = newId e, name = trim (field_string b ''name''),
                   salary = Number (Str (field_string b ''salary'')),
                   age = Number (Str (field_string b ''age'')) \<rparr>"
    and "d = \<lparr> oid = newId e,
               props = defined_fields
                   [(''movie_id'', param b ''movie_id''),
                    (''movie_title'', Some (trim (field_string b ''movie_title''))),
                    (''Released'', param b ''Released'')]
                 @ [(''createdAt'', JDate (now e)), (''updatedAt'', JDate (now e))] \<rparr>"
  shows "(code (fst (app e s (POST_api_employees b))) = 200 \<longleftrightarrow>
            trim (field_string b ''name'') \<noteq> [] \<and> isNumeric (field_string b ''salary'')
            \<and> isNumeric (field_string b ''age''))
   \<and> (code (fst (app e s (POST_api_employees b))) = 200 \<longrightarrow>
        app e s (POST_api_employees b) =
          (\<lparr> code = 200, payload = JsonEmployees (Employee s @ [new]) \<rparr>,
           s\<lparr> Employee := Employee s @ [new],
              calls := calls s @ [EmployeeCreate, EmployeeFind] \<rparr>))
   \<and> (code (fst (app e s (POST_api_employees b))) \<noteq> 200 \<longrightarrow>
        snd (app e s (POST_api_employees b)) = s)
   \<and> (code (fst (app e s (POST_api_movies b))) = 201 \<longleftrightarrow>
        Movie s \<noteq> None \<and> trim (field_string b ''movie_title'') \<noteq> [])
   \<and> (code (fst (app e s (POST_api_movies b))) = 201 \<longrightarrow>
        (\<exists>ms. Movie s = Some ms
           \<and> app e s (POST_api_movies b) =
               (\<lparr> code = 201, payload = JsonMovie d \<rparr>,
                s\<lparr> Movie := Some (ms @ [d]), calls := calls s @ [MovieCreate] \<rparr>)))
   \<and> (code (fst (app e s (POST_api_movies b))) \<noteq> 201 \<longrightarrow>
        snd (app e s (POST_api_movies b)) = s)"
proof -
  have emp: "code (fst (app e s (POST_api_employees b))) = 200 \<longleftrightarrow> fst (validate_employee b) = []"
  proof (cases "fst (validate_employee b) = []")
    case True
    then show ?thesis
      by (simp add: post_api_employees_valid)
  next
    case False
    then show ?thesis
      by (simp add: post_api_employees_invalid validation_failed_code)
  qed
  have mov: "code (fst (app e s (POST_api_movies b))) = 201 \<longleftrightarrow>
      Movie s \<noteq> None \<and> fst (validate_movie b) = []"
  proof (cases "Movie s")
    case None
    then show ?thesis
      using unconfigured_answer[of s "POST_api_movies b" b e] by simp
  next
    case (Some ms)
    show ?thesis
    proof (cases "fst (validate_movie b) = []")
      case True
      with Some show ?thesis
        by (simp add: post_api_movies_valid)
    next
      case False
      with Some show ?thesis
        by (simp add: post_api_movies_invalid validation_failed_code)
    qed
  qed
  show ?thesis
  proof (intro conjI impI)
    show "code (fst (app e s (POST_api_employees b))) = 200 \<longleftrightarrow>
            trim (field_string b ''name'') \<noteq> [] \<and> isNumeric (field_string b ''salary'')
            \<and> isNumeric (field_string b ''age'')"
      using emp by (simp add: validate_employee_ok)
    show "code (fst (app e s (POST_api_movies b))) = 201 \<longleftrightarrow>
        Movie s \<noteq> None \<and> trim (field_string b ''movie_title'') \<noteq> []"
      using mov by (simp add: validate_movie_ok)
  next
    assume "code (fst (app e s (POST_api_employees b))) = 200"
    with emp have "fst (validate_employee b) = []"
      by simp
    then show "app e s (POST_api_employees b) =
          (\<lparr> code = 200, payload = JsonEmployees (Employee s @ [new]) \<rparr>,
           s\<lparr> Employee := Employee s @ [new],
              calls := calls s @ [EmployeeCreate, EmployeeFind] \<rparr>)"
      unfolding assms(1) by (rule post_api_employees_valid)
  next
    assume "code (fst (app e s (POST_api_employees b))) \<noteq> 200"
    with emp have "fst (validate_employee b) \<noteq> []"
      by simp
    then show "snd (app e s (POST_api_employees b)) = s"
      by (simp add: post_api_employees_invalid)
  next
    assume "code (fst (app e s (POST_api_movies b))) = 201"
    with mov obtain ms where ms: "Movie s = Some ms" and v: "fst (validate_movie b) = []"
      by auto
    from post_api_movies_valid[OF v ms, of e]
    show "\<exists>ms. Movie s = Some ms
           \<and> app e s (POST_api_movies b) =
               (\<lparr> code = 201, payload = JsonMovie d \<rparr>,
                s\<lparr> Movie := Some (ms @ [d]), calls := calls s @ [MovieCreate] \<rparr>)"
      unfolding assms(2) using ms by blast
  next
    assume n: "code (fst (app e s (POST_api_movies b))) \<noteq> 201"
    show "snd (app e s (POST_api_movies b)) = s"
    proof (cases "Movie s")
      case None
      then show ?thesis
        using unconfigured_answer[of s "POST_api_movies b" b e] by simp
    next
      case (Some ms)
      with n mov have "fst (validate_movie b) \<noteq> []"
        by simp
      from post_api_movies_invalid[OF this Some, of e] show ?thesis
        by simp
    qed
  qed
qed

theorem create_responses_witness:
  "app \<lparr> NODE_ENV = None, newId = ''65a1b2c3d4e5f60718293a4b'', now = 7, frames = [] \<rparr>
       \<lparr> Employee = [], Movie = Some [], calls = [] \<rparr>
       (POST_api_employees [(''name'', '' Ann''), (''salary'', ''50000''), (''age'', ''30'')]) =
     (\<lparr> code = 200,
        payload = JsonEmployees
          [\<lparr> eid = ''65a1b2c3d4e5f60718293a4b'', name = ''Ann'', salary = Fin 50000,
              age = Fin 30 \<rparr>] \<rparr>,
      \<lparr> Employee = [\<lparr> eid = ''65a1b2c3d4e5f60718293a4b'', name = ''Ann'', salary = Fin 50000,
                       age = Fin 30 \<rparr>],
        Movie = Some [], calls = [EmployeeCreate, EmployeeFind] \<rparr>)
   \<and> app \<lparr> NODE_ENV = None, newId = ''65a1b2c3d4e5f60718293a4b'', now = 7, frames = [] \<rparr>
       \<lparr> Employee = [], Movie = Some [], calls = [] \<rparr>
       (POST_api_movies [(''movie_title'', ''Heat'')]) =
     (\<lparr> code = 201,
        payload = JsonMovie
          \<lparr> oid = ''65a1b2c3d4e5f60718293a4b'',
            props = [(''movie_title'', JStr ''Heat''), (''createdAt'', JDate 7),
                     (''updatedAt'', JDate 7)] \<rparr> \<rparr>,
      \<lparr> Employee = [],
        Movie = Some [\<lparr> oid = ''65a1b2c3d4e5f60718293a4b'',
                        props = [(''movie_title'', JStr ''Heat''), (''createdAt'', JDate 7),
                                 (''updatedAt'', JDate 7)] \<rparr>],
        calls = [MovieCreate] \<rparr>)"
proof -
  let ?e = "\<lparr> NODE_ENV = None, newId = ''65a1b2c3d4e5f60718293a4b'', now = 7, frames = [] \<rparr>"
  let ?s = "\<lparr> Employee = [], Movie = Some [], calls = [] \<rparr>"
  let ?b = "[(''name'', '' Ann''), (''salary'', ''50000''), (''age'', ''30'')]"
  let ?m = "[(''movie_title'', ''Heat'')]"
  have tn: "trim (field_string ?b ''name'') = ''Ann''"
    by (simp add: field_string_def param_def trim_def is_space_def)
  have fs: "field_string ?b ''salary'' = ''50000''" "field_string ?b ''age'' = ''30''"
    by (simp_all add: field_string_def param_def)
  have num: "isNumeric ''50000''" "isNumeric ''30''"
    by (simp_all add: isNumeric_def is_digit_def is_radix_digit_def digit_of_def)
  have tm: "trim (field_string ?m ''movie_title'') = ''Heat''"
    by (simp add: field_string_def param_def trim_def is_space_def)
  have pm: "param ?m ''movie_id'' = None" "param ?m ''Released'' = None"
    by (simp_all add: param_def)
  have ve: "trim (field_string ?b ''name'') \<noteq> [] \<and> isNumeric (field_string ?b ''salary'')
            \<and> isNumeric (field_string ?b ''age'')"
    by (simp add: tn fs num)
  have vm: "Movie ?s \<noteq> None \<and> trim (field_string ?m ''movie_title'') \<noteq> []"
    by (simp add: tm)
  note te = create_responses[where e = ?e and s = ?s and b = ?b, OF refl refl]
  note tv = create_responses[where e = ?e and s = ?s and b = ?m, OF refl refl]
  from te ve have "code (fst (app ?e ?s (POST_api_employees ?b))) = 200"
    by blast
  with te have a: "app ?e ?s (POST_api_employees ?b) =
      (\<lparr> code = 200,
         payload = JsonEmployees (Employee ?s @
           [\<lparr> eid = newId ?e, name = trim (field_string ?b ''name''),
               salary = Number (Str (field_string ?b ''salary'')),
               age = Number (Str (field_string ?b ''age'')) \<rparr>]) \<rparr>,
       ?s\<lparr> Employee := Employee ?s @
           [\<lparr> eid = newId ?e, name = trim (field_string ?b ''name''),
               salary = Number (Str (field_string ?b ''salary'')),
               age = Number (Str (field_string ?b ''age'')) \<rparr>],
          calls := calls ?s @ [EmployeeCreate, EmployeeFind] \<rparr>)"
    by blast
  from tv vm have "code (fst (app ?e ?s (POST_api_movies ?m))) = 201"
    by blast
  with tv have "\<exists>ms. Movie ?s = Some ms
      \<and> app ?e ?s (POST_api_movies ?m) =
          (\<lparr> code = 201,
             payload = JsonMovie
               \<lparr> oid = newId ?e,
                 props = defined_fields
                     [(''movie_id'', param ?m ''movie_id''),
                      (''movie_title'', Some (trim (field_string ?m ''movie_title''))),
                      (''Released'', param ?m ''Released'')]
                   @ [(''createdAt'', JDate (now ?e)), (''updatedAt'', JDate (now ?e))] \<rparr> \<rparr>,
           ?s\<lparr> Movie := Some (ms @
               [\<lparr> oid = newId ?e,
                   props = defined_fields
                       [(''movie_id'', param ?m ''movie_id''),
                        (''movie_title'', Some (trim (field_string ?m ''movie_title''))),
                        (''Released'', param ?m ''Released'')]
                     @ [(''createdAt'', JDate (now ?e)), (''updatedAt'', JDate (now ?e))] \<rparr>]),
              calls := calls ?s @ [MovieCreate] \<rparr>)"
    by blast
  then have m: "app ?e ?s (POST_api_movies ?m) =
      (\<lparr> code = 201,
         payload = JsonMovie
           \<lparr> oid = ''65a1b2c3d4e5f60718293a4b'',
             props = [(''movie_title'', JStr ''Heat''), (''createdAt'', JDate 7),
                      (''updatedAt'', JDate 7)] \<rparr> \<rparr>,
       \<lparr> Employee = [],
         Movie = Some [\<lparr> oid = ''65a1b2c3d4e5f60718293a4b'',
                         props = [(''movie_title'', JStr ''Heat''), (''createdAt'', JDate 7),
                                  (''updatedAt'', JDate 7)] \<rparr>],
         calls = [MovieCreate] \<rparr>)"
    by (auto simp: tm pm defined_fields_def)
  from a have "app ?e ?s (POST_api_employees ?b) =
      (\<lparr> code = 200,
         payload = JsonEmployees
           [\<lparr> eid = ''65a1b2c3d4e5f60718293a4b'', name = ''Ann'', salary = Fin 50000,
               age = Fin 30 \<rparr>] \<rparr>,
       \<lparr> Employee = [\<lparr> eid = ''65a1b2c3d4e5f60718293a4b'', name = ''Ann'', salary = Fin 50000,
                        age = Fin 30 \<rparr>],
         Movie = Some [], calls = [EmployeeCreate, EmployeeFind] \<rparr>)"
    by (simp add: tn fs Number_50000 Number_30)
  with m show ?thesis
    by simp
qed

subsection \<open>Validation on creation\<close>

lemma isNumeric_empty: "\<not> isNumeric []"
  by (simp add: isNumeric_def)

lemma trim_empty: "trim [] = []"
  by (simp add: trim_def)

lemma validate_employee_missing:
  "(param b ''name'' = None \<longrightarrow> ''name'' \<in> ve_path ` set (fst (validate_employee b)))
   \<and> (param b ''salary'' = None \<longrightarrow> ''salary'' \<in> ve_path ` set (fst (validate_employee b)))
   \<and> (param b ''age'' = None \<longrightarrow> ''age'' \<in> ve_path ` set (fst (validate_employee b)))"
  by (simp add: validate_employee_def field_string_def Let_def invalid_def isNumeric_empty
      trim_empty)

lemma validate_movie_missing:
  "param b ''movie_title'' = None \<Longrightarrow>
     fst (validate_movie b) =
       [\<lparr> ve_value = Some [], ve_msg = ''movie_title is required'', ve_path = ''movie_title'',
          ve_location = ''body'' \<rparr>]"
  by (simp add: validate_movie_def field_string_def Let_def invalid_def trim_empty)

text \<open>
  Claim C6, as amended. On the two REST paths a request that lacks a required field is
  refused: \<^verbatim>\<open>POST /api/employees\<close> without \<open>name\<close>, \<open>salary\<close> or \<open>age\<close>, and, when the
  movies store is configured, \<^verbatim>\<open>POST /api/movies\<close> without \<open>movie_title\<close>, answer 400
  with the message "Validation failed" and the list of violated fields, which names each
  missing field, and the state is unchanged: no record is created and no store call made.
  When the movies store is not configured, \<^verbatim>\<open>POST /api/movies\<close> answers 503 whatever the
  request holds, and the state is unchanged.
\<close>

theorem rest_create_validation:
  "(param b ''name'' = None \<or> param b ''salary'' = None \<or> param b ''age'' = None \<longrightarrow>
      (\<exists>ds. fst (app e s (POST_api_employees b)) =
               \<lparr> code = 400,
                 payload = JsonError
                   \<lparr> error = True, status = 400, message = ''Validation failed'',
                     details = Some ds,
                     stack = (if NODE_ENV e = Some ''production'' then None
                              else Some (''Error: Validation failed'' @ frames e)) \<rparr> \<rparr>
           \<and> ds \<noteq> []
           \<and> (param b ''name'' = None \<longrightarrow> ''name'' \<in> ve_path ` set ds)
           \<and> (param b ''salary'' = None \<longrightarrow> ''salary'' \<in> ve_path ` set ds)
           \<and> (param b ''age'' = None \<longrightarrow> ''age'' \<in> ve_path ` set ds))
      \<and> snd (app e s (POST_api_employees b)) = s)
   \<and> (Movie s \<noteq> None \<and> param b ''movie_title'' = None \<longrightarrow>
      fst (app e s (POST_api_movies b)) =
        \<lparr> code = 400,
          payload = JsonError
            \<lparr> error = True, status = 400, message = ''Validation failed'',
              details = Some [\<lparr> ve_value = Some [], ve_msg = ''movie_title is required'',
                                ve_path = ''movie_title'', ve_location = ''body'' \<rparr>],
              stack = (if NODE_ENV e = Some ''production'' then None
                       else Some (''Error: Validation failed'' @ frames e)) \<rparr> \<rparr>
      \<and> snd (app e s (POST_api_movies b)) = s)
   \<and> (Movie s = None \<longrightarrow>
      code (fst (app e s (POST_api_movies b))) = 503 \<and> snd (app e s (POST_api_movies b)) = s)"
proof (intro conjI impI)
  assume "Movie s = None"
  then have u: "app e s (POST_api_movies b) =
     (\<lparr> code = 503,
        payload = JsonError
          \<lparr> error = True, status = 503,
            message = ''Movies DB not configured. Set MONGODB_URI_MOVIES in your .env.'',
            details = None, stack = None \<rparr> \<rparr>, s)"
    using unconfigured_answer[of s "POST_api_movies b" b e] by simp
  from u show "code (fst (app e s (POST_api_movies b))) = 503"
    by simp
  from u show "snd (app e s (POST_api_movies b)) = s"
    by simp
next
  assume miss: "param b ''name'' = None \<or> param b ''salary'' = None \<or> param b ''age'' = None"
  let ?ds = "fst (validate_employee b)"
  from miss validate_employee_missing[of b] have ne: "?ds \<noteq> []"
    by auto
  then have a: "app e s (POST_api_employees b) = (error_handler e (validation_failed e ?ds), s)"
    by (rule post_api_employees_invalid)
  from a show "snd (app e s (POST_api_employees b)) = s"
    by simp
  from a have "fst (app e s (POST_api_employees b)) =
               \<lparr> code = 400,
                 payload = JsonError
                   \<lparr> error = True, status = 400, message = ''Validation failed'',
                     details = Some ?ds,
                     stack = (if NODE_ENV e = Some ''production'' then None
                              else Some (''Error: Validation failed'' @ frames e)) \<rparr> \<rparr>"
    by (simp add: validation_failed_answer)
  with ne validate_employee_missing[of b]
  show "\<exists>ds. fst (app e s (POST_api_employees b)) =
               \<lparr> code = 400,
                 payload = JsonError
                   \<lparr> error = True, status = 400, message = ''Validation failed'',
                     details = Some ds,
                     stack = (if NODE_ENV e = Some ''production'' then None
                              else Some (''Error: Validation failed'' @ frames e)) \<rparr> \<rparr>
           \<and> ds \<noteq> []
           \<and> (param b ''name'' = None \<longrightarrow> ''name'' \<in> ve_path ` set ds)
           \<and> (param b ''salary'' = None \<longrightarrow> ''salary'' \<in> ve_path ` set ds)
           \<and> (param b ''age'' = None \<longrightarrow> ''age'' \<in> ve_path ` set ds)"
    by (intro exI[where x = "?ds"]) simp
next
  assume h: "Movie s \<noteq> None \<and> param b ''movie_title'' = None"
  then obtain ms where ms: "Movie s = Some ms"
    by auto
  from h have v: "fst (validate_movie b) =
       [\<lparr> ve_value = Some [], ve_msg = ''movie_title is required'', ve_path = ''movie_title'',
          ve_location = ''body'' \<rparr>]"
    by (simp add: validate_movie_missing)
  then have "fst (validate_movie b) \<noteq> []"
    by simp
  from post_api_movies_invalid[OF this ms, of e]
  have a: "app e s (POST_api_movies b) =
     (error_handler e (validation_failed e (fst (validate_movie b))), s)" .
  from a show "snd (app e s (POST_api_movies b)) = s"
    by simp
  from a v show "fst (app e s (POST_api_movies b)) =
        \<lparr> code = 400,
          payload = JsonError
            \<lparr> error = True, status = 400, message = ''Validation failed'',
              details = Some [\<lparr> ve_value = Some [], ve_msg = ''movie_title is required'',
                                ve_path = ''movie_title'', ve_location = ''body'' \<rparr>],
              stack = (if NODE_ENV e = Some ''production'' then None
                       else Some (''Error: Validation failed'' @ frames e)) \<rparr> \<rparr>"
    by (simp add: validation_failed_answer)
qed

theorem rest_create_validation_witness:
  "snd (app \<lparr> NODE_ENV = Some ''production'', newId = ''n1'', now = 7, frames = [] \<rparr>
          \<lparr> Employee = [], Movie = Some [], calls = [] \<rparr>
          (POST_api_employees [(''name'', ''Ann''), (''age'', ''30'')]))
     = \<lparr> Employee = [], Movie = Some [], calls = [] \<rparr>
   \<and> fst (app \<lparr> NODE_ENV = Some ''production'', newId = ''n1'', now = 7, frames = [] \<rparr>
          \<lparr> Employee = [], Movie = Some [], calls = [] \<rparr>
          (POST_api_movies [(''Released'', ''1995'')])) =
        \<lparr> code = 400,
          payload = JsonError
            \<lparr> error = True, status = 400, message = ''Validation failed'',
              details = Some [\<lparr> ve_value = Some [], ve_msg = ''movie_title is required'',
                                ve_path = ''movie_title'', ve_location = ''body'' \<rparr>],
              stack = None \<rparr> \<rparr>"
proof -
  let ?e = "\<lparr> NODE_ENV = Some ''production'', newId = ''n1'', now = 7, frames = [] \<rparr>"
  let ?s = "\<lparr> Employee = [], Movie = Some [], calls = [] \<rparr>"
  let ?b = "[(''name'', ''Ann''), (''age'', ''30'')]"
  let ?m = "[(''Released'', ''1995'')]"
  have hb: "param ?b ''name'' = None \<or> param ?b ''salary'' = None \<or> param ?b ''age'' = None"
    by (simp add: param_def)
  from rest_create_validation[where e = ?e and s = ?s and b = ?b] hb
  have "snd (app ?e ?s (POST_api_employees ?b)) = ?s"
    by blast
  moreover have hm: "Movie ?s \<noteq> None \<and> param ?m ''movie_title'' = None"
    by (simp add: param_def)
  from rest_create_validation[where e = ?e and s = ?s and b = ?m] hm
  have "fst (app ?e ?s (POST_api_movies ?m)) =
        \<lparr> code = 400,
          payload = JsonError
            \<lparr> error = True, status = 400, message = ''Validation failed'',
              details = Some [\<lparr> ve_value = Some [], ve_msg = ''movie_title is required'',
                                ve_path = ''movie_title'', ve_location = ''body'' \<rparr>],
              stack = (if NODE_ENV ?e = Some ''production'' then None
                       else Some (''Error: Validation failed'' @ frames ?e)) \<rparr> \<rparr>"
    by blast
  ultimately show ?thesis
    by simp
qed

text \<open>
  The claim as stated fails in two places. The UI path creates a record from a form that
  has no title: it answers with the redirect and the collection has grown. And the REST
  path answers 503, not 400, when the movies store is not configured.
\<close>

theorem create_validation_counterexample:
  "code (fst (app \<lparr> NODE_ENV = None, newId = ''n1'', now = 7, frames = [] \<rparr>
           \<lparr> Employee = [], Movie = Some [], calls = [] \<rparr>
           (POST_ui_movie_new []))) = 302
   \<and> Movie (snd (app \<lparr> NODE_ENV = None, newId = ''n1'', now = 7, frames = [] \<rparr>
           \<lparr> Employee = [], Movie = Some [], calls = [] \<rparr>
           (POST_ui_movie_new []))) =
       Some [\<lparr> oid = ''n1'', props = [(''createdAt'', JDate 7), (''updatedAt'', JDate 7)] \<rparr>]
   \<and> code (fst (app \<lparr> NODE_ENV = None, newId = ''n1'', now = 7, frames = [] \<rparr>
           \<lparr> Employee = [], Movie = None, calls = [] \<rparr>
           (POST_api_movies []))) = 503"
  by (simp add: app_def route_def post_ui_movie_new_def post_api_movies_def ensureMovieConn_def
      Movie_create_def movie_fields_def defined_fields_def param_def logged_def redirect_def
      validate_movie_def Let_def)
subsection \<open>Missing targets\<close>

lemma delete_first_none: "(\<forall>x\<in>set xs. \<not> P x) \<Longrightarrow> delete_first P xs = (0, xs)"
  by (induction xs) auto

lemma find_none: "(\<forall>x\<in>set xs. \<not> P x) \<Longrightarrow> find P xs = None"
  by (simp add: find_None_iff)

lemma not_found_answer:
  "error_handler e (raise e 404 ''Not found'') =
     \<lparr> code = 404,
       payload = JsonError
         \<lparr> error = True, status = 404, message = ''Not found'', details = None,
           stack = (if NODE_ENV e = Some ''production'' then None
                    else Some (''Error: Not found'' @ frames e)) \<rparr> \<rparr>"
  by (simp add: error_handler_def raise_def Error_def isDev_def)

lemma cast_error_code: "code (error_handler e (CastError e v m)) = 500"
  by (simp add: error_handler_def CastError_status)

lemma uncastable_ById_cast: "castObjectId k = Some c \<Longrightarrow> uncastable (ById k) = []"
  by simp

lemma uncastable_ById_fail: "castObjectId k = None \<Longrightarrow> uncastable (ById k) = [k]"
  by simp

lemma uncastable_movieIdFilter: "uncastable (movieIdFilter raw) = []"
  by (simp add: movieIdFilter_def)

lemma castObjectId_not_empty: "castObjectId k = Some c \<Longrightarrow> k \<noteq> []"
  by (auto simp: castObjectId_def)

lemma matches_ById: "castObjectId k = Some c \<Longrightarrow> matches (ById k) d \<longleftrightarrow> oid d = c"
  by auto

lemma delete_api_employees_missing:
  assumes "castObjectId i = Some c" and "\<forall>r\<in>set (Employee s). eid r \<noteq> c"
  shows "app e s (DELETE_api_employees i) =
     (error_handler e (raise e 404 ''Not found''), logged EmployeeDeleteOne s)"
proof -
  from assms(2) have "delete_first (\<lambda>r. eid r = c) (Employee s) = (0, Employee s)"
    by (intro delete_first_none) simp
  with assms(1) show ?thesis
    by (simp add: app_def route_def delete_api_employees_def Employee_deleteOne_def logged_def)
qed

lemma delete_api_employees_malformed:
  assumes "castObjectId i = None"
  shows "app e s (DELETE_api_employees i) = (error_handler e (CastError e i ''Employee''), s)"
  using assms
  by (simp add: app_def route_def delete_api_employees_def Employee_deleteOne_def)

lemma delete_api_movies_missing:
  assumes "Movie s = Some ms"
    and "truthy (param q ''id'') \<or> truthy (param q ''movie_id'')"
    and "uncastable (target_filter (param q ''id'') (param q ''movie_id'')) = []"
    and "\<forall>d\<in>set ms. \<not> matches (target_filter (param q ''id'') (param q ''movie_id'')) d"
  shows "app e s (DELETE_api_movies q) =
     (error_handler e (raise e 404 ''Not found''), logged MovieDeleteOne s)"
proof -
  from assms(4)
  have "delete_first (matches (target_filter (param q ''id'') (param q ''movie_id''))) ms = (0, ms)"
    by (rule delete_first_none)
  with assms(1,2,3) show ?thesis
    by (auto simp: app_def route_def delete_api_movies_def ensureMovieConn_def
        Movie_deleteOne_def logged_def)
qed

lemma delete_api_movies_malformed:
  assumes "Movie s = Some ms" and "param q ''id'' = Some k" and "k \<noteq> []"
    and "castObjectId k = None"
  shows "app e s (DELETE_api_movies q) = (error_handler e (CastError e k ''Movie''), s)"
  using assms
  by (simp add: app_def route_def delete_api_movies_def ensureMovieConn_def
      Movie_deleteOne_def target_filter_def truthy_def)

lemma target_filter_id: "i \<noteq> [] \<Longrightarrow> target_filter (Some i) m = ById i"
  by (simp add: target_filter_def truthy_def)

lemma target_filter_movie_id:
  "\<not> truthy i \<Longrightarrow> target_filter i (Some m) = movieIdFilter (Str m)"
  by (simp add: target_filter_def)

text \<open>
  Claim C7, as amended. A delete whose target does not exist answers 404 and leaves both
  collections as they were in these cases: \<^verbatim>\<open>DELETE /api/employees/:id\<close> when the id is
  well formed (the store's cast reads it as an identifier) and no employee has it, and,
  when the movies store is configured, \<^verbatim>\<open>DELETE /api/movies\<close> with a well-formed \<open>id\<close>
  that no movie has, or with no \<open>id\<close> and a non-empty \<open>movie_id\<close> that no movie matches.
  An id that is not well formed fails the cast before the store is asked: the request is
  answered 500 and the state is unchanged. When the movies store is not configured
  \<^verbatim>\<open>DELETE /api/movies\<close> answers 503, and when neither \<open>id\<close> nor \<open>movie_id\<close> is a
  non-empty string it answers 400; the state is unchanged in both cases.
\<close>

theorem delete_missing_target:
  "(castObjectId i = Some c \<and> (\<forall>r\<in>set (Employee s). eid r \<noteq> c) \<longrightarrow>
      code (fst (app e s (DELETE_api_employees i))) = 404
      \<and> Employee (snd (app e s (DELETE_api_employees i))) = Employee s
      \<and> Movie (snd (app e s (DELETE_api_employees i))) = Movie s)
   \<and> (castObjectId i = None \<longrightarrow>
      code (fst (app e s (DELETE_api_employees i))) = 500
      \<and> snd (app e s (DELETE_api_employees i)) = s)
   \<and> (Movie s = Some ms \<and> param q ''id'' = Some k \<and> castObjectId k = Some c
        \<and> (\<forall>d\<in>set ms. oid d \<noteq> c) \<longrightarrow>
      code (fst (app e s (DELETE_api_movies q))) = 404
      \<and> Employee (snd (app e s (DELETE_api_movies q))) = Employee s
      \<and> Movie (snd (app e s (DELETE_api_movies q))) = Movie s)
   \<and> (Movie s = Some ms \<and> param q ''id'' = Some k \<and> k \<noteq> [] \<and> castObjectId k = None \<longrightarrow>
      code (fst (app e s (DELETE_api_movies q))) = 500
      \<and> snd (app e s (DELETE_api_movies q)) = s)
   \<and> (Movie s = Some ms \<and> \<not> truthy (param q ''id'') \<and> param q ''movie_id'' = Some m \<and> m \<noteq> []
        \<and> (\<forall>d\<in>set ms. \<not> matches (movieIdFilter (Str m)) d) \<longrightarrow>
      code (fst (app e s (DELETE_api_movies q))) = 404
      \<and> Employee (snd (app e s (DELETE_api_movies q))) = Employee s
      \<and> Movie (snd (app e s (DELETE_api_movies q))) = Movie s)
   \<and> (Movie s = None \<longrightarrow>
      code (fst (app e s (DELETE_api_movies q))) = 503 \<and> snd (app e s (DELETE_api_movies q)) = s)
   \<and> (Movie s = Some ms \<and> \<not> truthy (param q ''id'') \<and> \<not> truthy (param q ''movie_id'') \<longrightarrow>
      code (fst (app e s (DELETE_api_movies q))) = 400 \<and> snd (app e s (DELETE_api_movies q)) = s)"
proof (intro conjI impI)
  assume "Movie s = None"
  then have u: "app e s (DELETE_api_movies q) =
     (\<lparr> code = 503,
        payload = JsonError
          \<lparr> error = True, status = 503,
            message = ''Movies DB not configured. Set MONGODB_URI_MOVIES in your .env.'',
            details = None, stack = None \<rparr> \<rparr>, s)"
    using unconfigured_answer[of s "DELETE_api_movies q" q e] by simp
  from u show "code (fst (app e s (DELETE_api_movies q))) = 503"
    by simp
  from u show "snd (app e s (DELETE_api_movies q)) = s"
    by simp
next
  assume "Movie s = Some ms \<and> \<not> truthy (param q ''id'') \<and> \<not> truthy (param q ''movie_id'')"
  then have u: "app e s (DELETE_api_movies q) =
     (error_handler e (raise e 400 ''Provide id or movie_id''), s)"
    by (simp add: app_def route_def delete_api_movies_def ensureMovieConn_def)
  from u show "code (fst (app e s (DELETE_api_movies q))) = 400"
    by (simp add: error_handler_def raise_def)
  from u show "snd (app e s (DELETE_api_movies q)) = s"
    by simp
next
  assume "castObjectId i = Some c \<and> (\<forall>r\<in>set (Employee s). eid r \<noteq> c)"
  then have a: "app e s (DELETE_api_employees i) =
     (error_handler e (raise e 404 ''Not found''), logged EmployeeDeleteOne s)"
    by (intro delete_api_employees_missing[where c = c]) simp_all
  from a show "code (fst (app e s (DELETE_api_employees i))) = 404"
    by (simp add: not_found_answer)
  from a show "Employee (snd (app e s (DELETE_api_employees i))) = Employee s"
    by (simp add: logged_def)
  from a show "Movie (snd (app e s (DELETE_api_employees i))) = Movie s"
    by (simp add: logged_def)
next
  assume "castObjectId i = None"
  then have a: "app e s (DELETE_api_employees i) =
     (error_handler e (CastError e i ''Employee''), s)"
    by (rule delete_api_employees_malformed)
  from a show "code (fst (app e s (DELETE_api_employees i))) = 500"
    by (simp add: cast_error_code)
  from a show "snd (app e s (DELETE_api_employees i)) = s"
    by simp
next
  assume h: "Movie s = Some ms \<and> param q ''id'' = Some k \<and> castObjectId k = Some c
        \<and> (\<forall>d\<in>set ms. oid d \<noteq> c)"
  then have ne: "k \<noteq> []"
    by (auto dest: castObjectId_not_empty)
  with h have tf: "target_filter (param q ''id'') (param q ''movie_id'') = ById k"
    by (simp add: target_filter_id)
  from h ne have "truthy (param q ''id'') \<or> truthy (param q ''movie_id'')"
    by (simp add: truthy_def)
  moreover from h have "uncastable (target_filter (param q ''id'') (param q ''movie_id'')) = []"
    unfolding tf by (intro uncastable_ById_cast[where c = c]) simp
  moreover from h
  have "\<forall>d\<in>set ms. \<not> matches (target_filter (param q ''id'') (param q ''movie_id'')) d"
    unfolding tf by (auto simp: matches_ById[where c = c])
  ultimately have a: "app e s (DELETE_api_movies q) =
     (error_handler e (raise e 404 ''Not found''), logged MovieDeleteOne s)"
    using h by (intro delete_api_movies_missing[where ms = ms]) simp_all
  from a show "code (fst (app e s (DELETE_api_movies q))) = 404"
    by (simp add: not_found_answer)
  from a show "Employee (snd (app e s (DELETE_api_movies q))) = Employee s"
    by (simp add: logged_def)
  from a show "Movie (snd (app e s (DELETE_api_movies q))) = Movie s"
    by (simp add: logged_def)
next
  assume "Movie s = Some ms \<and> param q ''id'' = Some k \<and> k \<noteq> [] \<and> castObjectId k = None"
  then have a: "app e s (DELETE_api_movies q) = (error_handler e (CastError e k ''Movie''), s)"
    by (intro delete_api_movies_malformed[where ms = ms]) simp_all
  from a show "code (fst (app e s (DELETE_api_movies q))) = 500"
    by (simp add: cast_error_code)
  from a show "snd (app e s (DELETE_api_movies q)) = s"
    by simp
next
  assume h: "Movie s = Some ms \<and> \<not> truthy (param q ''id'') \<and> param q ''movie_id'' = Some m
        \<and> m \<noteq> [] \<and> (\<forall>d\<in>set ms. \<not> matches (movieIdFilter (Str m)) d)"
  then have tf: "target_filter (param q ''id'') (param q ''movie_id'') = movieIdFilter (Str m)"
    by (simp add: target_filter_movie_id)
  from h have "truthy (param q ''id'') \<or> truthy (param q ''movie_id'')"
    by (simp add: truthy_def)
  moreover have "uncastable (target_filter (param q ''id'') (param q ''movie_id'')) = []"
    unfolding tf by (rule uncastable_movieIdFilter)
  moreover from h
  have "\<forall>d\<in>set ms. \<not> matches (target_filter (param q ''id'') (param q ''movie_id'')) d"
    unfolding tf by simp
  ultimately have a: "app e s (DELETE_api_movies q) =
     (error_handler e (raise e 404 ''Not found''), logged MovieDeleteOne s)"
    using h by (intro delete_api_movies_missing[where ms = ms]) simp_all
  from a show "code (fst (app e s (DELETE_api_movies q))) = 404"
    by (simp add: not_found_answer)
  from a show "Employee (snd (app e s (DELETE_api_movies q))) = Employee s"
    by (simp add: logged_def)
  from a show "Movie (snd (app e s (DELETE_api_movies q))) = Movie s"
    by (simp add: logged_def)
qed

theorem delete_missing_target_witness:
  "code (fst (app \<lparr> NODE_ENV = None, newId = ''65a1b2c3d4e5f60718293a4d'', now = 7, frames = [] \<rparr>
      \<lparr> Employee = [\<lparr> eid = ''65a1b2c3d4e5f60718293a4c'', name = ''Ann'', salary = Fin 50000,
                       age = Fin 30 \<rparr>],
        Movie = Some [\<lparr> oid = ''65a1b2c3d4e5f60718293a4a'',
                        props = [(''movie_id'', JNum (Fin 42))] \<rparr>], calls = [] \<rparr>
      (DELETE_api_employees ''65a1b2c3d4e5f60718293a4b''))) = 404
   \<and> code (fst (app \<lparr> NODE_ENV = None, newId = ''65a1b2c3d4e5f60718293a4d'', now = 7, frames = [] \<rparr>
      \<lparr> Employee = [\<lparr> eid = ''65a1b2c3d4e5f60718293a4c'', name = ''Ann'', salary = Fin 50000,
                       age = Fin 30 \<rparr>],
        Movie = Some [\<lparr> oid = ''65a1b2c3d4e5f60718293a4a'',
                        props = [(''movie_id'', JNum (Fin 42))] \<rparr>], calls = [] \<rparr>
      (DELETE_api_movies [(''id'', ''65a1b2c3d4e5f60718293a4b'')]))) = 404
   \<and> Movie (snd (app \<lparr> NODE_ENV = None, newId = ''65a1b2c3d4e5f60718293a4d'', now = 7, frames = [] \<rparr>
      \<lparr> Employee = [\<lparr> eid = ''65a1b2c3d4e5f60718293a4c'', name = ''Ann'', salary = Fin 50000,
                       age = Fin 30 \<rparr>],
        Movie = Some [\<lparr> oid = ''65a1b2c3d4e5f60718293a4a'',
                        props = [(''movie_id'', JNum (Fin 42))] \<rparr>], calls = [] \<rparr>
      (DELETE_api_movies [(''movie_id'', ''30'')]))) =
       Some [\<lparr> oid = ''65a1b2c3d4e5f60718293a4a'', props = [(''movie_id'', JNum (Fin 42))] \<rparr>]
   \<and> code (fst (app \<lparr> NODE_ENV = None, newId = ''65a1b2c3d4e5f60718293a4d'', now = 7, frames = [] \<rparr>
      \<lparr> Employee = [\<lparr> eid = ''65a1b2c3d4e5f60718293a4c'', name = ''Ann'', salary = Fin 50000,
                       age = Fin 30 \<rparr>],
        Movie = Some [\<lparr> oid = ''65a1b2c3d4e5f60718293a4a'',
                        props = [(''movie_id'', JNum (Fin 42))] \<rparr>], calls = [] \<rparr>
      (DELETE_api_employees ''e2''))) = 500"
proof -
  let ?e = "\<lparr> NODE_ENV = None, newId = ''65a1b2c3d4e5f60718293a4d'', now = 7, frames = [] \<rparr>"
  let ?ms = "[\<lparr> oid = ''65a1b2c3d4e5f60718293a4a'', props = [(''movie_id'', JNum (Fin 42))] \<rparr>]"
  let ?s = "\<lparr> Employee = [\<lparr> eid = ''65a1b2c3d4e5f60718293a4c'', name = ''Ann'',
                             salary = Fin 50000, age = Fin 30 \<rparr>],
             Movie = Some ?ms, calls = [] \<rparr>"
  let ?k = "''65a1b2c3d4e5f60718293a4b''"
  have h1: "castObjectId ?k = Some ?k \<and> (\<forall>r\<in>set (Employee ?s). eid r \<noteq> ?k)"
    by (simp add: castObjectId_sample)
  have h2: "Movie ?s = Some ?ms \<and> param [(''id'', ?k)] ''id'' = Some ?k
            \<and> castObjectId ?k = Some ?k \<and> (\<forall>d\<in>set ?ms. oid d \<noteq> ?k)"
    by (simp add: param_def castObjectId_sample)
  have h3: "Movie ?s = Some ?ms \<and> \<not> truthy (param [(''movie_id'', ''30'')] ''id'')
            \<and> param [(''movie_id'', ''30'')] ''movie_id'' = Some ''30'' \<and> ''30'' \<noteq> []
            \<and> (\<forall>d\<in>set ?ms. \<not> matches (movieIdFilter (Str ''30'')) d)"
    by (simp add: param_def truthy_def matches_movieIdFilter_Str get_def Number_30)
  have h4: "castObjectId ''e2'' = None"
    by (simp add: castObjectId_short)
  from delete_missing_target[where e = ?e and s = ?s and i = ?k and c = ?k] h1
  have "code (fst (app ?e ?s (DELETE_api_employees ?k))) = 404"
    by blast
  moreover
  from delete_missing_target[where e = ?e and s = ?s and q = "[(''id'', ?k)]" and ms = ?ms
      and k = ?k and c = ?k] h2
  have "code (fst (app ?e ?s (DELETE_api_movies [(''id'', ?k)]))) = 404"
    by blast
  moreover
  from delete_missing_target[where e = ?e and s = ?s and q = "[(''movie_id'', ''30'')]"
      and ms = ?ms and m = "''30''"] h3
  have "Movie (snd (app ?e ?s (DELETE_api_movies [(''movie_id'', ''30'')]))) = Movie ?s"
    by blast
  moreover
  from delete_missing_target[where e = ?e and s = ?s and i = "''e2''"] h4
  have "code (fst (app ?e ?s (DELETE_api_employees ''e2''))) = 500"
    by blast
  ultimately show ?thesis
    by simp
qed

text \<open>
  The claim as stated fails in three places. The guards of the movie route answer first:
  503 when the movies store is not configured, and 400 when the identifier that is
  supplied is the empty string. And an id that the store cannot read as an identifier
  raises a cast error, which carries no status and is answered 500: so for the employee
  id \<open>e9\<close>, which no record has, and for the movie id \<open>b\<close>.
\<close>

theorem delete_missing_target_counterexample:
  "code (fst (app \<lparr> NODE_ENV = None, newId = ''65a1b2c3d4e5f60718293a4d'', now = 7, frames = [] \<rparr>
           \<lparr> Employee = [], Movie = None, calls = [] \<rparr>
           (DELETE_api_movies [(''movie_id'', ''7'')]))) = 503
   \<and> code (fst (app \<lparr> NODE_ENV = None, newId = ''65a1b2c3d4e5f60718293a4d'', now = 7, frames = [] \<rparr>
           \<lparr> Employee = [], Movie = Some [], calls = [] \<rparr>
           (DELETE_api_movies [(''id'', '''')]))) = 400
   \<and> code (fst (app \<lparr> NODE_ENV = None, newId = ''65a1b2c3d4e5f60718293a4d'', now = 7, frames = [] \<rparr>
           \<lparr> Employee = [], Movie = Some [], calls = [] \<rparr>
           (DELETE_api_employees ''e9''))) = 500
   \<and> code (fst (app \<lparr> NODE_ENV = None, newId = ''65a1b2c3d4e5f60718293a4d'', now = 7, frames = [] \<rparr>
           \<lparr> Employee = [], Movie = Some [], calls = [] \<rparr>
           (DELETE_api_movies [(''id'', ''b'')]))) = 500"
  by (simp add: app_def route_def delete_api_movies_def delete_api_employees_def
      ensureMovieConn_def param_def truthy_def error_handler_def raise_def Error_def
      Employee_deleteOne_def Movie_deleteOne_def target_filter_def castObjectId_short
      CastError_status)

subsection \<open>The show page\<close>

lemma get_ui_movie_show_none:
  assumes "Movie s = Some ms"
    and "(\<not> truthy (param q ''id'') \<and> \<not> truthy (param q ''movie_id''))
         \<or> (\<exists>k c. param q ''id'' = Some k \<and> castObjectId k = Some c
                  \<and> (\<forall>d\<in>set ms. oid d \<noteq> c))
         \<or> (\<exists>m. \<not> truthy (param q ''id'') \<and> param q ''movie_id'' = Some m \<and> m \<noteq> []
                \<and> (\<forall>d\<in>set ms. \<not> matches (movieIdFilter (Str m)) d))"
  shows "fst (app e s (GET_ui_movie_show q)) =
     \<lparr> code = 200, payload = Render ''movie-view'' (MovieLocals None (Some (showDebug q))) \<rparr>"
  using assms(2)
proof (elim disjE exE conjE)
  assume "\<not> truthy (param q ''id'')" and "\<not> truthy (param q ''movie_id'')"
  with assms(1) show ?thesis
    by (simp add: app_def route_def get_ui_movie_show_def ensureMovieConn_def render_def)
next
  fix k c
  assume k: "param q ''id'' = Some k" and c: "castObjectId k = Some c"
    and n: "\<forall>d\<in>set ms. oid d \<noteq> c"
  from c have "k \<noteq> []"
    by (rule castObjectId_not_empty)
  with k have t: "truthy (param q ''id'')"
    by (simp add: truthy_def)
  from n c have "\<forall>d\<in>set ms. \<not> matches (ById k) d"
    by auto
  then have "find (matches (ById k)) ms = None"
    by (rule find_none)
  with assms(1) t k c show ?thesis
    by (simp add: app_def route_def get_ui_movie_show_def ensureMovieConn_def render_def
        Movie_findById_def)
next
  fix m
  assume i: "\<not> truthy (param q ''id'')" and m: "param q ''movie_id'' = Some m" "m \<noteq> []"
    and n: "\<forall>d\<in>set ms. \<not> matches (movieIdFilter (Str m)) d"
  from m have t: "truthy (param q ''movie_id'')"
    by (simp add: truthy_def)
  from n have "find (matches (movieIdFilter (Str m))) ms = None"
    by (rule find_none)
  with assms(1) i t m show ?thesis
    by (simp add: app_def route_def get_ui_movie_show_def ensureMovieConn_def render_def
        Movie_findOne_def uncastable_movieIdFilter)
qed

lemma get_ui_movie_show_malformed:
  assumes "Movie s = Some ms" and "param q ''id'' = Some k" and "k \<noteq> []"
    and "castObjectId k = None"
  shows "app e s (GET_ui_movie_show q) = (error_handler e (CastError e k ''Movie''), s)"
  using assms
  by (simp add: app_def route_def get_ui_movie_show_def ensureMovieConn_def Movie_findById_def
      truthy_def)

lemma get_api_movies_find_malformed:
  assumes "Movie s = Some ms" and "param q ''id'' = Some k" and "k \<noteq> []"
    and "castObjectId k = None"
  shows "app e s (GET_api_movies_find q) = (error_handler e (CastError e k ''Movie''), s)"
  using assms
  by (simp add: app_def route_def get_api_movies_find_def ensureMovieConn_def
      Movie_findById_def found_def truthy_def)

lemma get_ui_movie_show_codes: "code (fst (app e s (GET_ui_movie_show q))) \<in> {200, 500, 503}"
proof (cases "Movie s")
  case None
  then show ?thesis
    using unconfigured_answer[of s "GET_ui_movie_show q" q e] by simp
next
  case (Some ms)
  show ?thesis
  proof (cases "route e s (GET_ui_movie_show q)")
    case (Pair out s')
    show ?thesis
    proof (cases out)
      case (Inl x)
      with Pair have r: "get_ui_movie_show e s q = (Inl x, s')"
        by (simp add: route_def)
      have "err_status x = None"
        using r Some
        by (auto simp: get_ui_movie_show_def ensureMovieConn_def
            split: if_splits prod.splits sum.splits
            dest: Movie_findById_raises Movie_findOne_raises)
      with Pair Inl show ?thesis
        by (simp add: app_def error_handler_def)
    next
      case (Inr y)
      with Pair have r: "get_ui_movie_show e s q = (Inr y, s')"
        by (simp add: route_def)
      have "code y = 200"
        using r Some
        by (auto simp: get_ui_movie_show_def ensureMovieConn_def render_def
            split: if_splits prod.splits sum.splits)
      with Pair Inr show ?thesis
        by (simp add: app_def)
    qed
  qed
qed

lemma get_api_movies_find_none:
  assumes "Movie s = Some ms"
  shows "(\<not> truthy (param q ''id'') \<and> \<not> truthy (param q ''movie_id'') \<and> \<not> truthy (param q ''title'')
           \<longrightarrow> code (fst (app e s (GET_api_movies_find q))) = 400)
     \<and> ((\<exists>k c. param q ''id'' = Some k \<and> castObjectId k = Some c
                \<and> (\<forall>d\<in>set ms. oid d \<noteq> c))
           \<longrightarrow> code (fst (app e s (GET_api_movies_find q))) = 404)
     \<and> ((\<exists>m. \<not> truthy (param q ''id'') \<and> param q ''movie_id'' = Some m \<and> m \<noteq> []
                \<and> (\<forall>d\<in>set ms. \<not> matches (movieIdFilter (Str m)) d))
           \<longrightarrow> code (fst (app e s (GET_api_movies_find q))) = 404)"
proof (intro conjI impI)
  assume "\<not> truthy (param q ''id'') \<and> \<not> truthy (param q ''movie_id'')
          \<and> \<not> truthy (param q ''title'')"
  with assms show "code (fst (app e s (GET_api_movies_find q))) = 400"
    by (simp add: app_def route_def get_api_movies_find_def ensureMovieConn_def
        error_handler_def raise_def)
next
  assume "\<exists>k c. param q ''id'' = Some k \<and> castObjectId k = Some c
                \<and> (\<forall>d\<in>set ms. oid d \<noteq> c)"
  then obtain k c where k: "param q ''id'' = Some k" and c: "castObjectId k = Some c"
    and n: "\<forall>d\<in>set ms. oid d \<noteq> c"
    by blast
  from c have "k \<noteq> []"
    by (rule castObjectId_not_empty)
  with k have t: "truthy (param q ''id'')"
    by (simp add: truthy_def)
  from n c have "\<forall>d\<in>set ms. \<not> matches (ById k) d"
    by auto
  then have "find (matches (ById k)) ms = None"
    by (rule find_none)
  with assms t k c show "code (fst (app e s (GET_api_movies_find q))) = 404"
    by (simp add: app_def route_def get_api_movies_find_def ensureMovieConn_def
        Movie_findById_def found_def not_found_answer)
next
  assume "\<exists>m. \<not> truthy (param q ''id'') \<and> param q ''movie_id'' = Some m \<and> m \<noteq> []
                \<and> (\<forall>d\<in>set ms. \<not> matches (movieIdFilter (Str m)) d)"
  then obtain m where i: "\<not> truthy (param q ''id'')" and m: "param q ''movie_id'' = Some m"
    "m \<noteq> []" and n: "\<forall>d\<in>set ms. \<not> matches (movieIdFilter (Str m)) d"
    by blast
  from m have t: "truthy (param q ''movie_id'')"
    by (simp add: truthy_def)
  from n have "find (matches (movieIdFilter (Str m))) ms = None"
    by (rule find_none)
  with assms i t m show "code (fst (app e s (GET_api_movies_find q))) = 404"
    by (simp add: app_def route_def get_api_movies_find_def ensureMovieConn_def
        Movie_findOne_def uncastable_movieIdFilter found_def not_found_answer)
qed

text \<open>
  Claim C9, as amended. With the movies store configured, \<^verbatim>\<open>GET /ui/movie/show\<close> answers
  200 and renders the movie view with a null movie when the request has neither \<open>id\<close>
  nor \<open>movie_id\<close>, when it has a well-formed \<open>id\<close> (one that the store's cast reads as an
  identifier) that no record has, and when it has no \<open>id\<close> and a \<open>movie_id\<close> that matches
  no record. An \<open>id\<close> that is not well formed fails the cast: the page and the REST find
  path both answer 500. In every state the status of the page's answer is 200, 500 or
  503, so never 400 or 404, and it is 503 when the movies store is not configured. The
  REST find path answers 400 where the page has no identifier and 404 where the page's
  identifier matches nothing.
\<close>

theorem ui_show_null_movie:
  "(Movie s = Some ms
      \<and> ((\<not> truthy (param q ''id'') \<and> \<not> truthy (param q ''movie_id''))
         \<or> (\<exists>k c. param q ''id'' = Some k \<and> castObjectId k = Some c
                  \<and> (\<forall>d\<in>set ms. oid d \<noteq> c))
         \<or> (\<exists>m. \<not> truthy (param q ''id'') \<and> param q ''movie_id'' = Some m \<and> m \<noteq> []
                \<and> (\<forall>d\<in>set ms. \<not> matches (movieIdFilter (Str m)) d)))
      \<longrightarrow> fst (app e s (GET_ui_movie_show q)) =
            \<lparr> code = 200,
              payload = Render ''movie-view'' (MovieLocals None (Some (showDebug q))) \<rparr>)
   \<and> (Movie s = Some ms
        \<and> (\<exists>k. param q ''id'' = Some k \<and> k \<noteq> [] \<and> castObjectId k = None)
      \<longrightarrow> code (fst (app e s (GET_ui_movie_show q))) = 500
          \<and> snd (app e s (GET_ui_movie_show q)) = s
          \<and> code (fst (app e s (GET_api_movies_find q))) = 500)
   \<and> code (fst (app e s (GET_ui_movie_show q))) \<in> {200, 500, 503}
   \<and> (Movie s = None \<longrightarrow> code (fst (app e s (GET_ui_movie_show q))) = 503)
   \<and> (Movie s = Some ms
        \<and> \<not> truthy (param q ''id'') \<and> \<not> truthy (param q ''movie_id'') \<and> \<not> truthy (param q ''title'')
      \<longrightarrow> code (fst (app e s (GET_api_movies_find q))) = 400)
   \<and> (Movie s = Some ms
        \<and> (\<exists>k c. param q ''id'' = Some k \<and> castObjectId k = Some c
                 \<and> (\<forall>d\<in>set ms. oid d \<noteq> c))
      \<longrightarrow> code (fst (app e s (GET_api_movies_find q))) = 404)
   \<and> (Movie s = Some ms
        \<and> (\<exists>m. \<not> truthy (param q ''id'') \<and> param q ''movie_id'' = Some m \<and> m \<noteq> []
                \<and> (\<forall>d\<in>set ms. \<not> matches (movieIdFilter (Str m)) d))
      \<longrightarrow> code (fst (app e s (GET_api_movies_find q))) = 404)"
proof (intro conjI impI)
  assume "Movie s = Some ms
      \<and> ((\<not> truthy (param q ''id'') \<and> \<not> truthy (param q ''movie_id''))
         \<or> (\<exists>k c. param q ''id'' = Some k \<and> castObjectId k = Some c
                  \<and> (\<forall>d\<in>set ms. oid d \<noteq> c))
         \<or> (\<exists>m. \<not> truthy (param q ''id'') \<and> param q ''movie_id'' = Some m \<and> m \<noteq> []
                \<and> (\<forall>d\<in>set ms. \<not> matches (movieIdFilter (Str m)) d)))"
  then show "fst (app e s (GET_ui_movie_show q)) =
            \<lparr> code = 200,
              payload = Render ''movie-view'' (MovieLocals None (Some (showDebug q))) \<rparr>"
    using get_ui_movie_show_none[of s ms q e] by blast
next
  assume h: "Movie s = Some ms
        \<and> (\<exists>k. param q ''id'' = Some k \<and> k \<noteq> [] \<and> castObjectId k = None)"
  then obtain k where k: "param q ''id'' = Some k" "k \<noteq> []" "castObjectId k = None"
    by blast
  from h k have a: "app e s (GET_ui_movie_show q) = (error_handler e (CastError e k ''Movie''), s)"
    by (intro get_ui_movie_show_malformed[where ms = ms]) simp_all
  from h k
  have b: "app e s (GET_api_movies_find q) = (error_handler e (CastError e k ''Movie''), s)"
    by (intro get_api_movies_find_malformed[where ms = ms]) simp_all
  from a show "code (fst (app e s (GET_ui_movie_show q))) = 500"
    by (simp add: cast_error_code)
  from a show "snd (app e s (GET_ui_movie_show q)) = s"
    by simp
  from b show "code (fst (app e s (GET_api_movies_find q))) = 500"
    by (simp add: cast_error_code)
next
  show "code (fst (app e s (GET_ui_movie_show q))) \<in> {200, 500, 503}"
    by (rule get_ui_movie_show_codes)
next
  assume "Movie s = None"
  then show "code (fst (app e s (GET_ui_movie_show q))) = 503"
    using unconfigured_answer[of s "GET_ui_movie_show q" q e] by simp
next
  assume "Movie s = Some ms
        \<and> \<not> truthy (param q ''id'') \<and> \<not> truthy (param q ''movie_id'') \<and> \<not> truthy (param q ''title'')"
  then show "code (fst (app e s (GET_api_movies_find q))) = 400"
    using get_api_movies_find_none[of s ms q e] by blast
next
  assume "Movie s = Some ms
        \<and> (\<exists>k c. param q ''id'' = Some k \<and> castObjectId k = Some c
                 \<and> (\<forall>d\<in>set ms. oid d \<noteq> c))"
  then show "code (fst (app e s (GET_api_movies_find q))) = 404"
    using get_api_movies_find_none[of s ms q e] by blast
next
  assume "Movie s = Some ms
        \<and> (\<exists>m. \<not> truthy (param q ''id'') \<and> param q ''movie_id'' = Some m \<and> m \<noteq> []
                \<and> (\<forall>d\<in>set ms. \<not> matches (movieIdFilter (Str m)) d))"
  then show "code (fst (app e s (GET_api_movies_find q))) = 404"
    using get_api_movies_find_none[of s ms q e] by blast
qed

theorem ui_show_null_movie_witness:
  "fst (app \<lparr> NODE_ENV = None, newId = ''65a1b2c3d4e5f60718293a4d'', now = 7, frames = [] \<rparr>
          \<lparr> Employee = [],
            Movie = Some [\<lparr> oid = ''65a1b2c3d4e5f60718293a4a'',
                            props = [(''movie_id'', JNum (Fin 42))] \<rparr>],
            calls = [] \<rparr>
          (GET_ui_movie_show [])) =
     \<lparr> code = 200, payload = Render ''movie-view'' (MovieLocals None (Some False)) \<rparr>
   \<and> fst (app \<lparr> NODE_ENV = None, newId = ''65a1b2c3d4e5f60718293a4d'', now = 7, frames = [] \<rparr>
          \<lparr> Employee = [],
            Movie = Some [\<lparr> oid = ''65a1b2c3d4e5f60718293a4a'',
                            props = [(''movie_id'', JNum (Fin 42))] \<rparr>],
            calls = [] \<rparr>
          (GET_ui_movie_show [(''movie_id'', ''30'')])) =
     \<lparr> code = 200, payload = Render ''movie-view'' (MovieLocals None (Some False)) \<rparr>
   \<and> fst (app \<lparr> NODE_ENV = None, newId = ''65a1b2c3d4e5f60718293a4d'', now = 7, frames = [] \<rparr>
          \<lparr> Employee = [],
            Movie = Some [\<lparr> oid = ''65a1b2c3d4e5f60718293a4a'',
                            props = [(''movie_id'', JNum (Fin 42))] \<rparr>],
            calls = [] \<rparr>
          (GET_ui_movie_show [(''id'', ''65a1b2c3d4e5f60718293a4b'')])) =
     \<lparr> code = 200, payload = Render ''movie-view'' (MovieLocals None (Some False)) \<rparr>
   \<and> code (fst (app \<lparr> NODE_ENV = None, newId = ''65a1b2c3d4e5f60718293a4d'', now = 7, frames = [] \<rparr>
          \<lparr> Employee = [],
            Movie = Some [\<lparr> oid = ''65a1b2c3d4e5f60718293a4a'',
                            props = [(''movie_id'', JNum (Fin 42))] \<rparr>],
            calls = [] \<rparr>
          (GET_api_movies_find []))) = 400
   \<and> code (fst (app \<lparr> NODE_ENV = None, newId = ''65a1b2c3d4e5f60718293a4d'', now = 7, frames = [] \<rparr>
          \<lparr> Employee = [],
            Movie = Some [\<lparr> oid = ''65a1b2c3d4e5f60718293a4a'',
                            props = [(''movie_id'', JNum (Fin 42))] \<rparr>],
            calls = [] \<rparr>
          (GET_api_movies_find [(''movie_id'', ''30'')]))) = 404
   \<and> code (fst (app \<lparr> NODE_ENV = None, newId = ''65a1b2c3d4e5f60718293a4d'', now = 7, frames = [] \<rparr>
          \<lparr> Employee = [],
            Movie = Some [\<lparr> oid = ''65a1b2c3d4e5f60718293a4a'',
                            props = [(''movie_id'', JNum (Fin 42))] \<rparr>],
            calls = [] \<rparr>
          (GET_api_movies_find [(''id'', ''65a1b2c3d4e5f60718293a4b'')]))) = 404
   \<and> code (fst (app \<lparr> NODE_ENV = None, newId = ''65a1b2c3d4e5f60718293a4d'', now = 7, frames = [] \<rparr>
          \<lparr> Employee = [],
            Movie = Some [\<lparr> oid = ''65a1b2c3d4e5f60718293a4a'',
                            props = [(''movie_id'', JNum (Fin 42))] \<rparr>],
            calls = [] \<rparr>
          (GET_ui_movie_show [(''id'', ''b'')]))) = 500"
proof -
  let ?e = "\<lparr> NODE_ENV = None, newId = ''65a1b2c3d4e5f60718293a4d'', now = 7, frames = [] \<rparr>"
  let ?ms = "[\<lparr> oid = ''65a1b2c3d4e5f60718293a4a'', props = [(''movie_id'', JNum (Fin 42))] \<rparr>]"
  let ?s = "\<lparr> Employee = [], Movie = Some ?ms, calls = [] \<rparr>"
  let ?q = "[(''movie_id'', ''30'')]"
  let ?k = "''65a1b2c3d4e5f60718293a4b''"
  let ?i = "[(''id'', ?k)]"
  let ?b = "[(''id'', ''b'')]"
  have m: "Movie ?s = Some ?ms"
    by simp
  have n: "\<not> truthy (param [] ''id'') \<and> \<not> truthy (param [] ''movie_id'')
           \<and> \<not> truthy (param [] ''title'')"
    by (simp add: param_def truthy_def)
  have k: "\<exists>m. \<not> truthy (param ?q ''id'') \<and> param ?q ''movie_id'' = Some m \<and> m \<noteq> []
                \<and> (\<forall>d\<in>set ?ms. \<not> matches (movieIdFilter (Str m)) d)"
    by (simp add: param_def truthy_def matches_movieIdFilter_Str get_def Number_30)
  have "param ?i ''id'' = Some ?k \<and> castObjectId ?k = Some ?k \<and> (\<forall>d\<in>set ?ms. oid d \<noteq> ?k)"
    by (simp add: param_def castObjectId_sample)
  then have w: "\<exists>k c. param ?i ''id'' = Some k \<and> castObjectId k = Some c
                  \<and> (\<forall>d\<in>set ?ms. oid d \<noteq> c)"
    by (intro exI[where x = ?k])
  have "param ?b ''id'' = Some ''b'' \<and> ''b'' \<noteq> [] \<and> castObjectId ''b'' = None"
    by (simp add: param_def castObjectId_short)
  then have f: "\<exists>k. param ?b ''id'' = Some k \<and> k \<noteq> [] \<and> castObjectId k = None"
    by (intro exI[where x = "''b''"])
  note a = ui_show_null_movie[where e = ?e and s = ?s and ms = ?ms and q = "[]"]
  note b = ui_show_null_movie[where e = ?e and s = ?s and ms = ?ms and q = ?q]
  note c = ui_show_null_movie[where e = ?e and s = ?s and ms = ?ms and q = ?i]
  note d = ui_show_null_movie[where e = ?e and s = ?s and ms = ?ms and q = ?b]
  from a m n have "fst (app ?e ?s (GET_ui_movie_show [])) =
       \<lparr> code = 200, payload = Render ''movie-view'' (MovieLocals None (Some (showDebug []))) \<rparr>"
    by blast
  moreover from b m k have "fst (app ?e ?s (GET_ui_movie_show ?q)) =
       \<lparr> code = 200, payload = Render ''movie-view'' (MovieLocals None (Some (showDebug ?q))) \<rparr>"
    by blast
  moreover from c m w have "fst (app ?e ?s (GET_ui_movie_show ?i)) =
       \<lparr> code = 200, payload = Render ''movie-view'' (MovieLocals None (Some (showDebug ?i))) \<rparr>"
    by blast
  moreover from a m n have "code (fst (app ?e ?s (GET_api_movies_find []))) = 400"
    by blast
  moreover from b m k have "code (fst (app ?e ?s (GET_api_movies_find ?q))) = 404"
    by blast
  moreover from c m w have "code (fst (app ?e ?s (GET_api_movies_find ?i))) = 404"
    by blast
  moreover from d m f have "code (fst (app ?e ?s (GET_ui_movie_show ?b))) = 500"
    by blast
  ultimately show ?thesis
    by (simp add: showDebug_def param_def)
qed

text \<open>
  The claim as stated fails in two places. When the movies store is not configured the
  guard of the route answers 503 before the page is rendered. And an \<open>id\<close> that the store
  cannot read as an identifier, such as \<open>b\<close>, raises a cast error, which is answered 500:
  the page is not rendered, and the REST find path answers 500 too, not 404.
\<close>

theorem ui_show_null_movie_counterexample:
  "code (fst (app \<lparr> NODE_ENV = None, newId = ''65a1b2c3d4e5f60718293a4d'', now = 7, frames = [] \<rparr>
           \<lparr> Employee = [], Movie = None, calls = [] \<rparr>
           (GET_ui_movie_show []))) = 503
   \<and> code (fst (app \<lparr> NODE_ENV = None, newId = ''65a1b2c3d4e5f60718293a4d'', now = 7, frames = [] \<rparr>
           \<lparr> Employee = [], Movie = Some [], calls = [] \<rparr>
           (GET_ui_movie_show [(''id'', ''b'')]))) = 500
   \<and> code (fst (app \<lparr> NODE_ENV = None, newId = ''65a1b2c3d4e5f60718293a4d'', now = 7, frames = [] \<rparr>
           \<lparr> Employee = [], Movie = Some [], calls = [] \<rparr>
           (GET_api_movies_find [(''id'', ''b'')]))) = 500"
  by (simp add: app_def route_def get_ui_movie_show_def get_api_movies_find_def
      ensureMovieConn_def param_def truthy_def Movie_findById_def found_def castObjectId_short
      error_handler_def CastError_status)


end
